theory Spec2Isabelle
  imports Main "HOL-Library.Word" "HOL-Library.Sublist" "HOL-Library.Monad_Syntax"
begin

section \<open>Kubernetes API types used by the builders\<close>

text \<open>
  The builders of \<^verbatim>\<open>cmd/install/assets/hypershift_operator.go\<close> populate structs of the
  Kubernetes API packages. Each struct is a record holding the fields that some builder of
  the file sets; a field the Go literal leaves out has Go's zero value, written out here
  (\<open>''''\<close>, \<open>[]\<close>, \<open>None\<close>, \<open>Map.empty\<close>, \<open>0\<close>). A nil slice and an empty slice are both
  \<open>[]\<close>, a nil map and an empty map are both \<open>Map.empty\<close>. A pointer to a struct that the
  builder allocates inside the object it returns (\<^verbatim>\<open>&metav1.LabelSelector{...}\<close>,
  \<^verbatim>\<open>&corev1.Probe{...}\<close>, \<^verbatim>\<open>&replicas\<close>) is an \<open>option\<close> value; a pointer held by a
  configuration struct is an address into the heap of the next section.
\<close>

type_synonym int32 = "32 word"
type_synonym int64 = "64 word"
type_synonym byte = "8 word"

record GroupVersion =
  GroupVersion_Group :: string
  GroupVersion_Version :: string

record TypeMeta =
  TypeMeta_Kind :: string
  TypeMeta_APIVersion :: string

record ObjectMeta =
  ObjectMeta_Name :: string
  ObjectMeta_Namespace :: string
  ObjectMeta_Labels :: "string \<rightharpoonup> string"

record LabelSelector =
  LabelSelector_MatchLabels :: "string \<rightharpoonup> string"

datatype IntOrString = FromInt int | FromString string

datatype Quantity = MustParse string

subsection \<open>core/v1\<close>

record Namespace =
  Namespace_TypeMeta :: TypeMeta
  Namespace_ObjectMeta :: ObjectMeta

record Secret =
  Secret_TypeMeta :: TypeMeta
  Secret_ObjectMeta :: ObjectMeta
  Secret_Data :: "string \<rightharpoonup> byte list"

record ServiceAccount =
  ServiceAccount_TypeMeta :: TypeMeta
  ServiceAccount_ObjectMeta :: ObjectMeta

record ObjectFieldSelector =
  ObjectFieldSelector_FieldPath :: string

record EnvVarSource =
  EnvVarSource_FieldRef :: "ObjectFieldSelector option"

record EnvVar =
  EnvVar_Name :: string
  EnvVar_Value :: string
  EnvVar_ValueFrom :: "EnvVarSource option"

record VolumeMount =
  VolumeMount_Name :: string
  VolumeMount_MountPath :: string

record SecretVolumeSource =
  SecretVolumeSource_SecretName :: string

record ServiceAccountTokenProjection =
  ServiceAccountTokenProjection_Audience :: string
  ServiceAccountTokenProjection_Path :: string

record VolumeProjection =
  VolumeProjection_ServiceAccountToken :: "ServiceAccountTokenProjection option"

record ProjectedVolumeSource =
  ProjectedVolumeSource_Sources :: "VolumeProjection list"

record VolumeSource =
  VolumeSource_Secret :: "SecretVolumeSource option"
  VolumeSource_Projected :: "ProjectedVolumeSource option"

record Volume =
  Volume_Name :: string
  Volume_VolumeSource :: VolumeSource

record ContainerPort =
  ContainerPort_Name :: string
  ContainerPort_ContainerPort :: int32
  ContainerPort_Protocol :: string

record HTTPGetAction =
  HTTPGetAction_Path :: string
  HTTPGetAction_Port :: IntOrString
  HTTPGetAction_Scheme :: string

record ProbeHandler =
  ProbeHandler_HTTPGet :: "HTTPGetAction option"

record Probe =
  Probe_ProbeHandler :: ProbeHandler
  Probe_InitialDelaySeconds :: int32
  Probe_PeriodSeconds :: int32
  Probe_SuccessThreshold :: int32
  Probe_FailureThreshold :: int32
  Probe_TimeoutSeconds :: int32

record ResourceRequirements =
  ResourceRequirements_Requests :: "string \<rightharpoonup> Quantity"

record SecurityContext =
  SecurityContext_RunAsUser :: "int64 option"

record Container =
  Container_Name :: string
  Container_SecurityContext :: "SecurityContext option"
  Container_Image :: string
  Container_ImagePullPolicy :: string
  Container_Env :: "EnvVar list"
  Container_Command :: "string list"
  Container_Args :: "string list"
  Container_LivenessProbe :: "Probe option"
  Container_ReadinessProbe :: "Probe option"
  Container_Ports :: "ContainerPort list"
  Container_Resources :: ResourceRequirements
  Container_VolumeMounts :: "VolumeMount list"

record PodSpec =
  PodSpec_ServiceAccountName :: string
  PodSpec_Containers :: "Container list"
  PodSpec_Volumes :: "Volume list"

record PodTemplateSpec =
  PodTemplateSpec_ObjectMeta :: ObjectMeta
  PodTemplateSpec_Spec :: PodSpec

record ServicePort =
  ServicePort_Name :: string
  ServicePort_Protocol :: string
  ServicePort_Port :: int32
  ServicePort_TargetPort :: IntOrString

record ServiceSpec =
  ServiceSpec_Type :: string
  ServiceSpec_Selector :: "string \<rightharpoonup> string"
  ServiceSpec_Ports :: "ServicePort list"

record Service =
  Service_TypeMeta :: TypeMeta
  Service_ObjectMeta :: ObjectMeta
  Service_Spec :: ServiceSpec

subsection \<open>apps/v1\<close>

record DeploymentSpec =
  DeploymentSpec_Replicas :: "int32 option"
  DeploymentSpec_Selector :: "LabelSelector option"
  DeploymentSpec_Template :: PodTemplateSpec

record Deployment =
  Deployment_TypeMeta :: TypeMeta
  Deployment_ObjectMeta :: ObjectMeta
  Deployment_Spec :: DeploymentSpec

subsection \<open>rbac/v1\<close>

record PolicyRule =
  PolicyRule_APIGroups :: "string list"
  PolicyRule_Resources :: "string list"
  PolicyRule_Verbs :: "string list"

record RoleRef =
  RoleRef_APIGroup :: string
  RoleRef_Kind :: string
  RoleRef_Name :: string

record Subject =
  Subject_Kind :: string
  Subject_APIGroup :: string
  Subject_Name :: string
  Subject_Namespace :: string

record ClusterRole =
  ClusterRole_TypeMeta :: TypeMeta
  ClusterRole_ObjectMeta :: ObjectMeta
  ClusterRole_Rules :: "PolicyRule list"

record Role =
  Role_TypeMeta :: TypeMeta
  Role_ObjectMeta :: ObjectMeta
  Role_Rules :: "PolicyRule list"

record ClusterRoleBinding =
  ClusterRoleBinding_TypeMeta :: TypeMeta
  ClusterRoleBinding_ObjectMeta :: ObjectMeta
  ClusterRoleBinding_RoleRef :: RoleRef
  ClusterRoleBinding_Subjects :: "Subject list"

record RoleBinding =
  RoleBinding_TypeMeta :: TypeMeta
  RoleBinding_ObjectMeta :: ObjectMeta
  RoleBinding_RoleRef :: RoleRef
  RoleBinding_Subjects :: "Subject list"

subsection \<open>scheduling/v1 and the prometheus-operator types\<close>

record PriorityClass =
  PriorityClass_TypeMeta :: TypeMeta
  PriorityClass_ObjectMeta :: ObjectMeta
  PriorityClass_Value :: int32
  PriorityClass_GlobalDefault :: bool
  PriorityClass_Description :: string

record Endpoint =
  Endpoint_Interval :: string
  Endpoint_Port :: string

record ServiceMonitorSpec =
  ServiceMonitorSpec_JobLabel :: string
  ServiceMonitorSpec_Selector :: LabelSelector
  ServiceMonitorSpec_Endpoints :: "Endpoint list"

record ServiceMonitor =
  ServiceMonitor_TypeMeta :: TypeMeta
  ServiceMonitor_ObjectMeta :: ObjectMeta
  ServiceMonitor_Spec :: ServiceMonitorSpec

record Rule =
  Rule_Record :: string
  Rule_Expr :: IntOrString

record RuleGroup =
  RuleGroup_Name :: string
  RuleGroup_Rules :: "Rule list"

record PrometheusRuleSpec =
  PrometheusRuleSpec_Groups :: "RuleGroup list"

record PrometheusRule =
  PrometheusRule_TypeMeta :: TypeMeta
  PrometheusRule_ObjectMeta :: ObjectMeta
  PrometheusRule_Spec :: PrometheusRuleSpec

subsection \<open>Constants of the API packages\<close>

text \<open>
  \<^verbatim>\<open>SchemeGroupVersion\<close> of each API package and \<^verbatim>\<open>GroupVersion.String()\<close> of apimachinery,
  which prints \<^verbatim>\<open>group/version\<close>, or the version alone for the empty (core) group.
\<close>

definition GroupVersion_String :: "GroupVersion \<Rightarrow> string" where
  "GroupVersion_String gv =
     (if length (GroupVersion_Group gv) > 0
      then GroupVersion_Group gv @ ''/'' @ GroupVersion_Version gv
      else GroupVersion_Version gv)"

definition corev1_SchemeGroupVersion :: GroupVersion where
  "corev1_SchemeGroupVersion = \<lparr>GroupVersion_Group = [], GroupVersion_Version = ''v1''\<rparr>"

definition appsv1_SchemeGroupVersion :: GroupVersion where
  "appsv1_SchemeGroupVersion = \<lparr>GroupVersion_Group = ''apps'', GroupVersion_Version = ''v1''\<rparr>"

definition rbacv1_SchemeGroupVersion :: GroupVersion where
  "rbacv1_SchemeGroupVersion =
     \<lparr>GroupVersion_Group = ''rbac.authorization.k8s.io'', GroupVersion_Version = ''v1''\<rparr>"

definition schedulingv1_SchemeGroupVersion :: GroupVersion where
  "schedulingv1_SchemeGroupVersion =
     \<lparr>GroupVersion_Group = ''scheduling.k8s.io'', GroupVersion_Version = ''v1''\<rparr>"

definition prometheusoperatorv1_SchemeGroupVersion :: GroupVersion where
  "prometheusoperatorv1_SchemeGroupVersion =
     \<lparr>GroupVersion_Group = ''monitoring.coreos.com'', GroupVersion_Version = ''v1''\<rparr>"

definition corev1_PullIfNotPresent :: string where
  "corev1_PullIfNotPresent = ''IfNotPresent''"

definition corev1_PullAlways :: string where
  "corev1_PullAlways = ''Always''"

definition corev1_URISchemeHTTP :: string where
  "corev1_URISchemeHTTP = ''HTTP''"

definition corev1_ProtocolTCP :: string where
  "corev1_ProtocolTCP = ''TCP''"

definition corev1_ResourceMemory :: string where
  "corev1_ResourceMemory = ''memory''"

definition corev1_ResourceCPU :: string where
  "corev1_ResourceCPU = ''cpu''"

definition corev1_ServiceTypeClusterIP :: string where
  "corev1_ServiceTypeClusterIP = ''ClusterIP''"

text \<open>
  The package \<^verbatim>\<open>hyperv1\<close> (\<^verbatim>\<open>github.com/openshift/hypershift/api/v1alpha1\<close>) is not among
  the source files. The three constants of it that the builders use are parameters of
  the model: the two platform types that \<^verbatim>\<open>HyperShiftOperatorDeployment.Build\<close> compares
  the configured private platform with, and the label key \<^verbatim>\<open>OperatorComponent\<close>.
\<close>

record hyperv1 =
  hyperv1_NonePlatform :: string
  hyperv1_AWSPlatform :: string
  hyperv1_OperatorComponent :: string

text \<open>\<^verbatim>\<open>fmt.Sprintf("%t", b)\<close> prints a boolean.\<close>

definition Sprintf_t :: "bool \<Rightarrow> string" where
  "Sprintf_t b = (if b then ''true'' else ''false'')"

section \<open>The heap\<close>

text \<open>
  The configuration structs hold pointers (\<^verbatim>\<open>*corev1.Namespace\<close>, \<^verbatim>\<open>*corev1.Secret\<close>, ...)
  to objects the caller owns, and every \<^verbatim>\<open>Build\<close> returns a pointer to an object it
  allocates. The heap is the list of the objects allocated so far; an address is an index
  into it and \<^verbatim>\<open>nil\<close> is \<open>None\<close>. Allocation appends. Dereferencing \<^verbatim>\<open>nil\<close> panics:
  the load is \<open>None\<close>, and so is then the \<^verbatim>\<open>Build\<close> that made it. (An address beyond the
  heap or holding an object of another type than the pointer's cannot arise in Go; the
  load is \<open>None\<close> there as well.)
\<close>

type_synonym addr = nat

datatype obj =
    ONamespace Namespace
  | OSecret Secret
  | OServiceAccount ServiceAccount
  | ODeployment Deployment
  | OService Service
  | OClusterRole ClusterRole
  | ORole Role
  | OClusterRoleBinding ClusterRoleBinding
  | ORoleBinding RoleBinding
  | OPriorityClass PriorityClass
  | OServiceMonitor ServiceMonitor
  | OPrometheusRule PrometheusRule

type_synonym heap = "obj list"

definition new :: "obj \<Rightarrow> heap \<Rightarrow> addr \<times> heap" where
  "new v h = (length h, h @ [v])"

definition deref :: "addr option \<Rightarrow> heap \<Rightarrow> obj option" where
  "deref p h = (case p of None \<Rightarrow> None | Some a \<Rightarrow> if a < length h then Some (h ! a) else None)"

definition load_Namespace :: "addr option \<Rightarrow> heap \<Rightarrow> Namespace option" where
  "load_Namespace p h = (case deref p h of Some (ONamespace x) \<Rightarrow> Some x | _ \<Rightarrow> None)"

definition load_Secret :: "addr option \<Rightarrow> heap \<Rightarrow> Secret option" where
  "load_Secret p h = (case deref p h of Some (OSecret x) \<Rightarrow> Some x | _ \<Rightarrow> None)"

definition load_ServiceAccount :: "addr option \<Rightarrow> heap \<Rightarrow> ServiceAccount option" where
  "load_ServiceAccount p h = (case deref p h of Some (OServiceAccount x) \<Rightarrow> Some x | _ \<Rightarrow> None)"

definition load_ClusterRole :: "addr option \<Rightarrow> heap \<Rightarrow> ClusterRole option" where
  "load_ClusterRole p h = (case deref p h of Some (OClusterRole x) \<Rightarrow> Some x | _ \<Rightarrow> None)"

definition load_Role :: "addr option \<Rightarrow> heap \<Rightarrow> Role option" where
  "load_Role p h = (case deref p h of Some (ORole x) \<Rightarrow> Some x | _ \<Rightarrow> None)"

definition load_Deployment :: "addr option \<Rightarrow> heap \<Rightarrow> Deployment option" where
  "load_Deployment p h = (case deref p h of Some (ODeployment x) \<Rightarrow> Some x | _ \<Rightarrow> None)"

definition load_PrometheusRule :: "addr option \<Rightarrow> heap \<Rightarrow> PrometheusRule option" where
  "load_PrometheusRule p h = (case deref p h of Some (OPrometheusRule x) \<Rightarrow> Some x | _ \<Rightarrow> None)"

definition load_ClusterRoleBinding :: "addr option \<Rightarrow> heap \<Rightarrow> ClusterRoleBinding option" where
  "load_ClusterRoleBinding p h =
     (case deref p h of Some (OClusterRoleBinding x) \<Rightarrow> Some x | _ \<Rightarrow> None)"

definition load_RoleBinding :: "addr option \<Rightarrow> heap \<Rightarrow> RoleBinding option" where
  "load_RoleBinding p h = (case deref p h of Some (ORoleBinding x) \<Rightarrow> Some x | _ \<Rightarrow> None)"

text \<open>
  An assignment through a pointer, \<^verbatim>\<open>p.field = e\<close>: the object at \<open>p\<close> is read, changed
  and written back at the same address. The change can itself panic (an index out of
  range), hence the \<open>option\<close>.
\<close>

definition update_Namespace ::
  "addr \<Rightarrow> (Namespace \<Rightarrow> Namespace option) \<Rightarrow> heap \<Rightarrow> heap option" where
  "update_Namespace p f h =
     do { x \<leftarrow> load_Namespace (Some p) h; y \<leftarrow> f x; Some (h[p := ONamespace y]) }"

definition update_Deployment ::
  "addr \<Rightarrow> (Deployment \<Rightarrow> Deployment option) \<Rightarrow> heap \<Rightarrow> heap option" where
  "update_Deployment p f h =
     do { x \<leftarrow> load_Deployment (Some p) h; y \<leftarrow> f x; Some (h[p := ODeployment y]) }"

definition update_PrometheusRule ::
  "addr \<Rightarrow> (PrometheusRule \<Rightarrow> PrometheusRule option) \<Rightarrow> heap \<Rightarrow> heap option" where
  "update_PrometheusRule p f h =
     do { x \<leftarrow> load_PrometheusRule (Some p) h; y \<leftarrow> f x; Some (h[p := OPrometheusRule y]) }"

text \<open>
  The paths the Deployment builders assign through:
  \<^verbatim>\<open>deployment.Spec.Template.Spec\<close> and, inside it, \<^verbatim>\<open>Containers[0]\<close>, whose index
  expression panics on an empty slice.
\<close>

definition Deployment_PodSpec :: "Deployment \<Rightarrow> PodSpec" where
  "Deployment_PodSpec d = PodTemplateSpec_Spec (DeploymentSpec_Template (Deployment_Spec d))"

definition set_PodSpec :: "PodSpec \<Rightarrow> Deployment \<Rightarrow> Deployment" where
  "set_PodSpec ps d =
     d\<lparr>Deployment_Spec := (Deployment_Spec d)
        \<lparr>DeploymentSpec_Template := (DeploymentSpec_Template (Deployment_Spec d))
           \<lparr>PodTemplateSpec_Spec := ps\<rparr>\<rparr>\<rparr>"

definition assign_Volumes :: "(Volume list \<Rightarrow> Volume list) \<Rightarrow> Deployment \<Rightarrow> Deployment option" where
  "assign_Volumes f d =
     Some (set_PodSpec ((Deployment_PodSpec d)
                          \<lparr>PodSpec_Volumes := f (PodSpec_Volumes (Deployment_PodSpec d))\<rparr>) d)"

definition assign_Containers0 :: "(Container \<Rightarrow> Container) \<Rightarrow> Deployment \<Rightarrow> Deployment option" where
  "assign_Containers0 f d =
     (case PodSpec_Containers (Deployment_PodSpec d) of
        [] \<Rightarrow> None
      | c # cs \<Rightarrow> Some (set_PodSpec ((Deployment_PodSpec d)\<lparr>PodSpec_Containers := f c # cs\<rparr>) d))"

section \<open>The builders\<close>

text \<open>
  One record per configuration struct and one function per \<^verbatim>\<open>Build\<close> method, in the order
  of the source file. \<^verbatim>\<open>Build\<close> has a value receiver: it works on its own copy of the
  configuration struct, so the record is an argument and only the objects its pointer
  fields reference live in the heap. A \<^verbatim>\<open>Build\<close> takes the heap, and returns the address of
  the object it allocated together with the heap after the call, or \<open>None\<close> when it
  panics.
\<close>

definition EtcdPriorityClass :: string where
  "EtcdPriorityClass = ''hypershift-etcd''"

definition APICriticalPriorityClass :: string where
  "APICriticalPriorityClass = ''hypershift-api-critical''"

definition DefaultPriorityClass :: string where
  "DefaultPriorityClass = ''hypershift-control-plane''"

record HyperShiftNamespace =
  HyperShiftNamespace_Name :: string
  HyperShiftNamespace_EnableOCPClusterMonitoring :: bool

definition HyperShiftNamespace_Build :: "HyperShiftNamespace \<Rightarrow> heap \<Rightarrow> (addr \<times> heap) option" where
  "HyperShiftNamespace_Build cfg h =
     do {
       let (namespace, h) = new (ONamespace
         \<lparr>Namespace_TypeMeta =
            \<lparr>TypeMeta_Kind = ''Namespace'',
             TypeMeta_APIVersion = GroupVersion_String corev1_SchemeGroupVersion\<rparr>,
          Namespace_ObjectMeta =
            \<lparr>ObjectMeta_Name = HyperShiftNamespace_Name cfg,
             ObjectMeta_Namespace = [],
             ObjectMeta_Labels = Map.empty\<rparr>\<rparr>) h;
       if HyperShiftNamespace_EnableOCPClusterMonitoring cfg then
         do {
           h \<leftarrow> update_Namespace namespace (\<lambda>n. Some (n
             \<lparr>Namespace_ObjectMeta := (Namespace_ObjectMeta n)
                \<lparr>ObjectMeta_Labels := [''openshift.io/cluster-monitoring'' \<mapsto> ''true'']\<rparr>\<rparr>)) h;
           Some (namespace, h)
         }
       else Some (namespace, h)
     }"

definition awsCredsSecretName :: string where
  "awsCredsSecretName = ''hypershift-operator-aws-credentials''"

definition awsCredsSecretKey :: string where
  "awsCredsSecretKey = ''credentials''"

definition oidcProviderS3CredsSecretName :: string where
  "oidcProviderS3CredsSecretName = ''hypershift-operator-oidc-provider-s3-credentials''"

definition externaDNSCredsSecretName :: string where
  "externaDNSCredsSecretName = ''external-dns-credentials''"

record HyperShiftOperatorCredentialsSecret =
  HyperShiftOperatorCredentialsSecret_Namespace :: "addr option"
  HyperShiftOperatorCredentialsSecret_CredsBytes :: "byte list"

definition HyperShiftOperatorCredentialsSecret_Build ::
  "HyperShiftOperatorCredentialsSecret \<Rightarrow> heap \<Rightarrow> (addr \<times> heap) option" where
  "HyperShiftOperatorCredentialsSecret_Build cfg h =
     do {
       ns \<leftarrow> load_Namespace (HyperShiftOperatorCredentialsSecret_Namespace cfg) h;
       let (secret, h) = new (OSecret
         \<lparr>Secret_TypeMeta =
            \<lparr>TypeMeta_Kind = ''Secret'',
             TypeMeta_APIVersion = GroupVersion_String corev1_SchemeGroupVersion\<rparr>,
          Secret_ObjectMeta =
            \<lparr>ObjectMeta_Name = awsCredsSecretName,
             ObjectMeta_Namespace = ObjectMeta_Name (Namespace_ObjectMeta ns),
             ObjectMeta_Labels = Map.empty\<rparr>,
          Secret_Data =
            [awsCredsSecretKey \<mapsto> HyperShiftOperatorCredentialsSecret_CredsBytes cfg]\<rparr>) h;
       Some (secret, h)
     }"

record HyperShiftOperatorOIDCProviderS3Secret =
  HyperShiftOperatorOIDCProviderS3Secret_Namespace :: "addr option"
  HyperShiftOperatorOIDCProviderS3Secret_OIDCStorageProviderS3CredBytes :: "byte list"
  HyperShiftOperatorOIDCProviderS3Secret_CredsKey :: string

definition HyperShiftOperatorOIDCProviderS3Secret_Build ::
  "HyperShiftOperatorOIDCProviderS3Secret \<Rightarrow> heap \<Rightarrow> (addr \<times> heap) option" where
  "HyperShiftOperatorOIDCProviderS3Secret_Build cfg h =
     do {
       ns \<leftarrow> load_Namespace (HyperShiftOperatorOIDCProviderS3Secret_Namespace cfg) h;
       let (secret, h) = new (OSecret
         \<lparr>Secret_TypeMeta =
            \<lparr>TypeMeta_Kind = ''Secret'',
             TypeMeta_APIVersion = GroupVersion_String corev1_SchemeGroupVersion\<rparr>,
          Secret_ObjectMeta =
            \<lparr>ObjectMeta_Name = oidcProviderS3CredsSecretName,
             ObjectMeta_Namespace = ObjectMeta_Name (Namespace_ObjectMeta ns),
             ObjectMeta_Labels = Map.empty\<rparr>,
          Secret_Data =
            [HyperShiftOperatorOIDCProviderS3Secret_CredsKey cfg \<mapsto>
               HyperShiftOperatorOIDCProviderS3Secret_OIDCStorageProviderS3CredBytes cfg]\<rparr>) h;
       Some (secret, h)
     }"

record ExternalDNSCredsSecret =
  ExternalDNSCredsSecret_Namespace :: "addr option"
  ExternalDNSCredsSecret_CredsBytes :: "byte list"

definition ExternalDNSCredsSecret_Build ::
  "ExternalDNSCredsSecret \<Rightarrow> heap \<Rightarrow> (addr \<times> heap) option" where
  "ExternalDNSCredsSecret_Build cfg h =
     do {
       ns \<leftarrow> load_Namespace (ExternalDNSCredsSecret_Namespace cfg) h;
       let (secret, h) = new (OSecret
         \<lparr>Secret_TypeMeta =
            \<lparr>TypeMeta_Kind = ''Secret'',
             TypeMeta_APIVersion = GroupVersion_String corev1_SchemeGroupVersion\<rparr>,
          Secret_ObjectMeta =
            \<lparr>ObjectMeta_Name = externaDNSCredsSecretName,
             ObjectMeta_Namespace = ObjectMeta_Name (Namespace_ObjectMeta ns),
             ObjectMeta_Labels = Map.empty\<rparr>,
          Secret_Data = [''credentials'' \<mapsto> ExternalDNSCredsSecret_CredsBytes cfg]\<rparr>) h;
       Some (secret, h)
     }"


record ExternalDNSDeployment =
  ExternalDNSDeployment_Namespace :: "addr option"
  ExternalDNSDeployment_Image :: string
  ExternalDNSDeployment_ServiceAccount :: "addr option"
  ExternalDNSDeployment_Provider :: string
  ExternalDNSDeployment_DomainFilter :: string
  ExternalDNSDeployment_CredentialsSecret :: "addr option"

text \<open>
  The composite literal that \<^verbatim>\<open>ExternalDNSDeployment.Build\<close> assigns to \<^verbatim>\<open>deployment\<close> is
  written in two pieces: the one element of \<^verbatim>\<open>Containers\<close>, and the Deployment around it.
  \<open>ns\<close>, \<open>sa\<close> and \<open>cs\<close> are the objects behind \<^verbatim>\<open>o.Namespace\<close>, \<^verbatim>\<open>o.ServiceAccount\<close> and
  \<^verbatim>\<open>o.CredentialsSecret\<close>.
\<close>

definition ExternalDNSDeployment_container :: "ExternalDNSDeployment \<Rightarrow> Container" where
  "ExternalDNSDeployment_container cfg =
     \<lparr>Container_Name = ''external-dns'',
      Container_SecurityContext = None,
      Container_Image = ExternalDNSDeployment_Image cfg,
      Container_ImagePullPolicy = corev1_PullIfNotPresent,
      Container_Env = [],
      Container_Command = [''/external-dns''],
      Container_Args =
        [''--source=service'',
         ''--source=openshift-route'',
         ''--domain-filter='' @ ExternalDNSDeployment_DomainFilter cfg,
         ''--provider='' @ ExternalDNSDeployment_Provider cfg,
         ''--registry=noop'',
         ''--txt-owner-id=hypershift''],
      Container_LivenessProbe = Some
        \<lparr>Probe_ProbeHandler =
           \<lparr>ProbeHandler_HTTPGet = Some
              \<lparr>HTTPGetAction_Path = ''/healthz'',
               HTTPGetAction_Port = FromInt 7979,
               HTTPGetAction_Scheme = corev1_URISchemeHTTP\<rparr>\<rparr>,
         Probe_InitialDelaySeconds = 60,
         Probe_PeriodSeconds = 60,
         Probe_SuccessThreshold = 1,
         Probe_FailureThreshold = 5,
         Probe_TimeoutSeconds = 5\<rparr>,
      Container_ReadinessProbe = None,
      Container_Ports =
        [\<lparr>ContainerPort_Name = ''metrics'',
          ContainerPort_ContainerPort = 7979,
          ContainerPort_Protocol = []\<rparr>],
      Container_Resources =
        \<lparr>ResourceRequirements_Requests =
           [corev1_ResourceMemory \<mapsto> MustParse ''20Mi'',
            corev1_ResourceCPU \<mapsto> MustParse ''5m'']\<rparr>,
      Container_VolumeMounts =
        [\<lparr>VolumeMount_Name = ''credentials'',
          VolumeMount_MountPath = ''/etc/provider''\<rparr>]\<rparr>"

definition ExternalDNSDeployment_literal ::
  "hyperv1 \<Rightarrow> ExternalDNSDeployment \<Rightarrow> int32 \<Rightarrow> Namespace \<Rightarrow> ServiceAccount \<Rightarrow> Secret \<Rightarrow>
   Deployment" where
  "ExternalDNSDeployment_literal hyperv1 cfg replicas ns sa cs =
     \<lparr>Deployment_TypeMeta =
        \<lparr>TypeMeta_Kind = ''Deployment'',
         TypeMeta_APIVersion = GroupVersion_String appsv1_SchemeGroupVersion\<rparr>,
      Deployment_ObjectMeta =
        \<lparr>ObjectMeta_Name = ''external-dns'',
         ObjectMeta_Namespace = ObjectMeta_Name (Namespace_ObjectMeta ns),
         ObjectMeta_Labels = Map.empty\<rparr>,
      Deployment_Spec =
        \<lparr>DeploymentSpec_Replicas = Some replicas,
         DeploymentSpec_Selector =
           Some \<lparr>LabelSelector_MatchLabels = [''name'' \<mapsto> ''external-dns'']\<rparr>,
         DeploymentSpec_Template =
           \<lparr>PodTemplateSpec_ObjectMeta =
              \<lparr>ObjectMeta_Name = [],
               ObjectMeta_Namespace = [],
               ObjectMeta_Labels =
                 [''name'' \<mapsto> ''external-dns'',
                  ''app'' \<mapsto> ''external-dns'',
                  hyperv1_OperatorComponent hyperv1 \<mapsto> ''external-dns'']\<rparr>,
            PodTemplateSpec_Spec =
              \<lparr>PodSpec_ServiceAccountName = ObjectMeta_Name (ServiceAccount_ObjectMeta sa),
               PodSpec_Containers = [ExternalDNSDeployment_container cfg],
               PodSpec_Volumes =
                 [\<lparr>Volume_Name = ''credentials'',
                   Volume_VolumeSource =
                     \<lparr>VolumeSource_Secret = Some
                        \<lparr>SecretVolumeSource_SecretName =
                           ObjectMeta_Name (Secret_ObjectMeta cs)\<rparr>,
                      VolumeSource_Projected = None\<rparr>\<rparr>]\<rparr>\<rparr>\<rparr>\<rparr>"

definition ExternalDNSDeployment_Build ::
  "hyperv1 \<Rightarrow> ExternalDNSDeployment \<Rightarrow> heap \<Rightarrow> (addr \<times> heap) option" where
  "ExternalDNSDeployment_Build hyperv1 cfg h =
     do {
       let replicas = (1 :: int32);
       ns \<leftarrow> load_Namespace (ExternalDNSDeployment_Namespace cfg) h;
       sa \<leftarrow> load_ServiceAccount (ExternalDNSDeployment_ServiceAccount cfg) h;
       cs \<leftarrow> load_Secret (ExternalDNSDeployment_CredentialsSecret cfg) h;
       let (deployment, h) =
         new (ODeployment (ExternalDNSDeployment_literal hyperv1 cfg replicas ns sa cs)) h;
       if ExternalDNSDeployment_Provider cfg = ''aws'' then
         do {
           h \<leftarrow> update_Deployment deployment (assign_Containers0 (\<lambda>c. c
             \<lparr>Container_Env := Container_Env c @
                [\<lparr>EnvVar_Name = ''AWS_SHARED_CREDENTIALS_FILE'',
                  EnvVar_Value = ''/etc/provider/credentials'',
                  EnvVar_ValueFrom = None\<rparr>,
                 \<lparr>EnvVar_Name = ''AWS_REGION'',
                  EnvVar_Value = ''us-east-1'',
                  EnvVar_ValueFrom = None\<rparr>]\<rparr>)) h;
           h \<leftarrow> update_Deployment deployment (assign_Containers0 (\<lambda>c. c
             \<lparr>Container_Args := Container_Args c @ [''--aws-zone-type=public'']\<rparr>)) h;
           Some (deployment, h)
         }
       else Some (deployment, h)
     }"

record HyperShiftOperatorDeployment =
  HyperShiftOperatorDeployment_Namespace :: "addr option"
  HyperShiftOperatorDeployment_OperatorImage :: string
  HyperShiftOperatorDeployment_ServiceAccount :: "addr option"
  HyperShiftOperatorDeployment_Replicas :: int32
  HyperShiftOperatorDeployment_EnableOCPClusterMonitoring :: bool
  HyperShiftOperatorDeployment_EnableCIDebugOutput :: bool
  HyperShiftOperatorDeployment_PrivatePlatform :: string
  HyperShiftOperatorDeployment_AWSPrivateCreds :: string
  HyperShiftOperatorDeployment_AWSPrivateRegion :: string
  HyperShiftOperatorDeployment_OIDCBucketName :: string
  HyperShiftOperatorDeployment_OIDCBucketRegion :: string
  HyperShiftOperatorDeployment_OIDCStorageProviderS3Secret :: "addr option"
  HyperShiftOperatorDeployment_OIDCStorageProviderS3SecretKey :: string

text \<open>
  The composite literal that \<^verbatim>\<open>HyperShiftOperatorDeployment.Build\<close> assigns to
  \<^verbatim>\<open>deployment\<close>, again in two pieces; \<open>args\<close>, \<open>envVars\<close>, \<open>oidcVolumeMount\<close> and
  \<open>oidcVolumeCred\<close> are the locals of the method at that point. \<^verbatim>\<open>Replicas\<close> points to the
  field of the method's own copy of the configuration.
\<close>

definition HyperShiftOperatorDeployment_container ::
  "HyperShiftOperatorDeployment \<Rightarrow> string list \<Rightarrow> EnvVar list \<Rightarrow> VolumeMount list \<Rightarrow> Container" where
  "HyperShiftOperatorDeployment_container cfg args envVars oidcVolumeMount =
     \<lparr>Container_Name = ''operator'',
      Container_SecurityContext = Some \<lparr>SecurityContext_RunAsUser = Some 1000\<rparr>,
      Container_Image = HyperShiftOperatorDeployment_OperatorImage cfg,
      Container_ImagePullPolicy = corev1_PullAlways,
      Container_Env = envVars,
      Container_Command = [''/usr/bin/hypershift-operator''],
      Container_Args = args,
      Container_LivenessProbe = Some
        \<lparr>Probe_ProbeHandler =
           \<lparr>ProbeHandler_HTTPGet = Some
              \<lparr>HTTPGetAction_Path = ''/metrics'',
               HTTPGetAction_Port = FromInt 9000,
               HTTPGetAction_Scheme = corev1_URISchemeHTTP\<rparr>\<rparr>,
         Probe_InitialDelaySeconds = 60,
         Probe_PeriodSeconds = 60,
         Probe_SuccessThreshold = 1,
         Probe_FailureThreshold = 5,
         Probe_TimeoutSeconds = 5\<rparr>,
      Container_ReadinessProbe = Some
        \<lparr>Probe_ProbeHandler =
           \<lparr>ProbeHandler_HTTPGet = Some
              \<lparr>HTTPGetAction_Path = ''/metrics'',
               HTTPGetAction_Port = FromInt 9000,
               HTTPGetAction_Scheme = corev1_URISchemeHTTP\<rparr>\<rparr>,
         Probe_InitialDelaySeconds = 15,
         Probe_PeriodSeconds = 60,
         Probe_SuccessThreshold = 1,
         Probe_FailureThreshold = 3,
         Probe_TimeoutSeconds = 5\<rparr>,
      Container_Ports =
        [\<lparr>ContainerPort_Name = ''metrics'',
          ContainerPort_ContainerPort = 9000,
          ContainerPort_Protocol = corev1_ProtocolTCP\<rparr>],
      Container_Resources =
        \<lparr>ResourceRequirements_Requests =
           [corev1_ResourceMemory \<mapsto> MustParse ''150Mi'',
            corev1_ResourceCPU \<mapsto> MustParse ''10m'']\<rparr>,
      Container_VolumeMounts = oidcVolumeMount\<rparr>"

definition HyperShiftOperatorDeployment_literal ::
  "hyperv1 \<Rightarrow> HyperShiftOperatorDeployment \<Rightarrow> Namespace \<Rightarrow> ServiceAccount \<Rightarrow>
   string list \<Rightarrow> EnvVar list \<Rightarrow> VolumeMount list \<Rightarrow> Volume list \<Rightarrow> Deployment" where
  "HyperShiftOperatorDeployment_literal hyperv1 cfg ns sa args envVars oidcVolumeMount oidcVolumeCred =
     \<lparr>Deployment_TypeMeta =
        \<lparr>TypeMeta_Kind = ''Deployment'',
         TypeMeta_APIVersion = GroupVersion_String appsv1_SchemeGroupVersion\<rparr>,
      Deployment_ObjectMeta =
        \<lparr>ObjectMeta_Name = ''operator'',
         ObjectMeta_Namespace = ObjectMeta_Name (Namespace_ObjectMeta ns),
         ObjectMeta_Labels = Map.empty\<rparr>,
      Deployment_Spec =
        \<lparr>DeploymentSpec_Replicas = Some (HyperShiftOperatorDeployment_Replicas cfg),
         DeploymentSpec_Selector =
           Some \<lparr>LabelSelector_MatchLabels = [''name'' \<mapsto> ''operator'']\<rparr>,
         DeploymentSpec_Template =
           \<lparr>PodTemplateSpec_ObjectMeta =
              \<lparr>ObjectMeta_Name = [],
               ObjectMeta_Namespace = [],
               ObjectMeta_Labels =
                 [''name'' \<mapsto> ''operator'',
                  hyperv1_OperatorComponent hyperv1 \<mapsto> ''operator'',
                  ''app'' \<mapsto> ''operator'']\<rparr>,
            PodTemplateSpec_Spec =
              \<lparr>PodSpec_ServiceAccountName = ObjectMeta_Name (ServiceAccount_ObjectMeta sa),
               PodSpec_Containers =
                 [HyperShiftOperatorDeployment_container cfg args envVars oidcVolumeMount],
               PodSpec_Volumes = oidcVolumeCred\<rparr>\<rparr>\<rparr>\<rparr>"

text \<open>
  \<^verbatim>\<open>Build\<close> itself is written in the three steps of the method around that literal. The
  first is the \<^verbatim>\<open>if\<close> that wires the OIDC S3 bucket: it reassigns the locals \<^verbatim>\<open>args\<close>,
  \<^verbatim>\<open>oidcVolumeMount\<close> and \<^verbatim>\<open>oidcVolumeCred\<close>, whose values before and after are the
  arguments and the result. The condition is a chain of \<^verbatim>\<open>&&\<close>: the secret is
  dereferenced only after the three length tests and the \<^verbatim>\<open>nil\<close> test have passed.
\<close>

definition HyperShiftOperatorDeployment_oidc ::
  "HyperShiftOperatorDeployment \<Rightarrow> heap \<Rightarrow> string list \<Rightarrow> VolumeMount list \<Rightarrow> Volume list \<Rightarrow>
   (string list \<times> VolumeMount list \<times> Volume list) option" where
  "HyperShiftOperatorDeployment_oidc cfg h args oidcVolumeMount oidcVolumeCred =
     (if length (HyperShiftOperatorDeployment_OIDCBucketName cfg) > 0 \<and>
         length (HyperShiftOperatorDeployment_OIDCBucketRegion cfg) > 0 \<and>
         length (HyperShiftOperatorDeployment_OIDCStorageProviderS3SecretKey cfg) > 0 \<and>
         HyperShiftOperatorDeployment_OIDCStorageProviderS3Secret cfg \<noteq> None
      then
        do {
          s3 \<leftarrow> load_Secret (HyperShiftOperatorDeployment_OIDCStorageProviderS3Secret cfg) h;
          if length (ObjectMeta_Name (Secret_ObjectMeta s3)) > 0 then
            Some
              (args @
                 [''--oidc-storage-provider-s3-bucket-name='' @
                    HyperShiftOperatorDeployment_OIDCBucketName cfg,
                  ''--oidc-storage-provider-s3-region='' @
                    HyperShiftOperatorDeployment_OIDCBucketRegion cfg,
                  ''--oidc-storage-provider-s3-credentials=/etc/oidc-storage-provider-s3-creds/'' @
                    HyperShiftOperatorDeployment_OIDCStorageProviderS3SecretKey cfg],
               [\<lparr>VolumeMount_Name = ''oidc-storage-provider-s3-creds'',
                 VolumeMount_MountPath = ''/etc/oidc-storage-provider-s3-creds''\<rparr>],
               [\<lparr>Volume_Name = ''oidc-storage-provider-s3-creds'',
                 Volume_VolumeSource =
                   \<lparr>VolumeSource_Secret = Some
                      \<lparr>SecretVolumeSource_SecretName =
                         ObjectMeta_Name (Secret_ObjectMeta s3)\<rparr>,
                    VolumeSource_Projected = None\<rparr>\<rparr>])
          else Some (args, oidcVolumeMount, oidcVolumeCred)
        }
      else Some (args, oidcVolumeMount, oidcVolumeCred))"

text \<open>
  The last step is everything after the literal: the early return for the platform
  \<^verbatim>\<open>hyperv1.NonePlatform\<close>, the provider credentials volume and its mount, and the
  \<^verbatim>\<open>switch\<close> whose one case is \<^verbatim>\<open>hyperv1.AWSPlatform\<close>. Each assignment goes through the
  pointer \<^verbatim>\<open>deployment\<close>.
\<close>

definition HyperShiftOperatorDeployment_platform ::
  "hyperv1 \<Rightarrow> HyperShiftOperatorDeployment \<Rightarrow> addr \<Rightarrow> heap \<Rightarrow> (addr \<times> heap) option" where
  "HyperShiftOperatorDeployment_platform hyperv1 cfg deployment h =
     do {
       let privatePlatformType = HyperShiftOperatorDeployment_PrivatePlatform cfg;
       if privatePlatformType = hyperv1_NonePlatform hyperv1 then Some (deployment, h)
       else
         do {
           h \<leftarrow> update_Deployment deployment (assign_Volumes (\<lambda>vs. vs @
             [\<lparr>Volume_Name = ''credentials'',
               Volume_VolumeSource =
                 \<lparr>VolumeSource_Secret = Some
                    \<lparr>SecretVolumeSource_SecretName = awsCredsSecretName\<rparr>,
                  VolumeSource_Projected = None\<rparr>\<rparr>])) h;
           h \<leftarrow> update_Deployment deployment (assign_Containers0 (\<lambda>c. c
             \<lparr>Container_VolumeMounts := Container_VolumeMounts c @
                [\<lparr>VolumeMount_Name = ''credentials'',
                  VolumeMount_MountPath = ''/etc/provider''\<rparr>]\<rparr>)) h;
           if privatePlatformType = hyperv1_AWSPlatform hyperv1 then
             do {
               h \<leftarrow> update_Deployment deployment (assign_Containers0 (\<lambda>c. c
                 \<lparr>Container_Env := Container_Env c @
                    [\<lparr>EnvVar_Name = ''AWS_SHARED_CREDENTIALS_FILE'',
                      EnvVar_Value = ''/etc/provider/credentials'',
                      EnvVar_ValueFrom = None\<rparr>,
                     \<lparr>EnvVar_Name = ''AWS_REGION'',
                      EnvVar_Value = HyperShiftOperatorDeployment_AWSPrivateRegion cfg,
                      EnvVar_ValueFrom = None\<rparr>]\<rparr>)) h;
               h \<leftarrow> update_Deployment deployment (assign_Containers0 (\<lambda>c. c
                 \<lparr>Container_VolumeMounts := Container_VolumeMounts c @
                    [\<lparr>VolumeMount_Name = ''token'',
                      VolumeMount_MountPath = ''/var/run/secrets/openshift/serviceaccount''\<rparr>]\<rparr>)) h;
               h \<leftarrow> update_Deployment deployment (assign_Volumes (\<lambda>vs. vs @
                 [\<lparr>Volume_Name = ''token'',
                   Volume_VolumeSource =
                     \<lparr>VolumeSource_Secret = None,
                      VolumeSource_Projected = Some
                        \<lparr>ProjectedVolumeSource_Sources =
                           [\<lparr>VolumeProjection_ServiceAccountToken = Some
                               \<lparr>ServiceAccountTokenProjection_Audience = ''openshift'',
                                ServiceAccountTokenProjection_Path = ''token''\<rparr>\<rparr>]\<rparr>\<rparr>\<rparr>])) h;
               Some (deployment, h)
             }
           else Some (deployment, h)
         }
     }"

definition HyperShiftOperatorDeployment_Build ::
  "hyperv1 \<Rightarrow> HyperShiftOperatorDeployment \<Rightarrow> heap \<Rightarrow> (addr \<times> heap) option" where
  "HyperShiftOperatorDeployment_Build hyperv1 cfg h =
     do {
       let args =
         [''run'',
          ''--namespace=$(MY_NAMESPACE)'',
          ''--deployment-name=operator'',
          ''--metrics-addr=:9000'',
          ''--enable-ocp-cluster-monitoring='' @
            Sprintf_t (HyperShiftOperatorDeployment_EnableOCPClusterMonitoring cfg),
          ''--enable-ci-debug-output='' @
            Sprintf_t (HyperShiftOperatorDeployment_EnableCIDebugOutput cfg),
          ''--private-platform='' @ HyperShiftOperatorDeployment_PrivatePlatform cfg];
       let oidcVolumeMount = [];
       let oidcVolumeCred = [];
       let envVars =
         [\<lparr>EnvVar_Name = ''MY_NAMESPACE'',
           EnvVar_Value = [],
           EnvVar_ValueFrom = Some
             \<lparr>EnvVarSource_FieldRef = Some
                \<lparr>ObjectFieldSelector_FieldPath = ''metadata.namespace''\<rparr>\<rparr>\<rparr>];
       (args, oidcVolumeMount, oidcVolumeCred) \<leftarrow>
         HyperShiftOperatorDeployment_oidc cfg h args oidcVolumeMount oidcVolumeCred;
       ns \<leftarrow> load_Namespace (HyperShiftOperatorDeployment_Namespace cfg) h;
       sa \<leftarrow> load_ServiceAccount (HyperShiftOperatorDeployment_ServiceAccount cfg) h;
       let (deployment, h) =
         new (ODeployment (HyperShiftOperatorDeployment_literal hyperv1 cfg ns sa
                             args envVars oidcVolumeMount oidcVolumeCred)) h;
       HyperShiftOperatorDeployment_platform hyperv1 cfg deployment h
     }"

record HyperShiftOperatorService =
  HyperShiftOperatorService_Namespace :: "addr option"

definition HyperShiftOperatorService_Build ::
  "HyperShiftOperatorService \<Rightarrow> heap \<Rightarrow> (addr \<times> heap) option" where
  "HyperShiftOperatorService_Build cfg h =
     do {
       ns \<leftarrow> load_Namespace (HyperShiftOperatorService_Namespace cfg) h;
       Some (new (OService
         \<lparr>Service_TypeMeta =
            \<lparr>TypeMeta_Kind = ''Service'',
             TypeMeta_APIVersion = GroupVersion_String corev1_SchemeGroupVersion\<rparr>,
          Service_ObjectMeta =
            \<lparr>ObjectMeta_Name = ''operator'',
             ObjectMeta_Namespace = ObjectMeta_Name (Namespace_ObjectMeta ns),
             ObjectMeta_Labels = [''name'' \<mapsto> ''operator'']\<rparr>,
          Service_Spec =
            \<lparr>ServiceSpec_Type = corev1_ServiceTypeClusterIP,
             ServiceSpec_Selector = [''name'' \<mapsto> ''operator''],
             ServiceSpec_Ports =
               [\<lparr>ServicePort_Name = ''metrics'',
                 ServicePort_Protocol = corev1_ProtocolTCP,
                 ServicePort_Port = 9393,
                 ServicePort_TargetPort = FromString ''metrics''\<rparr>]\<rparr>\<rparr>) h)
     }"

record ExternalDNSServiceAccount =
  ExternalDNSServiceAccount_Namespace :: "addr option"

definition ExternalDNSServiceAccount_Build ::
  "ExternalDNSServiceAccount \<Rightarrow> heap \<Rightarrow> (addr \<times> heap) option" where
  "ExternalDNSServiceAccount_Build cfg h =
     do {
       ns \<leftarrow> load_Namespace (ExternalDNSServiceAccount_Namespace cfg) h;
       let (sa, h) = new (OServiceAccount
         \<lparr>ServiceAccount_TypeMeta =
            \<lparr>TypeMeta_Kind = ''ServiceAccount'',
             TypeMeta_APIVersion = GroupVersion_String corev1_SchemeGroupVersion\<rparr>,
          ServiceAccount_ObjectMeta =
            \<lparr>ObjectMeta_Name = ''external-dns'',
             ObjectMeta_Namespace = ObjectMeta_Name (Namespace_ObjectMeta ns),
             ObjectMeta_Labels = Map.empty\<rparr>\<rparr>) h;
       Some (sa, h)
     }"

text \<open>
  \<^verbatim>\<open>ExternalDNSClusterRole\<close>, like the other cluster roles and the priority classes, is an
  empty struct: its \<^verbatim>\<open>Build\<close> has no configuration to read.
\<close>

definition ExternalDNSClusterRole_Build :: "heap \<Rightarrow> (addr \<times> heap) option" where
  "ExternalDNSClusterRole_Build h =
     do {
       let (role, h) = new (OClusterRole
         \<lparr>ClusterRole_TypeMeta =
            \<lparr>TypeMeta_Kind = ''ClusterRole'',
             TypeMeta_APIVersion = GroupVersion_String rbacv1_SchemeGroupVersion\<rparr>,
          ClusterRole_ObjectMeta =
            \<lparr>ObjectMeta_Name = ''external-dns'',
             ObjectMeta_Namespace = [],
             ObjectMeta_Labels = Map.empty\<rparr>,
          ClusterRole_Rules =
            [\<lparr>PolicyRule_APIGroups = [''route.openshift.io''],
              PolicyRule_Resources = [''*''],
              PolicyRule_Verbs = [''get'', ''list'', ''watch'']\<rparr>,
             \<lparr>PolicyRule_APIGroups = [[]],
              PolicyRule_Resources = [''endpoints'', ''services'', ''nodes'', ''pods''],
              PolicyRule_Verbs = [''get'', ''list'', ''watch'']\<rparr>]\<rparr>) h;
       Some (role, h)
     }"

record ExternalDNSClusterRoleBinding =
  ExternalDNSClusterRoleBinding_ClusterRole :: "addr option"
  ExternalDNSClusterRoleBinding_ServiceAccount :: "addr option"

definition ExternalDNSClusterRoleBinding_Build ::
  "ExternalDNSClusterRoleBinding \<Rightarrow> heap \<Rightarrow> (addr \<times> heap) option" where
  "ExternalDNSClusterRoleBinding_Build cfg h =
     do {
       cr \<leftarrow> load_ClusterRole (ExternalDNSClusterRoleBinding_ClusterRole cfg) h;
       sa \<leftarrow> load_ServiceAccount (ExternalDNSClusterRoleBinding_ServiceAccount cfg) h;
       let (binding, h) = new (OClusterRoleBinding
         \<lparr>ClusterRoleBinding_TypeMeta =
            \<lparr>TypeMeta_Kind = ''ClusterRoleBinding'',
             TypeMeta_APIVersion = GroupVersion_String rbacv1_SchemeGroupVersion\<rparr>,
          ClusterRoleBinding_ObjectMeta =
            \<lparr>ObjectMeta_Name = ''external-dns'',
             ObjectMeta_Namespace = [],
             ObjectMeta_Labels = Map.empty\<rparr>,
          ClusterRoleBinding_RoleRef =
            \<lparr>RoleRef_APIGroup = ''rbac.authorization.k8s.io'',
             RoleRef_Kind = ''ClusterRole'',
             RoleRef_Name = ObjectMeta_Name (ClusterRole_ObjectMeta cr)\<rparr>,
          ClusterRoleBinding_Subjects =
            [\<lparr>Subject_Kind = ''ServiceAccount'',
              Subject_APIGroup = [],
              Subject_Name = ObjectMeta_Name (ServiceAccount_ObjectMeta sa),
              Subject_Namespace = ObjectMeta_Namespace (ServiceAccount_ObjectMeta sa)\<rparr>]\<rparr>) h;
       Some (binding, h)
     }"

record HyperShiftOperatorServiceAccount =
  HyperShiftOperatorServiceAccount_Namespace :: "addr option"

definition HyperShiftOperatorServiceAccount_Build ::
  "HyperShiftOperatorServiceAccount \<Rightarrow> heap \<Rightarrow> (addr \<times> heap) option" where
  "HyperShiftOperatorServiceAccount_Build cfg h =
     do {
       ns \<leftarrow> load_Namespace (HyperShiftOperatorServiceAccount_Namespace cfg) h;
       let (sa, h) = new (OServiceAccount
         \<lparr>ServiceAccount_TypeMeta =
            \<lparr>TypeMeta_Kind = ''ServiceAccount'',
             TypeMeta_APIVersion = GroupVersion_String corev1_SchemeGroupVersion\<rparr>,
          ServiceAccount_ObjectMeta =
            \<lparr>ObjectMeta_Name = ''operator'',
             ObjectMeta_Namespace = ObjectMeta_Name (Namespace_ObjectMeta ns),
             ObjectMeta_Labels = Map.empty\<rparr>\<rparr>) h;
       Some (sa, h)
     }"

definition HyperShiftOperatorClusterRole_Build :: "heap \<Rightarrow> (addr \<times> heap) option" where
  "HyperShiftOperatorClusterRole_Build h =
     do {
       let (role, h) = new (OClusterRole
         \<lparr>ClusterRole_TypeMeta =
            \<lparr>TypeMeta_Kind = ''ClusterRole'',
             TypeMeta_APIVersion = GroupVersion_String rbacv1_SchemeGroupVersion\<rparr>,
          ClusterRole_ObjectMeta =
            \<lparr>ObjectMeta_Name = ''hypershift-operator'',
             ObjectMeta_Namespace = [],
             ObjectMeta_Labels = Map.empty\<rparr>,
          ClusterRole_Rules =
            [\<lparr>PolicyRule_APIGroups = [''hypershift.openshift.io''],
              PolicyRule_Resources = [''*''],
              PolicyRule_Verbs = [''*'']\<rparr>,
             \<lparr>PolicyRule_APIGroups = [''config.openshift.io''],
              PolicyRule_Resources = [''*''],
              PolicyRule_Verbs = [''get'', ''list'', ''watch'']\<rparr>,
             \<lparr>PolicyRule_APIGroups = [''apiextensions.k8s.io''],
              PolicyRule_Resources = [''customresourcedefinitions''],
              PolicyRule_Verbs = [''*'']\<rparr>,
             \<lparr>PolicyRule_APIGroups = [''batch''],
              PolicyRule_Resources = [''cronjobs'', ''jobs''],
              PolicyRule_Verbs = [''*'']\<rparr>,
             \<lparr>PolicyRule_APIGroups = [''coordination.k8s.io''],
              PolicyRule_Resources = [''leases''],
              PolicyRule_Verbs = [''*'']\<rparr>,
             \<lparr>PolicyRule_APIGroups = [''networking.k8s.io''],
              PolicyRule_Resources = [''networkpolicies''],
              PolicyRule_Verbs = [''*'']\<rparr>,
             \<lparr>PolicyRule_APIGroups =
                [''bootstrap.cluster.x-k8s.io'',
                 ''controlplane.cluster.x-k8s.io'',
                 ''infrastructure.cluster.x-k8s.io'',
                 ''machines.cluster.x-k8s.io'',
                 ''exp.infrastructure.cluster.x-k8s.io'',
                 ''addons.cluster.x-k8s.io'',
                 ''exp.cluster.x-k8s.io'',
                 ''cluster.x-k8s.io'',
                 ''monitoring.coreos.com''],
              PolicyRule_Resources = [''*''],
              PolicyRule_Verbs = [''*'']\<rparr>,
             \<lparr>PolicyRule_APIGroups = [''policy''],
              PolicyRule_Resources = [''poddisruptionbudgets''],
              PolicyRule_Verbs = [''*'']\<rparr>,
             \<lparr>PolicyRule_APIGroups = [''operator.openshift.io''],
              PolicyRule_Resources = [''*''],
              PolicyRule_Verbs = [''*'']\<rparr>,
             \<lparr>PolicyRule_APIGroups = [''route.openshift.io''],
              PolicyRule_Resources = [''*''],
              PolicyRule_Verbs = [''*'']\<rparr>,
             \<lparr>PolicyRule_APIGroups = [''security.openshift.io''],
              PolicyRule_Resources = [''securitycontextconstraints''],
              PolicyRule_Verbs = [''*'']\<rparr>,
             \<lparr>PolicyRule_APIGroups = [''rbac.authorization.k8s.io''],
              PolicyRule_Resources = [''*''],
              PolicyRule_Verbs =
                [''get'', ''list'', ''watch'', ''create'', ''update'', ''patch'', ''delete'']\<rparr>,
             \<lparr>PolicyRule_APIGroups = [[]],
              PolicyRule_Resources =
                [''events'',
                 ''configmaps'',
                 ''pods'',
                 ''pods/log'',
                 ''secrets'',
                 ''nodes'',
                 ''namespaces'',
                 ''serviceaccounts'',
                 ''services'',
                 ''endpoints''],
              PolicyRule_Verbs = [''*'']\<rparr>,
             \<lparr>PolicyRule_APIGroups = [''apps''],
              PolicyRule_Resources = [''deployments'', ''statefulsets''],
              PolicyRule_Verbs = [''*'']\<rparr>,
             \<lparr>PolicyRule_APIGroups = [''etcd.database.coreos.com''],
              PolicyRule_Resources = [''*''],
              PolicyRule_Verbs = [''*'']\<rparr>,
             \<lparr>PolicyRule_APIGroups = [''machine.openshift.io''],
              PolicyRule_Resources = [''*''],
              PolicyRule_Verbs = [''*'']\<rparr>,
             \<lparr>PolicyRule_APIGroups = [''monitoring.coreos.com''],
              PolicyRule_Resources = [''podmonitors''],
              PolicyRule_Verbs = [''get'', ''list'', ''watch'', ''create'', ''update'']\<rparr>,
             \<lparr>PolicyRule_APIGroups = [''capi-provider.agent-install.openshift.io''],
              PolicyRule_Resources = [''*''],
              PolicyRule_Verbs = [''*'']\<rparr>,
             \<lparr>PolicyRule_APIGroups = [''operator.openshift.io''],
              PolicyRule_Resources = [''ingresscontrollers''],
              PolicyRule_Verbs = [''*'']\<rparr>,
             \<lparr>PolicyRule_APIGroups = [''kubevirt.io''],
              PolicyRule_Resources = [''virtualmachineinstances'', ''virtualmachines''],
              PolicyRule_Verbs = [''*'']\<rparr>,
             \<lparr>PolicyRule_APIGroups = [''agent-install.openshift.io''],
              PolicyRule_Resources = [''agents''],
              PolicyRule_Verbs = [''*'']\<rparr>]\<rparr>) h;
       Some (role, h)
     }"

record HyperShiftOperatorClusterRoleBinding =
  HyperShiftOperatorClusterRoleBinding_ClusterRole :: "addr option"
  HyperShiftOperatorClusterRoleBinding_ServiceAccount :: "addr option"

definition HyperShiftOperatorClusterRoleBinding_Build ::
  "HyperShiftOperatorClusterRoleBinding \<Rightarrow> heap \<Rightarrow> (addr \<times> heap) option" where
  "HyperShiftOperatorClusterRoleBinding_Build cfg h =
     do {
       cr \<leftarrow> load_ClusterRole (HyperShiftOperatorClusterRoleBinding_ClusterRole cfg) h;
       sa \<leftarrow> load_ServiceAccount (HyperShiftOperatorClusterRoleBinding_ServiceAccount cfg) h;
       let (binding, h) = new (OClusterRoleBinding
         \<lparr>ClusterRoleBinding_TypeMeta =
            \<lparr>TypeMeta_Kind = ''ClusterRoleBinding'',
             TypeMeta_APIVersion = GroupVersion_String rbacv1_SchemeGroupVersion\<rparr>,
          ClusterRoleBinding_ObjectMeta =
            \<lparr>ObjectMeta_Name = ''hypershift-operator'',
             ObjectMeta_Namespace = [],
             ObjectMeta_Labels = Map.empty\<rparr>,
          ClusterRoleBinding_RoleRef =
            \<lparr>RoleRef_APIGroup = ''rbac.authorization.k8s.io'',
             RoleRef_Kind = ''ClusterRole'',
             RoleRef_Name = ObjectMeta_Name (ClusterRole_ObjectMeta cr)\<rparr>,
          ClusterRoleBinding_Subjects =
            [\<lparr>Subject_Kind = ''ServiceAccount'',
              Subject_APIGroup = [],
              Subject_Name = ObjectMeta_Name (ServiceAccount_ObjectMeta sa),
              Subject_Namespace = ObjectMeta_Namespace (ServiceAccount_ObjectMeta sa)\<rparr>]\<rparr>) h;
       Some (binding, h)
     }"

record HyperShiftOperatorRole =
  HyperShiftOperatorRole_Namespace :: "addr option"

definition HyperShiftOperatorRole_Build ::
  "HyperShiftOperatorRole \<Rightarrow> heap \<Rightarrow> (addr \<times> heap) option" where
  "HyperShiftOperatorRole_Build cfg h =
     do {
       ns \<leftarrow> load_Namespace (HyperShiftOperatorRole_Namespace cfg) h;
       let (role, h) = new (ORole
         \<lparr>Role_TypeMeta =
            \<lparr>TypeMeta_Kind = ''Role'',
             TypeMeta_APIVersion = GroupVersion_String rbacv1_SchemeGroupVersion\<rparr>,
          Role_ObjectMeta =
            \<lparr>ObjectMeta_Name = ''hypershift-operator'',
             ObjectMeta_Namespace = ObjectMeta_Name (Namespace_ObjectMeta ns),
             ObjectMeta_Labels = Map.empty\<rparr>,
          Role_Rules =
            [\<lparr>PolicyRule_APIGroups = [''coordination.k8s.io''],
              PolicyRule_Resources = [''leases''],
              PolicyRule_Verbs = [''*'']\<rparr>]\<rparr>) h;
       Some (role, h)
     }"

record HyperShiftOperatorRoleBinding =
  HyperShiftOperatorRoleBinding_Role :: "addr option"
  HyperShiftOperatorRoleBinding_ServiceAccount :: "addr option"

definition HyperShiftOperatorRoleBinding_Build ::
  "HyperShiftOperatorRoleBinding \<Rightarrow> heap \<Rightarrow> (addr \<times> heap) option" where
  "HyperShiftOperatorRoleBinding_Build cfg h =
     do {
       sa \<leftarrow> load_ServiceAccount (HyperShiftOperatorRoleBinding_ServiceAccount cfg) h;
       r \<leftarrow> load_Role (HyperShiftOperatorRoleBinding_Role cfg) h;
       let (binding, h) = new (ORoleBinding
         \<lparr>RoleBinding_TypeMeta =
            \<lparr>TypeMeta_Kind = ''RoleBinding'',
             TypeMeta_APIVersion = GroupVersion_String rbacv1_SchemeGroupVersion\<rparr>,
          RoleBinding_ObjectMeta =
            \<lparr>ObjectMeta_Name = ''hypershift-operator'',
             ObjectMeta_Namespace = ObjectMeta_Namespace (ServiceAccount_ObjectMeta sa),
             ObjectMeta_Labels = Map.empty\<rparr>,
          RoleBinding_RoleRef =
            \<lparr>RoleRef_APIGroup = ''rbac.authorization.k8s.io'',
             RoleRef_Kind = ''Role'',
             RoleRef_Name = ObjectMeta_Name (Role_ObjectMeta r)\<rparr>,
          RoleBinding_Subjects =
            [\<lparr>Subject_Kind = ''ServiceAccount'',
              Subject_APIGroup = [],
              Subject_Name = ObjectMeta_Name (ServiceAccount_ObjectMeta sa),
              Subject_Namespace = ObjectMeta_Namespace (ServiceAccount_ObjectMeta sa)\<rparr>]\<rparr>) h;
       Some (binding, h)
     }"

definition HyperShiftControlPlanePriorityClass_Build :: "heap \<Rightarrow> (addr \<times> heap) option" where
  "HyperShiftControlPlanePriorityClass_Build h =
     Some (new (OPriorityClass
       \<lparr>PriorityClass_TypeMeta =
          \<lparr>TypeMeta_Kind = ''PriorityClass'',
           TypeMeta_APIVersion = GroupVersion_String schedulingv1_SchemeGroupVersion\<rparr>,
        PriorityClass_ObjectMeta =
          \<lparr>ObjectMeta_Name = DefaultPriorityClass,
           ObjectMeta_Namespace = [],
           ObjectMeta_Labels = Map.empty\<rparr>,
        PriorityClass_Value = 100000000,
        PriorityClass_GlobalDefault = False,
        PriorityClass_Description =
          ''This priority class should be used for hypershift control plane pods not critical to serving the API.''\<rparr>) h)"

definition HyperShiftAPICriticalPriorityClass_Build :: "heap \<Rightarrow> (addr \<times> heap) option" where
  "HyperShiftAPICriticalPriorityClass_Build h =
     Some (new (OPriorityClass
       \<lparr>PriorityClass_TypeMeta =
          \<lparr>TypeMeta_Kind = ''PriorityClass'',
           TypeMeta_APIVersion = GroupVersion_String schedulingv1_SchemeGroupVersion\<rparr>,
        PriorityClass_ObjectMeta =
          \<lparr>ObjectMeta_Name = APICriticalPriorityClass,
           ObjectMeta_Namespace = [],
           ObjectMeta_Labels = Map.empty\<rparr>,
        PriorityClass_Value = 100001000,
        PriorityClass_GlobalDefault = False,
        PriorityClass_Description =
          ''This priority class should be used for hypershift control plane pods critical to serving the API.''\<rparr>) h)"

definition HyperShiftEtcdPriorityClass_Build :: "heap \<Rightarrow> (addr \<times> heap) option" where
  "HyperShiftEtcdPriorityClass_Build h =
     Some (new (OPriorityClass
       \<lparr>PriorityClass_TypeMeta =
          \<lparr>TypeMeta_Kind = ''PriorityClass'',
           TypeMeta_APIVersion = GroupVersion_String schedulingv1_SchemeGroupVersion\<rparr>,
        PriorityClass_ObjectMeta =
          \<lparr>ObjectMeta_Name = EtcdPriorityClass,
           ObjectMeta_Namespace = [],
           ObjectMeta_Labels = Map.empty\<rparr>,
        PriorityClass_Value = 100002000,
        PriorityClass_GlobalDefault = False,
        PriorityClass_Description =
          ''This priority class should be used for hypershift etcd pods.''\<rparr>) h)"

record HyperShiftPrometheusRole =
  HyperShiftPrometheusRole_Namespace :: "addr option"

definition HyperShiftPrometheusRole_Build ::
  "HyperShiftPrometheusRole \<Rightarrow> heap \<Rightarrow> (addr \<times> heap) option" where
  "HyperShiftPrometheusRole_Build cfg h =
     do {
       ns \<leftarrow> load_Namespace (HyperShiftPrometheusRole_Namespace cfg) h;
       let (role, h) = new (ORole
         \<lparr>Role_TypeMeta =
            \<lparr>TypeMeta_Kind = ''Role'',
             TypeMeta_APIVersion = GroupVersion_String rbacv1_SchemeGroupVersion\<rparr>,
          Role_ObjectMeta =
            \<lparr>ObjectMeta_Name = ''prometheus'',
             ObjectMeta_Namespace = ObjectMeta_Name (Namespace_ObjectMeta ns),
             ObjectMeta_Labels = Map.empty\<rparr>,
          Role_Rules =
            [\<lparr>PolicyRule_APIGroups = [[]],
              PolicyRule_Resources = [''services'', ''endpoints'', ''pods''],
              PolicyRule_Verbs = [''get'', ''list'', ''watch'']\<rparr>]\<rparr>) h;
       Some (role, h)
     }"

record HyperShiftOperatorPrometheusRoleBinding =
  HyperShiftOperatorPrometheusRoleBinding_Namespace :: "addr option"
  HyperShiftOperatorPrometheusRoleBinding_Role :: "addr option"
  HyperShiftOperatorPrometheusRoleBinding_EnableOCPClusterMonitoring :: bool

text \<open>
  \<^verbatim>\<open>subject\<close> is a local struct value, not a pointer: the two assignments to it change the
  local only, before it is copied into the \<^verbatim>\<open>Subjects\<close> slice.
\<close>

definition HyperShiftOperatorPrometheusRoleBinding_Build ::
  "HyperShiftOperatorPrometheusRoleBinding \<Rightarrow> heap \<Rightarrow> (addr \<times> heap) option" where
  "HyperShiftOperatorPrometheusRoleBinding_Build cfg h =
     do {
       let subject =
         \<lparr>Subject_Kind = ''ServiceAccount'',
          Subject_APIGroup = [],
          Subject_Name = ''prometheus-user-workload'',
          Subject_Namespace = ''openshift-user-workload-monitoring''\<rparr>;
       let subject =
         (if HyperShiftOperatorPrometheusRoleBinding_EnableOCPClusterMonitoring cfg
          then subject\<lparr>Subject_Name := ''prometheus-k8s'',
                       Subject_Namespace := ''openshift-monitoring''\<rparr>
          else subject);
       ns \<leftarrow> load_Namespace (HyperShiftOperatorPrometheusRoleBinding_Namespace cfg) h;
       r \<leftarrow> load_Role (HyperShiftOperatorPrometheusRoleBinding_Role cfg) h;
       let (binding, h) = new (ORoleBinding
         \<lparr>RoleBinding_TypeMeta =
            \<lparr>TypeMeta_Kind = ''RoleBinding'',
             TypeMeta_APIVersion = GroupVersion_String rbacv1_SchemeGroupVersion\<rparr>,
          RoleBinding_ObjectMeta =
            \<lparr>ObjectMeta_Name = ''prometheus'',
             ObjectMeta_Namespace = ObjectMeta_Name (Namespace_ObjectMeta ns),
             ObjectMeta_Labels = Map.empty\<rparr>,
          RoleBinding_RoleRef =
            \<lparr>RoleRef_APIGroup = ''rbac.authorization.k8s.io'',
             RoleRef_Kind = ''Role'',
             RoleRef_Name = ObjectMeta_Name (Role_ObjectMeta r)\<rparr>,
          RoleBinding_Subjects = [subject]\<rparr>) h;
       Some (binding, h)
     }"

record HyperShiftServiceMonitor =
  HyperShiftServiceMonitor_Namespace :: "addr option"

definition HyperShiftServiceMonitor_Build ::
  "HyperShiftServiceMonitor \<Rightarrow> heap \<Rightarrow> (addr \<times> heap) option" where
  "HyperShiftServiceMonitor_Build cfg h =
     do {
       ns \<leftarrow> load_Namespace (HyperShiftServiceMonitor_Namespace cfg) h;
       Some (new (OServiceMonitor
         \<lparr>ServiceMonitor_TypeMeta =
            \<lparr>TypeMeta_Kind = ''ServiceMonitor'',
             TypeMeta_APIVersion = GroupVersion_String prometheusoperatorv1_SchemeGroupVersion\<rparr>,
          ServiceMonitor_ObjectMeta =
            \<lparr>ObjectMeta_Name = ''operator'',
             ObjectMeta_Namespace = ObjectMeta_Name (Namespace_ObjectMeta ns),
             ObjectMeta_Labels = Map.empty\<rparr>,
          ServiceMonitor_Spec =
            \<lparr>ServiceMonitorSpec_JobLabel = ''component'',
             ServiceMonitorSpec_Selector =
               \<lparr>LabelSelector_MatchLabels = [''name'' \<mapsto> ''operator'']\<rparr>,
             ServiceMonitorSpec_Endpoints =
               [\<lparr>Endpoint_Interval = ''30s'', Endpoint_Port = ''metrics''\<rparr>]\<rparr>\<rparr>) h)
     }"

record HypershiftRecordingRule =
  HypershiftRecordingRule_Namespace :: "addr option"

text \<open>
  \<^verbatim>\<open>recordingRuleSpec()\<close> is a function of the package that is not among the source files;
  what it returns is the parameter \<open>recordingRuleSpec\<close>.
\<close>

definition HypershiftRecordingRule_Build ::
  "PrometheusRuleSpec \<Rightarrow> HypershiftRecordingRule \<Rightarrow> heap \<Rightarrow> (addr \<times> heap) option" where
  "HypershiftRecordingRule_Build recordingRuleSpec r h =
     do {
       ns \<leftarrow> load_Namespace (HypershiftRecordingRule_Namespace r) h;
       let (rule, h) = new (OPrometheusRule
         \<lparr>PrometheusRule_TypeMeta =
            \<lparr>TypeMeta_Kind = ''PrometheusRule'',
             TypeMeta_APIVersion = GroupVersion_String prometheusoperatorv1_SchemeGroupVersion\<rparr>,
          PrometheusRule_ObjectMeta =
            \<lparr>ObjectMeta_Name = ''metrics'',
             ObjectMeta_Namespace = ObjectMeta_Name (Namespace_ObjectMeta ns),
             ObjectMeta_Labels = Map.empty\<rparr>,
          PrometheusRule_Spec = \<lparr>PrometheusRuleSpec_Groups = []\<rparr>\<rparr>) h;
       h \<leftarrow> update_PrometheusRule rule
              (\<lambda>x. Some (x\<lparr>PrometheusRule_Spec := recordingRuleSpec\<rparr>)) h;
       Some (rule, h)
     }"

definition HyperShiftClientClusterRole_Build :: "heap \<Rightarrow> (addr \<times> heap) option" where
  "HyperShiftClientClusterRole_Build h =
     do {
       let (role, h) = new (OClusterRole
         \<lparr>ClusterRole_TypeMeta =
            \<lparr>TypeMeta_Kind = ''ClusterRole'',
             TypeMeta_APIVersion = GroupVersion_String rbacv1_SchemeGroupVersion\<rparr>,
          ClusterRole_ObjectMeta =
            \<lparr>ObjectMeta_Name = ''hypershift-client'',
             ObjectMeta_Namespace = [],
             ObjectMeta_Labels = Map.empty\<rparr>,
          ClusterRole_Rules =
            [\<lparr>PolicyRule_APIGroups = [''hypershift.openshift.io''],
              PolicyRule_Resources = [''hostedclusters'', ''nodepools''],
              PolicyRule_Verbs = [''*'']\<rparr>]\<rparr>) h;
       Some (role, h)
     }"

record HyperShiftClientServiceAccount =
  HyperShiftClientServiceAccount_Namespace :: "addr option"

definition HyperShiftClientServiceAccount_Build ::
  "HyperShiftClientServiceAccount \<Rightarrow> heap \<Rightarrow> (addr \<times> heap) option" where
  "HyperShiftClientServiceAccount_Build cfg h =
     do {
       ns \<leftarrow> load_Namespace (HyperShiftClientServiceAccount_Namespace cfg) h;
       let (sa, h) = new (OServiceAccount
         \<lparr>ServiceAccount_TypeMeta =
            \<lparr>TypeMeta_Kind = ''ServiceAccount'',
             TypeMeta_APIVersion = GroupVersion_String corev1_SchemeGroupVersion\<rparr>,
          ServiceAccount_ObjectMeta =
            \<lparr>ObjectMeta_Name = ''hypershift-client'',
             ObjectMeta_Namespace = ObjectMeta_Name (Namespace_ObjectMeta ns),
             ObjectMeta_Labels = Map.empty\<rparr>\<rparr>) h;
       Some (sa, h)
     }"

record HyperShiftClientClusterRoleBinding =
  HyperShiftClientClusterRoleBinding_ClusterRole :: "addr option"
  HyperShiftClientClusterRoleBinding_ServiceAccount :: "addr option"
  HyperShiftClientClusterRoleBinding_GroupName :: string

definition HyperShiftClientClusterRoleBinding_Build ::
  "HyperShiftClientClusterRoleBinding \<Rightarrow> heap \<Rightarrow> (addr \<times> heap) option" where
  "HyperShiftClientClusterRoleBinding_Build cfg h =
     do {
       cr \<leftarrow> load_ClusterRole (HyperShiftClientClusterRoleBinding_ClusterRole cfg) h;
       sa \<leftarrow> load_ServiceAccount (HyperShiftClientClusterRoleBinding_ServiceAccount cfg) h;
       let (binding, h) = new (OClusterRoleBinding
         \<lparr>ClusterRoleBinding_TypeMeta =
            \<lparr>TypeMeta_Kind = ''ClusterRoleBinding'',
             TypeMeta_APIVersion = GroupVersion_String rbacv1_SchemeGroupVersion\<rparr>,
          ClusterRoleBinding_ObjectMeta =
            \<lparr>ObjectMeta_Name = ''hypershift-client'',
             ObjectMeta_Namespace = [],
             ObjectMeta_Labels = Map.empty\<rparr>,
          ClusterRoleBinding_RoleRef =
            \<lparr>RoleRef_APIGroup = ''rbac.authorization.k8s.io'',
             RoleRef_Kind = ''ClusterRole'',
             RoleRef_Name = ObjectMeta_Name (ClusterRole_ObjectMeta cr)\<rparr>,
          ClusterRoleBinding_Subjects =
            [\<lparr>Subject_Kind = ''ServiceAccount'',
              Subject_APIGroup = [],
              Subject_Name = ObjectMeta_Name (ServiceAccount_ObjectMeta sa),
              Subject_Namespace = ObjectMeta_Namespace (ServiceAccount_ObjectMeta sa)\<rparr>,
             \<lparr>Subject_Kind = ''Group'',
              Subject_APIGroup = ''rbac.authorization.k8s.io'',
              Subject_Name = HyperShiftClientClusterRoleBinding_GroupName cfg,
              Subject_Namespace = []\<rparr>]\<rparr>) h;
       Some (binding, h)
     }"

definition HyperShiftReaderClusterRole_Build :: "heap \<Rightarrow> (addr \<times> heap) option" where
  "HyperShiftReaderClusterRole_Build h =
     do {
       let (role, h) = new (OClusterRole
         \<lparr>ClusterRole_TypeMeta =
            \<lparr>TypeMeta_Kind = ''ClusterRole'',
             TypeMeta_APIVersion = GroupVersion_String rbacv1_SchemeGroupVersion\<rparr>,
          ClusterRole_ObjectMeta =
            \<lparr>ObjectMeta_Name = ''hypershift-readers'',
             ObjectMeta_Namespace = [],
             ObjectMeta_Labels = Map.empty\<rparr>,
          ClusterRole_Rules =
            [\<lparr>PolicyRule_APIGroups = [''hypershift.openshift.io''],
              PolicyRule_Resources = [''*''],
              PolicyRule_Verbs = [''get'', ''list'', ''watch'']\<rparr>,
             \<lparr>PolicyRule_APIGroups = [''config.openshift.io''],
              PolicyRule_Resources = [''*''],
              PolicyRule_Verbs = [''get'', ''list'', ''watch'']\<rparr>,
             \<lparr>PolicyRule_APIGroups = [''apiextensions.k8s.io''],
              PolicyRule_Resources = [''customresourcedefinitions''],
              PolicyRule_Verbs = [''get'', ''list'', ''watch'']\<rparr>,
             \<lparr>PolicyRule_APIGroups = [''networking.k8s.io''],
              PolicyRule_Resources = [''networkpolicies''],
              PolicyRule_Verbs = [''get'', ''list'', ''watch'']\<rparr>,
             \<lparr>PolicyRule_APIGroups =
                [''bootstrap.cluster.x-k8s.io'',
                 ''controlplane.cluster.x-k8s.io'',
                 ''infrastructure.cluster.x-k8s.io'',
                 ''machines.cluster.x-k8s.io'',
                 ''exp.infrastructure.cluster.x-k8s.io'',
                 ''addons.cluster.x-k8s.io'',
                 ''exp.cluster.x-k8s.io'',
                 ''cluster.x-k8s.io''],
              PolicyRule_Resources = [''*''],
              PolicyRule_Verbs = [''get'', ''list'', ''watch'']\<rparr>,
             \<lparr>PolicyRule_APIGroups = [''operator.openshift.io''],
              PolicyRule_Resources = [''*''],
              PolicyRule_Verbs = [''get'', ''list'', ''watch'']\<rparr>,
             \<lparr>PolicyRule_APIGroups = [''route.openshift.io''],
              PolicyRule_Resources = [''*''],
              PolicyRule_Verbs = [''get'', ''list'', ''watch'']\<rparr>,
             \<lparr>PolicyRule_APIGroups = [''security.openshift.io''],
              PolicyRule_Resources = [''securitycontextconstraints''],
              PolicyRule_Verbs = [''get'', ''list'', ''watch'']\<rparr>,
             \<lparr>PolicyRule_APIGroups = [''rbac.authorization.k8s.io''],
              PolicyRule_Resources = [''*''],
              PolicyRule_Verbs = [''get'', ''list'', ''watch'']\<rparr>,
             \<lparr>PolicyRule_APIGroups = [[]],
              PolicyRule_Resources =
                [''events'',
                 ''configmaps'',
                 ''pods'',
                 ''pods/log'',
                 ''nodes'',
                 ''namespaces'',
                 ''serviceaccounts'',
                 ''services''],
              PolicyRule_Verbs = [''get'', ''list'', ''watch'']\<rparr>,
             \<lparr>PolicyRule_APIGroups = [''apps''],
              PolicyRule_Resources = [''deployments''],
              PolicyRule_Verbs = [''get'', ''list'', ''watch'']\<rparr>,
             \<lparr>PolicyRule_APIGroups = [''etcd.database.coreos.com''],
              PolicyRule_Resources = [''*''],
              PolicyRule_Verbs = [''get'', ''list'', ''watch'']\<rparr>,
             \<lparr>PolicyRule_APIGroups = [''machine.openshift.io''],
              PolicyRule_Resources = [''*''],
              PolicyRule_Verbs = [''get'', ''list'', ''watch'']\<rparr>,
             \<lparr>PolicyRule_APIGroups = [''monitoring.coreos.com''],
              PolicyRule_Resources = [''podmonitors''],
              PolicyRule_Verbs = [''get'', ''list'', ''watch'']\<rparr>,
             \<lparr>PolicyRule_APIGroups = [''capi-provider.agent-install.openshift.io''],
              PolicyRule_Resources = [''*''],
              PolicyRule_Verbs = [''get'', ''list'', ''watch'']\<rparr>]\<rparr>) h;
       Some (role, h)
     }"

record HyperShiftReaderClusterRoleBinding =
  HyperShiftReaderClusterRoleBinding_ClusterRole :: "addr option"
  HyperShiftReaderClusterRoleBinding_GroupName :: string

definition HyperShiftReaderClusterRoleBinding_Build ::
  "HyperShiftReaderClusterRoleBinding \<Rightarrow> heap \<Rightarrow> (addr \<times> heap) option" where
  "HyperShiftReaderClusterRoleBinding_Build cfg h =
     do {
       cr \<leftarrow> load_ClusterRole (HyperShiftReaderClusterRoleBinding_ClusterRole cfg) h;
       let (binding, h) = new (OClusterRoleBinding
         \<lparr>ClusterRoleBinding_TypeMeta =
            \<lparr>TypeMeta_Kind = ''ClusterRoleBinding'',
             TypeMeta_APIVersion = GroupVersion_String rbacv1_SchemeGroupVersion\<rparr>,
          ClusterRoleBinding_ObjectMeta =
            \<lparr>ObjectMeta_Name = ''hypershift-readers'',
             ObjectMeta_Namespace = [],
             ObjectMeta_Labels = Map.empty\<rparr>,
          ClusterRoleBinding_RoleRef =
            \<lparr>RoleRef_APIGroup = ''rbac.authorization.k8s.io'',
             RoleRef_Kind = ''ClusterRole'',
             RoleRef_Name = ObjectMeta_Name (ClusterRole_ObjectMeta cr)\<rparr>,
          ClusterRoleBinding_Subjects =
            [\<lparr>Subject_Kind = ''Group'',
              Subject_APIGroup = ''rbac.authorization.k8s.io'',
              Subject_Name = HyperShiftReaderClusterRoleBinding_GroupName cfg,
              Subject_Namespace = []\<rparr>]\<rparr>) h;
       Some (binding, h)
     }"

section \<open>The \<^verbatim>\<open>infra\<close> destroy command\<close>

text \<open>
  \<^verbatim>\<open>cmd/infra/destroy.go\<close> builds a \<^verbatim>\<open>cobra.Command\<close>. Of that struct the model keeps the
  three fields the function sets, the flags registered on the command itself (cobra
  creates the flag set when \<^verbatim>\<open>Flags()\<close> or \<^verbatim>\<open>PersistentFlags()\<close> is first called and a
  flag is added to it), and the list of child commands. \<^verbatim>\<open>AddCommand\<close> appends the child
  to that list; it writes the child's \<^verbatim>\<open>parent\<close> field first, which panics on a \<^verbatim>\<open>nil\<close>
  child. The back pointer itself is not modelled: a child is a value inside its parent.

  \<^verbatim>\<open>aws.NewDestroyCommand\<close> and \<^verbatim>\<open>azure.NewDestroyCommand\<close> are functions of packages that
  are not among the source files; what they return are the two parameters of
  \<open>NewDestroyCommand\<close>.
\<close>

datatype Command =
  Command (Command_Use: string) (Command_Short: string) (Command_SilenceUsage: bool)
    (Command_flags: "string list") (Command_commands: "Command list")

definition AddCommand :: "Command \<Rightarrow> Command option \<Rightarrow> Command option" where
  "AddCommand c x =
     (case x of
        None \<Rightarrow> None
      | Some child \<Rightarrow>
          Some (Command (Command_Use c) (Command_Short c) (Command_SilenceUsage c)
                  (Command_flags c) (Command_commands c @ [child])))"

definition NewDestroyCommand :: "Command option \<Rightarrow> Command option \<Rightarrow> Command option" where
  "NewDestroyCommand aws_NewDestroyCommand azure_NewDestroyCommand =
     do {
       let cmd = Command ''infra'' ''Commands for destroying HyperShift infra resources'' True [] [];
       cmd \<leftarrow> AddCommand cmd aws_NewDestroyCommand;
       cmd \<leftarrow> AddCommand cmd azure_NewDestroyCommand;
       Some cmd
     }"

section \<open>When a builder panics\<close>

text \<open>
  The builders have no error returns; the one way a \<^verbatim>\<open>Build\<close> fails is the panic of a
  \<^verbatim>\<open>nil\<close> dereference. For the builders the properties below are about, these predicates
  say which loads the method makes: it panics exactly when one of them fails.
\<close>

definition ExternalDNSDeployment_panics :: "ExternalDNSDeployment \<Rightarrow> heap \<Rightarrow> bool" where
  "ExternalDNSDeployment_panics cfg h \<longleftrightarrow>
     load_Namespace (ExternalDNSDeployment_Namespace cfg) h = None \<or>
     load_ServiceAccount (ExternalDNSDeployment_ServiceAccount cfg) h = None \<or>
     load_Secret (ExternalDNSDeployment_CredentialsSecret cfg) h = None"

definition HyperShiftOperatorDeployment_panics ::
  "HyperShiftOperatorDeployment \<Rightarrow> heap \<Rightarrow> bool" where
  "HyperShiftOperatorDeployment_panics cfg h \<longleftrightarrow>
     (HyperShiftOperatorDeployment_OIDCBucketName cfg \<noteq> [] \<and>
      HyperShiftOperatorDeployment_OIDCBucketRegion cfg \<noteq> [] \<and>
      HyperShiftOperatorDeployment_OIDCStorageProviderS3SecretKey cfg \<noteq> [] \<and>
      HyperShiftOperatorDeployment_OIDCStorageProviderS3Secret cfg \<noteq> None \<and>
      load_Secret (HyperShiftOperatorDeployment_OIDCStorageProviderS3Secret cfg) h = None) \<or>
     load_Namespace (HyperShiftOperatorDeployment_Namespace cfg) h = None \<or>
     load_ServiceAccount (HyperShiftOperatorDeployment_ServiceAccount cfg) h = None"

definition ExternalDNSClusterRoleBinding_panics ::
  "ExternalDNSClusterRoleBinding \<Rightarrow> heap \<Rightarrow> bool" where
  "ExternalDNSClusterRoleBinding_panics cfg h \<longleftrightarrow>
     load_ClusterRole (ExternalDNSClusterRoleBinding_ClusterRole cfg) h = None \<or>
     load_ServiceAccount (ExternalDNSClusterRoleBinding_ServiceAccount cfg) h = None"

definition HyperShiftOperatorClusterRoleBinding_panics ::
  "HyperShiftOperatorClusterRoleBinding \<Rightarrow> heap \<Rightarrow> bool" where
  "HyperShiftOperatorClusterRoleBinding_panics cfg h \<longleftrightarrow>
     load_ClusterRole (HyperShiftOperatorClusterRoleBinding_ClusterRole cfg) h = None \<or>
     load_ServiceAccount (HyperShiftOperatorClusterRoleBinding_ServiceAccount cfg) h = None"

definition HyperShiftOperatorRoleBinding_panics ::
  "HyperShiftOperatorRoleBinding \<Rightarrow> heap \<Rightarrow> bool" where
  "HyperShiftOperatorRoleBinding_panics cfg h \<longleftrightarrow>
     load_ServiceAccount (HyperShiftOperatorRoleBinding_ServiceAccount cfg) h = None \<or>
     load_Role (HyperShiftOperatorRoleBinding_Role cfg) h = None"

definition HyperShiftClientClusterRoleBinding_panics ::
  "HyperShiftClientClusterRoleBinding \<Rightarrow> heap \<Rightarrow> bool" where
  "HyperShiftClientClusterRoleBinding_panics cfg h \<longleftrightarrow>
     load_ClusterRole (HyperShiftClientClusterRoleBinding_ClusterRole cfg) h = None \<or>
     load_ServiceAccount (HyperShiftClientClusterRoleBinding_ServiceAccount cfg) h = None"

definition HyperShiftOperatorPrometheusRoleBinding_panics ::
  "HyperShiftOperatorPrometheusRoleBinding \<Rightarrow> heap \<Rightarrow> bool" where
  "HyperShiftOperatorPrometheusRoleBinding_panics cfg h \<longleftrightarrow>
     load_Namespace (HyperShiftOperatorPrometheusRoleBinding_Namespace cfg) h = None \<or>
     load_Role (HyperShiftOperatorPrometheusRoleBinding_Role cfg) h = None"

text \<open>
  The condition under which the operator Deployment is wired to the OIDC S3 bucket, in
  the words of the property: the bucket name, the bucket region and the secret key are
  non-empty, the secret pointer is not \<^verbatim>\<open>nil\<close>, and the secret's name is non-empty.
\<close>

definition oidc_configured :: "HyperShiftOperatorDeployment \<Rightarrow> heap \<Rightarrow> bool" where
  "oidc_configured cfg h \<longleftrightarrow>
     HyperShiftOperatorDeployment_OIDCBucketName cfg \<noteq> [] \<and>
     HyperShiftOperatorDeployment_OIDCBucketRegion cfg \<noteq> [] \<and>
     HyperShiftOperatorDeployment_OIDCStorageProviderS3SecretKey cfg \<noteq> [] \<and>
     HyperShiftOperatorDeployment_OIDCStorageProviderS3Secret cfg \<noteq> None \<and>
     (case load_Secret (HyperShiftOperatorDeployment_OIDCStorageProviderS3Secret cfg) h of
        None \<Rightarrow> False
      | Some s3 \<Rightarrow> ObjectMeta_Name (Secret_ObjectMeta s3) \<noteq> [])"

section \<open>Example inputs\<close>

text \<open>
  A heap as an installer run has it before the Deployments are built: the operator
  namespace, the operator's service account, a credentials secret, a cluster role and a
  role. The constants of \<^verbatim>\<open>hyperv1\<close> have the values of the HyperShift API package.
\<close>

definition example_hyperv1 :: hyperv1 where
  "example_hyperv1 =
     \<lparr>hyperv1_NonePlatform = ''None'',
      hyperv1_AWSPlatform = ''AWS'',
      hyperv1_OperatorComponent = ''hypershift.openshift.io/operator-component''\<rparr>"

definition example_heap :: heap where
  "example_heap =
     [ONamespace
        \<lparr>Namespace_TypeMeta = \<lparr>TypeMeta_Kind = ''Namespace'', TypeMeta_APIVersion = ''v1''\<rparr>,
         Namespace_ObjectMeta =
           \<lparr>ObjectMeta_Name = ''hypershift'', ObjectMeta_Namespace = [],
            ObjectMeta_Labels = Map.empty\<rparr>\<rparr>,
      OServiceAccount
        \<lparr>ServiceAccount_TypeMeta =
           \<lparr>TypeMeta_Kind = ''ServiceAccount'', TypeMeta_APIVersion = ''v1''\<rparr>,
         ServiceAccount_ObjectMeta =
           \<lparr>ObjectMeta_Name = ''operator'', ObjectMeta_Namespace = ''hypershift'',
            ObjectMeta_Labels = Map.empty\<rparr>\<rparr>,
      OSecret
        \<lparr>Secret_TypeMeta = \<lparr>TypeMeta_Kind = ''Secret'', TypeMeta_APIVersion = ''v1''\<rparr>,
         Secret_ObjectMeta =
           \<lparr>ObjectMeta_Name = ''s3-creds'', ObjectMeta_Namespace = ''hypershift'',
            ObjectMeta_Labels = Map.empty\<rparr>,
         Secret_Data = [''credentials'' \<mapsto> []]\<rparr>,
      OClusterRole
        \<lparr>ClusterRole_TypeMeta =
           \<lparr>TypeMeta_Kind = ''ClusterRole'',
            TypeMeta_APIVersion = ''rbac.authorization.k8s.io/v1''\<rparr>,
         ClusterRole_ObjectMeta =
           \<lparr>ObjectMeta_Name = ''hypershift-operator'', ObjectMeta_Namespace = [],
            ObjectMeta_Labels = Map.empty\<rparr>,
         ClusterRole_Rules = []\<rparr>,
      ORole
        \<lparr>Role_TypeMeta =
           \<lparr>TypeMeta_Kind = ''Role'', TypeMeta_APIVersion = ''rbac.authorization.k8s.io/v1''\<rparr>,
         Role_ObjectMeta =
           \<lparr>ObjectMeta_Name = ''prometheus'', ObjectMeta_Namespace = ''hypershift'',
            ObjectMeta_Labels = Map.empty\<rparr>,
         Role_Rules = []\<rparr>]"

definition example_operator :: "string \<Rightarrow> bool \<Rightarrow> HyperShiftOperatorDeployment" where
  "example_operator platform oidc =
     \<lparr>HyperShiftOperatorDeployment_Namespace = Some 0,
      HyperShiftOperatorDeployment_OperatorImage = ''quay.io/hypershift/hypershift-operator:latest'',
      HyperShiftOperatorDeployment_ServiceAccount = Some 1,
      HyperShiftOperatorDeployment_Replicas = 1,
      HyperShiftOperatorDeployment_EnableOCPClusterMonitoring = False,
      HyperShiftOperatorDeployment_EnableCIDebugOutput = False,
      HyperShiftOperatorDeployment_PrivatePlatform = platform,
      HyperShiftOperatorDeployment_AWSPrivateCreds = ''/etc/aws/credentials'',
      HyperShiftOperatorDeployment_AWSPrivateRegion = ''us-west-2'',
      HyperShiftOperatorDeployment_OIDCBucketName = (if oidc then ''bucket'' else []),
      HyperShiftOperatorDeployment_OIDCBucketRegion = (if oidc then ''us-east-2'' else []),
      HyperShiftOperatorDeployment_OIDCStorageProviderS3Secret = (if oidc then Some 2 else None),
      HyperShiftOperatorDeployment_OIDCStorageProviderS3SecretKey =
        (if oidc then ''credentials'' else [])\<rparr>"

definition example_externaldns :: "string \<Rightarrow> addr \<Rightarrow> ExternalDNSDeployment" where
  "example_externaldns provider secret =
     \<lparr>ExternalDNSDeployment_Namespace = Some 0,
      ExternalDNSDeployment_Image = ''registry.example/external-dns:latest'',
      ExternalDNSDeployment_ServiceAccount = Some 1,
      ExternalDNSDeployment_Provider = provider,
      ExternalDNSDeployment_DomainFilter = ''example.com'',
      ExternalDNSDeployment_CredentialsSecret = Some secret\<rparr>"

definition example_externaldns_creds :: ExternalDNSCredsSecret where
  "example_externaldns_creds =
     \<lparr>ExternalDNSCredsSecret_Namespace = Some 0,
      ExternalDNSCredsSecret_CredsBytes = []\<rparr>"

text \<open>
  The heap after \<^verbatim>\<open>ExternalDNSCredsSecret.Build\<close> has run on the example heap: the secret
  it built is the sixth object, at address 5.
\<close>

definition example_heap_with_creds :: heap where
  "example_heap_with_creds =
     (case ExternalDNSCredsSecret_Build example_externaldns_creds example_heap of
        Some (secret, h) \<Rightarrow> h
      | None \<Rightarrow> example_heap)"

text \<open>
  Two observations: the name of the secret at an address, and the names of the volume
  mounts in the containers of the Deployment that a \<^verbatim>\<open>Build\<close> returned.
\<close>

definition Secret_Name_at :: "addr \<Rightarrow> heap \<Rightarrow> string option" where
  "Secret_Name_at a h =
     (case load_Secret (Some a) h of
        Some s \<Rightarrow> Some (ObjectMeta_Name (Secret_ObjectMeta s))
      | None \<Rightarrow> None)"

definition built_VolumeMount_Names :: "(addr \<times> heap) option \<Rightarrow> string list option" where
  "built_VolumeMount_Names r =
     (case r of
        Some (p, h) \<Rightarrow>
          (case load_Deployment (Some p) h of
             Some d \<Rightarrow>
               Some (concat (map (\<lambda>c. map VolumeMount_Name (Container_VolumeMounts c))
                               (PodSpec_Containers (Deployment_PodSpec d))))
           | None \<Rightarrow> None)
      | None \<Rightarrow> None)"

definition example_ExternalDNSClusterRoleBinding :: ExternalDNSClusterRoleBinding where
  "example_ExternalDNSClusterRoleBinding =
     \<lparr>ExternalDNSClusterRoleBinding_ClusterRole = Some 3,
      ExternalDNSClusterRoleBinding_ServiceAccount = Some 1\<rparr>"

definition example_HyperShiftOperatorClusterRoleBinding :: HyperShiftOperatorClusterRoleBinding where
  "example_HyperShiftOperatorClusterRoleBinding =
     \<lparr>HyperShiftOperatorClusterRoleBinding_ClusterRole = Some 3,
      HyperShiftOperatorClusterRoleBinding_ServiceAccount = Some 1\<rparr>"

definition example_HyperShiftOperatorRoleBinding :: HyperShiftOperatorRoleBinding where
  "example_HyperShiftOperatorRoleBinding =
     \<lparr>HyperShiftOperatorRoleBinding_Role = Some 4,
      HyperShiftOperatorRoleBinding_ServiceAccount = Some 1\<rparr>"

definition example_HyperShiftClientClusterRoleBinding :: HyperShiftClientClusterRoleBinding where
  "example_HyperShiftClientClusterRoleBinding =
     \<lparr>HyperShiftClientClusterRoleBinding_ClusterRole = Some 3,
      HyperShiftClientClusterRoleBinding_ServiceAccount = Some 1,
      HyperShiftClientClusterRoleBinding_GroupName = ''hypershift-users''\<rparr>"

definition example_prometheus_binding :: "bool \<Rightarrow> HyperShiftOperatorPrometheusRoleBinding" where
  "example_prometheus_binding monitoring =
     \<lparr>HyperShiftOperatorPrometheusRoleBinding_Namespace = Some 0,
      HyperShiftOperatorPrometheusRoleBinding_Role = Some 4,
      HyperShiftOperatorPrometheusRoleBinding_EnableOCPClusterMonitoring = monitoring\<rparr>"

text \<open>
  For the property about all builders: a value for what \<^verbatim>\<open>recordingRuleSpec()\<close> returns,
  and the example operator configuration once more with its namespace and its service
  account at other addresses, for the example heap reversed.
\<close>

definition example_recordingRuleSpec :: PrometheusRuleSpec where
  "example_recordingRuleSpec = \<lparr>PrometheusRuleSpec_Groups = []\<rparr>"

definition example_operator_moved :: HyperShiftOperatorDeployment where
  "example_operator_moved =
     (example_operator ''AWS'' True)
       \<lparr>HyperShiftOperatorDeployment_Namespace := Some 4,
        HyperShiftOperatorDeployment_ServiceAccount := Some 3\<rparr>"

section \<open>All builders at once\<close>

text \<open>
  For the property that speaks of every \<^verbatim>\<open>Build\<close> method: a builder is one of the
  configuration structs of the file, and \<open>Build\<close> calls its method.
\<close>

datatype builder =
    B_HyperShiftNamespace HyperShiftNamespace
  | B_HyperShiftOperatorCredentialsSecret HyperShiftOperatorCredentialsSecret
  | B_HyperShiftOperatorOIDCProviderS3Secret HyperShiftOperatorOIDCProviderS3Secret
  | B_ExternalDNSCredsSecret ExternalDNSCredsSecret
  | B_ExternalDNSDeployment ExternalDNSDeployment
  | B_HyperShiftOperatorDeployment HyperShiftOperatorDeployment
  | B_HyperShiftOperatorService HyperShiftOperatorService
  | B_ExternalDNSServiceAccount ExternalDNSServiceAccount
  | B_ExternalDNSClusterRole
  | B_ExternalDNSClusterRoleBinding ExternalDNSClusterRoleBinding
  | B_HyperShiftOperatorServiceAccount HyperShiftOperatorServiceAccount
  | B_HyperShiftOperatorClusterRole
  | B_HyperShiftOperatorClusterRoleBinding HyperShiftOperatorClusterRoleBinding
  | B_HyperShiftOperatorRole HyperShiftOperatorRole
  | B_HyperShiftOperatorRoleBinding HyperShiftOperatorRoleBinding
  | B_HyperShiftControlPlanePriorityClass
  | B_HyperShiftAPICriticalPriorityClass
  | B_HyperShiftEtcdPriorityClass
  | B_HyperShiftPrometheusRole HyperShiftPrometheusRole
  | B_HyperShiftOperatorPrometheusRoleBinding HyperShiftOperatorPrometheusRoleBinding
  | B_HyperShiftServiceMonitor HyperShiftServiceMonitor
  | B_HypershiftRecordingRule HypershiftRecordingRule
  | B_HyperShiftClientClusterRole
  | B_HyperShiftClientServiceAccount HyperShiftClientServiceAccount
  | B_HyperShiftClientClusterRoleBinding HyperShiftClientClusterRoleBinding
  | B_HyperShiftReaderClusterRole
  | B_HyperShiftReaderClusterRoleBinding HyperShiftReaderClusterRoleBinding

fun Build :: "hyperv1 \<Rightarrow> PrometheusRuleSpec \<Rightarrow> builder \<Rightarrow> heap \<Rightarrow> (addr \<times> heap) option" where
  "Build hyperv1 recordingRuleSpec (B_HyperShiftNamespace cfg) h =
     HyperShiftNamespace_Build cfg h"
| "Build hyperv1 recordingRuleSpec (B_HyperShiftOperatorCredentialsSecret cfg) h =
     HyperShiftOperatorCredentialsSecret_Build cfg h"
| "Build hyperv1 recordingRuleSpec (B_HyperShiftOperatorOIDCProviderS3Secret cfg) h =
     HyperShiftOperatorOIDCProviderS3Secret_Build cfg h"
| "Build hyperv1 recordingRuleSpec (B_ExternalDNSCredsSecret cfg) h =
     ExternalDNSCredsSecret_Build cfg h"
| "Build hyperv1 recordingRuleSpec (B_ExternalDNSDeployment cfg) h =
     ExternalDNSDeployment_Build hyperv1 cfg h"
| "Build hyperv1 recordingRuleSpec (B_HyperShiftOperatorDeployment cfg) h =
     HyperShiftOperatorDeployment_Build hyperv1 cfg h"
| "Build hyperv1 recordingRuleSpec (B_HyperShiftOperatorService cfg) h =
     HyperShiftOperatorService_Build cfg h"
| "Build hyperv1 recordingRuleSpec (B_ExternalDNSServiceAccount cfg) h =
     ExternalDNSServiceAccount_Build cfg h"
| "Build hyperv1 recordingRuleSpec B_ExternalDNSClusterRole h =
     ExternalDNSClusterRole_Build h"
| "Build hyperv1 recordingRuleSpec (B_ExternalDNSClusterRoleBinding cfg) h =
     ExternalDNSClusterRoleBinding_Build cfg h"
| "Build hyperv1 recordingRuleSpec (B_HyperShiftOperatorServiceAccount cfg) h =
     HyperShiftOperatorServiceAccount_Build cfg h"
| "Build hyperv1 recordingRuleSpec B_HyperShiftOperatorClusterRole h =
     HyperShiftOperatorClusterRole_Build h"
| "Build hyperv1 recordingRuleSpec (B_HyperShiftOperatorClusterRoleBinding cfg) h =
     HyperShiftOperatorClusterRoleBinding_Build cfg h"
| "Build hyperv1 recordingRuleSpec (B_HyperShiftOperatorRole cfg) h =
     HyperShiftOperatorRole_Build cfg h"
| "Build hyperv1 recordingRuleSpec (B_HyperShiftOperatorRoleBinding cfg) h =
     HyperShiftOperatorRoleBinding_Build cfg h"
| "Build hyperv1 recordingRuleSpec B_HyperShiftControlPlanePriorityClass h =
     HyperShiftControlPlanePriorityClass_Build h"
| "Build hyperv1 recordingRuleSpec B_HyperShiftAPICriticalPriorityClass h =
     HyperShiftAPICriticalPriorityClass_Build h"
| "Build hyperv1 recordingRuleSpec B_HyperShiftEtcdPriorityClass h =
     HyperShiftEtcdPriorityClass_Build h"
| "Build hyperv1 recordingRuleSpec (B_HyperShiftPrometheusRole cfg) h =
     HyperShiftPrometheusRole_Build cfg h"
| "Build hyperv1 recordingRuleSpec (B_HyperShiftOperatorPrometheusRoleBinding cfg) h =
     HyperShiftOperatorPrometheusRoleBinding_Build cfg h"
| "Build hyperv1 recordingRuleSpec (B_HyperShiftServiceMonitor cfg) h =
     HyperShiftServiceMonitor_Build cfg h"
| "Build hyperv1 recordingRuleSpec (B_HypershiftRecordingRule cfg) h =
     HypershiftRecordingRule_Build recordingRuleSpec cfg h"
| "Build hyperv1 recordingRuleSpec B_HyperShiftClientClusterRole h =
     HyperShiftClientClusterRole_Build h"
| "Build hyperv1 recordingRuleSpec (B_HyperShiftClientServiceAccount cfg) h =
     HyperShiftClientServiceAccount_Build cfg h"
| "Build hyperv1 recordingRuleSpec (B_HyperShiftClientClusterRoleBinding cfg) h =
     HyperShiftClientClusterRoleBinding_Build cfg h"
| "Build hyperv1 recordingRuleSpec B_HyperShiftReaderClusterRole h =
     HyperShiftReaderClusterRole_Build h"
| "Build hyperv1 recordingRuleSpec (B_HyperShiftReaderClusterRoleBinding cfg) h =
     HyperShiftReaderClusterRoleBinding_Build cfg h"

text \<open>
  The value of a configuration: the name of its type and the values of its fields, in the
  order of the struct. The value of a pointer field is what it points to: \<open>None\<close> for
  \<^verbatim>\<open>nil\<close>, otherwise the result of loading the object from the heap. Two configurations
  with equal values may hold different addresses, in different heaps.
\<close>

definition pointee :: "(addr option \<Rightarrow> heap \<Rightarrow> 'a option) \<Rightarrow> addr option \<Rightarrow> heap \<Rightarrow> 'a option option" where
  "pointee load p h = (case p of None \<Rightarrow> None | Some a \<Rightarrow> Some (load (Some a) h))"

datatype field =
    V_string string
  | V_bool bool
  | V_int32 int32
  | V_bytes "byte list"
  | V_Namespace "Namespace option option"
  | V_ServiceAccount "ServiceAccount option option"
  | V_Secret "Secret option option"
  | V_ClusterRole "ClusterRole option option"
  | V_Role "Role option option"

fun config_value :: "builder \<Rightarrow> heap \<Rightarrow> string \<times> field list" where
  "config_value (B_HyperShiftNamespace cfg) h =
     (''HyperShiftNamespace'',
       [V_string (HyperShiftNamespace_Name cfg),
        V_bool (HyperShiftNamespace_EnableOCPClusterMonitoring cfg)])"
| "config_value (B_HyperShiftOperatorCredentialsSecret cfg) h =
     (''HyperShiftOperatorCredentialsSecret'',
       [V_Namespace (pointee load_Namespace (HyperShiftOperatorCredentialsSecret_Namespace cfg) h),
        V_bytes (HyperShiftOperatorCredentialsSecret_CredsBytes cfg)])"
| "config_value (B_HyperShiftOperatorOIDCProviderS3Secret cfg) h =
     (''HyperShiftOperatorOIDCProviderS3Secret'',
       [V_Namespace (pointee load_Namespace (HyperShiftOperatorOIDCProviderS3Secret_Namespace cfg) h),
        V_bytes (HyperShiftOperatorOIDCProviderS3Secret_OIDCStorageProviderS3CredBytes cfg),
        V_string (HyperShiftOperatorOIDCProviderS3Secret_CredsKey cfg)])"
| "config_value (B_ExternalDNSCredsSecret cfg) h =
     (''ExternalDNSCredsSecret'',
       [V_Namespace (pointee load_Namespace (ExternalDNSCredsSecret_Namespace cfg) h),
        V_bytes (ExternalDNSCredsSecret_CredsBytes cfg)])"
| "config_value (B_ExternalDNSDeployment cfg) h =
     (''ExternalDNSDeployment'',
       [V_Namespace (pointee load_Namespace (ExternalDNSDeployment_Namespace cfg) h),
        V_string (ExternalDNSDeployment_Image cfg),
        V_ServiceAccount (pointee load_ServiceAccount (ExternalDNSDeployment_ServiceAccount cfg) h),
        V_string (ExternalDNSDeployment_Provider cfg),
        V_string (ExternalDNSDeployment_DomainFilter cfg),
        V_Secret (pointee load_Secret (ExternalDNSDeployment_CredentialsSecret cfg) h)])"
| "config_value (B_HyperShiftOperatorDeployment cfg) h =
     (''HyperShiftOperatorDeployment'',
       [V_Namespace (pointee load_Namespace (HyperShiftOperatorDeployment_Namespace cfg) h),
        V_string (HyperShiftOperatorDeployment_OperatorImage cfg),
        V_ServiceAccount (pointee load_ServiceAccount (HyperShiftOperatorDeployment_ServiceAccount cfg) h),
        V_int32 (HyperShiftOperatorDeployment_Replicas cfg),
        V_bool (HyperShiftOperatorDeployment_EnableOCPClusterMonitoring cfg),
        V_bool (HyperShiftOperatorDeployment_EnableCIDebugOutput cfg),
        V_string (HyperShiftOperatorDeployment_PrivatePlatform cfg),
        V_string (HyperShiftOperatorDeployment_AWSPrivateCreds cfg),
        V_string (HyperShiftOperatorDeployment_AWSPrivateRegion cfg),
        V_string (HyperShiftOperatorDeployment_OIDCBucketName cfg),
        V_string (HyperShiftOperatorDeployment_OIDCBucketRegion cfg),
        V_Secret (pointee load_Secret (HyperShiftOperatorDeployment_OIDCStorageProviderS3Secret cfg) h),
        V_string (HyperShiftOperatorDeployment_OIDCStorageProviderS3SecretKey cfg)])"
| "config_value (B_HyperShiftOperatorService cfg) h =
     (''HyperShiftOperatorService'',
       [V_Namespace (pointee load_Namespace (HyperShiftOperatorService_Namespace cfg) h)])"
| "config_value (B_ExternalDNSServiceAccount cfg) h =
     (''ExternalDNSServiceAccount'',
       [V_Namespace (pointee load_Namespace (ExternalDNSServiceAccount_Namespace cfg) h)])"
| "config_value B_ExternalDNSClusterRole h = (''ExternalDNSClusterRole'', [])"
| "config_value (B_ExternalDNSClusterRoleBinding cfg) h =
     (''ExternalDNSClusterRoleBinding'',
       [V_ClusterRole (pointee load_ClusterRole (ExternalDNSClusterRoleBinding_ClusterRole cfg) h),
        V_ServiceAccount (pointee load_ServiceAccount (ExternalDNSClusterRoleBinding_ServiceAccount cfg) h)])"
| "config_value (B_HyperShiftOperatorServiceAccount cfg) h =
     (''HyperShiftOperatorServiceAccount'',
       [V_Namespace (pointee load_Namespace (HyperShiftOperatorServiceAccount_Namespace cfg) h)])"
| "config_value B_HyperShiftOperatorClusterRole h = (''HyperShiftOperatorClusterRole'', [])"
| "config_value (B_HyperShiftOperatorClusterRoleBinding cfg) h =
     (''HyperShiftOperatorClusterRoleBinding'',
       [V_ClusterRole (pointee load_ClusterRole (HyperShiftOperatorClusterRoleBinding_ClusterRole cfg) h),
        V_ServiceAccount (pointee load_ServiceAccount (HyperShiftOperatorClusterRoleBinding_ServiceAccount cfg) h)])"
| "config_value (B_HyperShiftOperatorRole cfg) h =
     (''HyperShiftOperatorRole'',
       [V_Namespace (pointee load_Namespace (HyperShiftOperatorRole_Namespace cfg) h)])"
| "config_value (B_HyperShiftOperatorRoleBinding cfg) h =
     (''HyperShiftOperatorRoleBinding'',
       [V_Role (pointee load_Role (HyperShiftOperatorRoleBinding_Role cfg) h),
        V_ServiceAccount (pointee load_ServiceAccount (HyperShiftOperatorRoleBinding_ServiceAccount cfg) h)])"
| "config_value B_HyperShiftControlPlanePriorityClass h = (''HyperShiftControlPlanePriorityClass'', [])"
| "config_value B_HyperShiftAPICriticalPriorityClass h = (''HyperShiftAPICriticalPriorityClass'', [])"
| "config_value B_HyperShiftEtcdPriorityClass h = (''HyperShiftEtcdPriorityClass'', [])"
| "config_value (B_HyperShiftPrometheusRole cfg) h =
     (''HyperShiftPrometheusRole'',
       [V_Namespace (pointee load_Namespace (HyperShiftPrometheusRole_Namespace cfg) h)])"
| "config_value (B_HyperShiftOperatorPrometheusRoleBinding cfg) h =
     (''HyperShiftOperatorPrometheusRoleBinding'',
       [V_Namespace (pointee load_Namespace (HyperShiftOperatorPrometheusRoleBinding_Namespace cfg) h),
        V_Role (pointee load_Role (HyperShiftOperatorPrometheusRoleBinding_Role cfg) h),
        V_bool (HyperShiftOperatorPrometheusRoleBinding_EnableOCPClusterMonitoring cfg)])"
| "config_value (B_HyperShiftServiceMonitor cfg) h =
     (''HyperShiftServiceMonitor'',
       [V_Namespace (pointee load_Namespace (HyperShiftServiceMonitor_Namespace cfg) h)])"
| "config_value (B_HypershiftRecordingRule cfg) h =
     (''HypershiftRecordingRule'',
       [V_Namespace (pointee load_Namespace (HypershiftRecordingRule_Namespace cfg) h)])"
| "config_value B_HyperShiftClientClusterRole h = (''HyperShiftClientClusterRole'', [])"
| "config_value (B_HyperShiftClientServiceAccount cfg) h =
     (''HyperShiftClientServiceAccount'',
       [V_Namespace (pointee load_Namespace (HyperShiftClientServiceAccount_Namespace cfg) h)])"
| "config_value (B_HyperShiftClientClusterRoleBinding cfg) h =
     (''HyperShiftClientClusterRoleBinding'',
       [V_ClusterRole (pointee load_ClusterRole (HyperShiftClientClusterRoleBinding_ClusterRole cfg) h),
        V_ServiceAccount (pointee load_ServiceAccount (HyperShiftClientClusterRoleBinding_ServiceAccount cfg) h),
        V_string (HyperShiftClientClusterRoleBinding_GroupName cfg)])"
| "config_value B_HyperShiftReaderClusterRole h = (''HyperShiftReaderClusterRole'', [])"
| "config_value (B_HyperShiftReaderClusterRoleBinding cfg) h =
     (''HyperShiftReaderClusterRoleBinding'',
       [V_ClusterRole (pointee load_ClusterRole (HyperShiftReaderClusterRoleBinding_ClusterRole cfg) h),
        V_string (HyperShiftReaderClusterRoleBinding_GroupName cfg)])"

text \<open>
  What a \<^verbatim>\<open>Build\<close> returned: the object behind the pointer it returned, in the heap it
  left; \<open>None\<close> when it panicked.
\<close>

definition built :: "(addr \<times> heap) option \<Rightarrow> obj option" where
  "built r = (case r of None \<Rightarrow> None | Some (p, h) \<Rightarrow> deref (Some p) h)"

section \<open>Properties\<close>

subsection \<open>Reading and writing a freshly allocated Deployment\<close>

lemma load_Deployment_new [simp]:
  "load_Deployment (Some (length h)) (h @ [ODeployment d]) = Some d"
  by (simp add: load_Deployment_def deref_def)

lemma update_Deployment_new [simp]:
  "update_Deployment (length h) f (h @ [ODeployment d]) =
     (case f d of None \<Rightarrow> None | Some y \<Rightarrow> Some (h @ [ODeployment y]))"
  by (simp add: update_Deployment_def split: option.splits)

lemma Deployment_PodSpec_set_PodSpec [simp]:
  "Deployment_PodSpec (set_PodSpec ps d) = ps"
  by (simp add: Deployment_PodSpec_def set_PodSpec_def)

lemma set_PodSpec_set_PodSpec [simp]:
  "set_PodSpec ps (set_PodSpec ps' d) = set_PodSpec ps d"
  by (simp add: set_PodSpec_def)

subsection \<open>The operator Deployment, step by step\<close>

lemma HyperShiftOperatorDeployment_literal_PodSpec [simp]:
  "Deployment_PodSpec (HyperShiftOperatorDeployment_literal hyperv1 cfg ns sa args envVars m v) =
     \<lparr>PodSpec_ServiceAccountName = ObjectMeta_Name (ServiceAccount_ObjectMeta sa),
      PodSpec_Containers = [HyperShiftOperatorDeployment_container cfg args envVars m],
      PodSpec_Volumes = v\<rparr>"
  by (simp add: Deployment_PodSpec_def HyperShiftOperatorDeployment_literal_def)

lemma HyperShiftOperatorDeployment_container_simps [simp]:
  "Container_Name (HyperShiftOperatorDeployment_container cfg args envVars m) = ''operator''"
  "Container_Args (HyperShiftOperatorDeployment_container cfg args envVars m) = args"
  "Container_Env (HyperShiftOperatorDeployment_container cfg args envVars m) = envVars"
  "Container_VolumeMounts (HyperShiftOperatorDeployment_container cfg args envVars m) = m"
  by (simp_all add: HyperShiftOperatorDeployment_container_def)

lemmas assign_defs = assign_Volumes_def assign_Containers0_def

lemma HyperShiftOperatorDeployment_oidc_eq:
  "HyperShiftOperatorDeployment_oidc cfg h args m v =
     (if HyperShiftOperatorDeployment_OIDCBucketName cfg \<noteq> [] \<and>
         HyperShiftOperatorDeployment_OIDCBucketRegion cfg \<noteq> [] \<and>
         HyperShiftOperatorDeployment_OIDCStorageProviderS3SecretKey cfg \<noteq> [] \<and>
         HyperShiftOperatorDeployment_OIDCStorageProviderS3Secret cfg \<noteq> None \<and>
         load_Secret (HyperShiftOperatorDeployment_OIDCStorageProviderS3Secret cfg) h = None
      then None
      else if oidc_configured cfg h then
        Some
          (args @
             [''--oidc-storage-provider-s3-bucket-name='' @
                HyperShiftOperatorDeployment_OIDCBucketName cfg,
              ''--oidc-storage-provider-s3-region='' @
                HyperShiftOperatorDeployment_OIDCBucketRegion cfg,
              ''--oidc-storage-provider-s3-credentials=/etc/oidc-storage-provider-s3-creds/'' @
                HyperShiftOperatorDeployment_OIDCStorageProviderS3SecretKey cfg],
           [\<lparr>VolumeMount_Name = ''oidc-storage-provider-s3-creds'',
             VolumeMount_MountPath = ''/etc/oidc-storage-provider-s3-creds''\<rparr>],
           [\<lparr>Volume_Name = ''oidc-storage-provider-s3-creds'',
             Volume_VolumeSource =
               \<lparr>VolumeSource_Secret = Some
                  \<lparr>SecretVolumeSource_SecretName =
                     ObjectMeta_Name (Secret_ObjectMeta
                       (the (load_Secret (HyperShiftOperatorDeployment_OIDCStorageProviderS3Secret cfg) h)))\<rparr>,
                VolumeSource_Projected = None\<rparr>\<rparr>])
      else Some (args, m, v))"
  unfolding HyperShiftOperatorDeployment_oidc_def oidc_configured_def
  by (cases "load_Secret (HyperShiftOperatorDeployment_OIDCStorageProviderS3Secret cfg) h") auto

lemma HyperShiftOperatorDeployment_platform_new:
  assumes "PodSpec_Containers (Deployment_PodSpec d) = [c]"
  shows "HyperShiftOperatorDeployment_platform hyperv1 cfg (length h) (h @ [ODeployment d]) =
     Some (length h, h @ [ODeployment
       (if HyperShiftOperatorDeployment_PrivatePlatform cfg = hyperv1_NonePlatform hyperv1 then d
        else set_PodSpec
          \<lparr>PodSpec_ServiceAccountName = PodSpec_ServiceAccountName (Deployment_PodSpec d),
           PodSpec_Containers =
             [c\<lparr>Container_Env := Container_Env c @
                   (if HyperShiftOperatorDeployment_PrivatePlatform cfg = hyperv1_AWSPlatform hyperv1
                    then [\<lparr>EnvVar_Name = ''AWS_SHARED_CREDENTIALS_FILE'',
                           EnvVar_Value = ''/etc/provider/credentials'',
                           EnvVar_ValueFrom = None\<rparr>,
                          \<lparr>EnvVar_Name = ''AWS_REGION'',
                           EnvVar_Value = HyperShiftOperatorDeployment_AWSPrivateRegion cfg,
                           EnvVar_ValueFrom = None\<rparr>]
                    else []),
                Container_VolumeMounts := Container_VolumeMounts c @
                   \<lparr>VolumeMount_Name = ''credentials'', VolumeMount_MountPath = ''/etc/provider''\<rparr> #
                   (if HyperShiftOperatorDeployment_PrivatePlatform cfg = hyperv1_AWSPlatform hyperv1
                    then [\<lparr>VolumeMount_Name = ''token'',
                           VolumeMount_MountPath = ''/var/run/secrets/openshift/serviceaccount''\<rparr>]
                    else [])\<rparr>],
           PodSpec_Volumes = PodSpec_Volumes (Deployment_PodSpec d) @
             \<lparr>Volume_Name = ''credentials'',
              Volume_VolumeSource =
                \<lparr>VolumeSource_Secret = Some
                   \<lparr>SecretVolumeSource_SecretName = ''hypershift-operator-aws-credentials''\<rparr>,
                 VolumeSource_Projected = None\<rparr>\<rparr> #
             (if HyperShiftOperatorDeployment_PrivatePlatform cfg = hyperv1_AWSPlatform hyperv1
              then [\<lparr>Volume_Name = ''token'',
                     Volume_VolumeSource =
                       \<lparr>VolumeSource_Secret = None,
                        VolumeSource_Projected = Some
                          \<lparr>ProjectedVolumeSource_Sources =
                             [\<lparr>VolumeProjection_ServiceAccountToken = Some
                                 \<lparr>ServiceAccountTokenProjection_Audience = ''openshift'',
                                  ServiceAccountTokenProjection_Path = ''token''\<rparr>\<rparr>]\<rparr>\<rparr>\<rparr>]
              else [])\<rparr> d)])"
proof -
  obtain n cs vs where ps: "Deployment_PodSpec d =
      \<lparr>PodSpec_ServiceAccountName = n, PodSpec_Containers = cs, PodSpec_Volumes = vs\<rparr>"
    by (cases "Deployment_PodSpec d") simp
  with assms have cs: "cs = [c]" by simp
  show ?thesis
  proof (cases "HyperShiftOperatorDeployment_PrivatePlatform cfg = hyperv1_NonePlatform hyperv1")
    case True
    then show ?thesis by (simp add: HyperShiftOperatorDeployment_platform_def)
  next
    case False
    show ?thesis
    proof (cases "HyperShiftOperatorDeployment_PrivatePlatform cfg = hyperv1_AWSPlatform hyperv1")
      case True
      with False ps cs show ?thesis
        by (simp add: HyperShiftOperatorDeployment_platform_def assign_defs awsCredsSecretName_def)
    next
      case nAWS: False
      with False ps cs show ?thesis
        by (simp add: HyperShiftOperatorDeployment_platform_def assign_defs awsCredsSecretName_def)
    qed
  qed
qed

lemma HyperShiftOperatorDeployment_oidc_None:
  "(HyperShiftOperatorDeployment_oidc cfg h args m v = None) =
     (HyperShiftOperatorDeployment_OIDCBucketName cfg \<noteq> [] \<and>
      HyperShiftOperatorDeployment_OIDCBucketRegion cfg \<noteq> [] \<and>
      HyperShiftOperatorDeployment_OIDCStorageProviderS3SecretKey cfg \<noteq> [] \<and>
      HyperShiftOperatorDeployment_OIDCStorageProviderS3Secret cfg \<noteq> None \<and>
      load_Secret (HyperShiftOperatorDeployment_OIDCStorageProviderS3Secret cfg) h = None)"
  by (simp add: HyperShiftOperatorDeployment_oidc_eq)

lemma HyperShiftOperatorDeployment_platform_literal:
  "HyperShiftOperatorDeployment_platform hyperv1 cfg (length h)
     (h @ [ODeployment (HyperShiftOperatorDeployment_literal hyperv1 cfg ns sa args envVars m v)]) \<noteq> None"
  by (simp add: HyperShiftOperatorDeployment_platform_new [where c = "HyperShiftOperatorDeployment_container cfg args envVars m"])

lemma HyperShiftOperatorDeployment_Build_None:
  "(HyperShiftOperatorDeployment_Build hyperv1 cfg h = None) = HyperShiftOperatorDeployment_panics cfg h"
proof -
  have "(HyperShiftOperatorDeployment_Build hyperv1 cfg h = None) =
        (HyperShiftOperatorDeployment_oidc cfg h
            [''run'',
             ''--namespace=$(MY_NAMESPACE)'',
             ''--deployment-name=operator'',
             ''--metrics-addr=:9000'',
             ''--enable-ocp-cluster-monitoring='' @
               Sprintf_t (HyperShiftOperatorDeployment_EnableOCPClusterMonitoring cfg),
             ''--enable-ci-debug-output='' @
               Sprintf_t (HyperShiftOperatorDeployment_EnableCIDebugOutput cfg),
             ''--private-platform='' @ HyperShiftOperatorDeployment_PrivatePlatform cfg] [] [] = None \<or>
         load_Namespace (HyperShiftOperatorDeployment_Namespace cfg) h = None \<or>
         load_ServiceAccount (HyperShiftOperatorDeployment_ServiceAccount cfg) h = None)"
    unfolding HyperShiftOperatorDeployment_Build_def new_def Let_def
    by (auto simp: HyperShiftOperatorDeployment_platform_literal split: Option.bind_splits)
  then show ?thesis
    by (simp only: HyperShiftOperatorDeployment_oidc_None HyperShiftOperatorDeployment_panics_def)
qed


lemma HyperShiftOperatorDeployment_Build_Some:
  assumes "HyperShiftOperatorDeployment_Build hyperv1 cfg h = Some (p, h')"
  shows "\<exists>ns sa args m v.
     HyperShiftOperatorDeployment_oidc cfg h
       [''run'',
        ''--namespace=$(MY_NAMESPACE)'',
        ''--deployment-name=operator'',
        ''--metrics-addr=:9000'',
        ''--enable-ocp-cluster-monitoring='' @
          Sprintf_t (HyperShiftOperatorDeployment_EnableOCPClusterMonitoring cfg),
        ''--enable-ci-debug-output='' @
          Sprintf_t (HyperShiftOperatorDeployment_EnableCIDebugOutput cfg),
        ''--private-platform='' @ HyperShiftOperatorDeployment_PrivatePlatform cfg] [] [] =
       Some (args, m, v) \<and>
     load_Namespace (HyperShiftOperatorDeployment_Namespace cfg) h = Some ns \<and>
     load_ServiceAccount (HyperShiftOperatorDeployment_ServiceAccount cfg) h = Some sa \<and>
     HyperShiftOperatorDeployment_platform hyperv1 cfg (length h)
       (h @ [ODeployment (HyperShiftOperatorDeployment_literal hyperv1 cfg ns sa args
          [\<lparr>EnvVar_Name = ''MY_NAMESPACE'',
            EnvVar_Value = [],
            EnvVar_ValueFrom = Some
              \<lparr>EnvVarSource_FieldRef = Some
                 \<lparr>ObjectFieldSelector_FieldPath = ''metadata.namespace''\<rparr>\<rparr>\<rparr>] m v)]) =
       Some (p, h')"
  using assms
  unfolding HyperShiftOperatorDeployment_Build_def new_def Let_def
  by (auto split: Option.bind_splits)

lemma HyperShiftOperatorDeployment_Build_result:
  assumes "HyperShiftOperatorDeployment_Build hyperv1 cfg h = Some (p, h')"
  shows "\<exists>d c. load_Deployment (Some p) h' = Some d \<and>
          PodSpec_Containers (Deployment_PodSpec d) = [c] \<and>
          Container_Name c = ''operator'' \<and>
          Container_Args c =
            [''run'',
             ''--namespace=$(MY_NAMESPACE)'',
             ''--deployment-name=operator'',
             ''--metrics-addr=:9000'',
             ''--enable-ocp-cluster-monitoring='' @
               Sprintf_t (HyperShiftOperatorDeployment_EnableOCPClusterMonitoring cfg),
             ''--enable-ci-debug-output='' @
               Sprintf_t (HyperShiftOperatorDeployment_EnableCIDebugOutput cfg),
             ''--private-platform='' @ HyperShiftOperatorDeployment_PrivatePlatform cfg] @
            (if oidc_configured cfg h then
               [''--oidc-storage-provider-s3-bucket-name='' @
                  HyperShiftOperatorDeployment_OIDCBucketName cfg,
                ''--oidc-storage-provider-s3-region='' @
                  HyperShiftOperatorDeployment_OIDCBucketRegion cfg,
                ''--oidc-storage-provider-s3-credentials=/etc/oidc-storage-provider-s3-creds/'' @
                  HyperShiftOperatorDeployment_OIDCStorageProviderS3SecretKey cfg]
             else []) \<and>
          Container_Env c =
            \<lparr>EnvVar_Name = ''MY_NAMESPACE'',
             EnvVar_Value = [],
             EnvVar_ValueFrom = Some
               \<lparr>EnvVarSource_FieldRef = Some
                  \<lparr>ObjectFieldSelector_FieldPath = ''metadata.namespace''\<rparr>\<rparr>\<rparr> #
            (if HyperShiftOperatorDeployment_PrivatePlatform cfg \<noteq> hyperv1_NonePlatform hyperv1 \<and>
                HyperShiftOperatorDeployment_PrivatePlatform cfg = hyperv1_AWSPlatform hyperv1
             then [\<lparr>EnvVar_Name = ''AWS_SHARED_CREDENTIALS_FILE'',
                    EnvVar_Value = ''/etc/provider/credentials'',
                    EnvVar_ValueFrom = None\<rparr>,
                   \<lparr>EnvVar_Name = ''AWS_REGION'',
                    EnvVar_Value = HyperShiftOperatorDeployment_AWSPrivateRegion cfg,
                    EnvVar_ValueFrom = None\<rparr>]
             else []) \<and>
          Container_VolumeMounts c =
            (if oidc_configured cfg h then
               [\<lparr>VolumeMount_Name = ''oidc-storage-provider-s3-creds'',
                 VolumeMount_MountPath = ''/etc/oidc-storage-provider-s3-creds''\<rparr>]
             else []) @
            (if HyperShiftOperatorDeployment_PrivatePlatform cfg \<noteq> hyperv1_NonePlatform hyperv1
             then [\<lparr>VolumeMount_Name = ''credentials'', VolumeMount_MountPath = ''/etc/provider''\<rparr>]
             else []) @
            (if HyperShiftOperatorDeployment_PrivatePlatform cfg \<noteq> hyperv1_NonePlatform hyperv1 \<and>
                HyperShiftOperatorDeployment_PrivatePlatform cfg = hyperv1_AWSPlatform hyperv1
             then [\<lparr>VolumeMount_Name = ''token'',
                    VolumeMount_MountPath = ''/var/run/secrets/openshift/serviceaccount''\<rparr>]
             else []) \<and>
          PodSpec_Volumes (Deployment_PodSpec d) =
            (if oidc_configured cfg h then
               [\<lparr>Volume_Name = ''oidc-storage-provider-s3-creds'',
                 Volume_VolumeSource =
                   \<lparr>VolumeSource_Secret = Some
                      \<lparr>SecretVolumeSource_SecretName =
                         ObjectMeta_Name (Secret_ObjectMeta
                           (the (load_Secret
                              (HyperShiftOperatorDeployment_OIDCStorageProviderS3Secret cfg) h)))\<rparr>,
                    VolumeSource_Projected = None\<rparr>\<rparr>]
             else []) @
            (if HyperShiftOperatorDeployment_PrivatePlatform cfg \<noteq> hyperv1_NonePlatform hyperv1
             then [\<lparr>Volume_Name = ''credentials'',
                    Volume_VolumeSource =
                      \<lparr>VolumeSource_Secret = Some
                         \<lparr>SecretVolumeSource_SecretName = ''hypershift-operator-aws-credentials''\<rparr>,
                       VolumeSource_Projected = None\<rparr>\<rparr>]
             else []) @
            (if HyperShiftOperatorDeployment_PrivatePlatform cfg \<noteq> hyperv1_NonePlatform hyperv1 \<and>
                HyperShiftOperatorDeployment_PrivatePlatform cfg = hyperv1_AWSPlatform hyperv1
             then [\<lparr>Volume_Name = ''token'',
                    Volume_VolumeSource =
                      \<lparr>VolumeSource_Secret = None,
                       VolumeSource_Projected = Some
                         \<lparr>ProjectedVolumeSource_Sources =
                            [\<lparr>VolumeProjection_ServiceAccountToken = Some
                                \<lparr>ServiceAccountTokenProjection_Audience = ''openshift'',
                                 ServiceAccountTokenProjection_Path = ''token''\<rparr>\<rparr>]\<rparr>\<rparr>\<rparr>]
             else [])"
proof -
  from HyperShiftOperatorDeployment_Build_Some [OF assms]
  obtain ns sa args m v where
    oidc: "HyperShiftOperatorDeployment_oidc cfg h
       [''run'',
        ''--namespace=$(MY_NAMESPACE)'',
        ''--deployment-name=operator'',
        ''--metrics-addr=:9000'',
        ''--enable-ocp-cluster-monitoring='' @
          Sprintf_t (HyperShiftOperatorDeployment_EnableOCPClusterMonitoring cfg),
        ''--enable-ci-debug-output='' @
          Sprintf_t (HyperShiftOperatorDeployment_EnableCIDebugOutput cfg),
        ''--private-platform='' @ HyperShiftOperatorDeployment_PrivatePlatform cfg] [] [] =
       Some (args, m, v)"
    and platform: "HyperShiftOperatorDeployment_platform hyperv1 cfg (length h)
       (h @ [ODeployment (HyperShiftOperatorDeployment_literal hyperv1 cfg ns sa args
          [\<lparr>EnvVar_Name = ''MY_NAMESPACE'',
            EnvVar_Value = [],
            EnvVar_ValueFrom = Some
              \<lparr>EnvVarSource_FieldRef = Some
                 \<lparr>ObjectFieldSelector_FieldPath = ''metadata.namespace''\<rparr>\<rparr>\<rparr>] m v)]) =
       Some (p, h')"
    by blast
  note new = HyperShiftOperatorDeployment_platform_new
    [where c = "HyperShiftOperatorDeployment_container cfg args
          [\<lparr>EnvVar_Name = ''MY_NAMESPACE'',
            EnvVar_Value = [],
            EnvVar_ValueFrom = Some
              \<lparr>EnvVarSource_FieldRef = Some
                 \<lparr>ObjectFieldSelector_FieldPath = ''metadata.namespace''\<rparr>\<rparr>\<rparr>] m"]
  show ?thesis
  proof (cases "oidc_configured cfg h")
    case True
    with oidc platform show ?thesis
      by (auto simp: HyperShiftOperatorDeployment_oidc_eq new split: if_split_asm)
  next
    case False
    with oidc platform show ?thesis
      by (auto simp: HyperShiftOperatorDeployment_oidc_eq new split: if_split_asm)
  qed
qed

lemma HyperShiftOperatorDeployment_Build_SomeE:
  assumes "HyperShiftOperatorDeployment_Build hyperv1 cfg h = Some (p, h')"
  obtains (result) d c where
    "load_Deployment (Some p) h' = Some d"
    and "PodSpec_Containers (Deployment_PodSpec d) = [c]"
    and "Container_Name c = ''operator''"
    and "Container_Args c =
            [''run'',
             ''--namespace=$(MY_NAMESPACE)'',
             ''--deployment-name=operator'',
             ''--metrics-addr=:9000'',
             ''--enable-ocp-cluster-monitoring='' @
               Sprintf_t (HyperShiftOperatorDeployment_EnableOCPClusterMonitoring cfg),
             ''--enable-ci-debug-output='' @
               Sprintf_t (HyperShiftOperatorDeployment_EnableCIDebugOutput cfg),
             ''--private-platform='' @ HyperShiftOperatorDeployment_PrivatePlatform cfg] @
            (if oidc_configured cfg h then
               [''--oidc-storage-provider-s3-bucket-name='' @
                  HyperShiftOperatorDeployment_OIDCBucketName cfg,
                ''--oidc-storage-provider-s3-region='' @
                  HyperShiftOperatorDeployment_OIDCBucketRegion cfg,
                ''--oidc-storage-provider-s3-credentials=/etc/oidc-storage-provider-s3-creds/'' @
                  HyperShiftOperatorDeployment_OIDCStorageProviderS3SecretKey cfg]
             else [])"
    and "Container_Env c =
            \<lparr>EnvVar_Name = ''MY_NAMESPACE'',
             EnvVar_Value = [],
             EnvVar_ValueFrom = Some
               \<lparr>EnvVarSource_FieldRef = Some
                  \<lparr>ObjectFieldSelector_FieldPath = ''metadata.namespace''\<rparr>\<rparr>\<rparr> #
            (if HyperShiftOperatorDeployment_PrivatePlatform cfg \<noteq> hyperv1_NonePlatform hyperv1 \<and>
                HyperShiftOperatorDeployment_PrivatePlatform cfg = hyperv1_AWSPlatform hyperv1
             then [\<lparr>EnvVar_Name = ''AWS_SHARED_CREDENTIALS_FILE'',
                    EnvVar_Value = ''/etc/provider/credentials'',
                    EnvVar_ValueFrom = None\<rparr>,
                   \<lparr>EnvVar_Name = ''AWS_REGION'',
                    EnvVar_Value = HyperShiftOperatorDeployment_AWSPrivateRegion cfg,
                    EnvVar_ValueFrom = None\<rparr>]
             else [])"
    and "Container_VolumeMounts c =
            (if oidc_configured cfg h then
               [\<lparr>VolumeMount_Name = ''oidc-storage-provider-s3-creds'',
                 VolumeMount_MountPath = ''/etc/oidc-storage-provider-s3-creds''\<rparr>]
             else []) @
            (if HyperShiftOperatorDeployment_PrivatePlatform cfg \<noteq> hyperv1_NonePlatform hyperv1
             then [\<lparr>VolumeMount_Name = ''credentials'', VolumeMount_MountPath = ''/etc/provider''\<rparr>]
             else []) @
            (if HyperShiftOperatorDeployment_PrivatePlatform cfg \<noteq> hyperv1_NonePlatform hyperv1 \<and>
                HyperShiftOperatorDeployment_PrivatePlatform cfg = hyperv1_AWSPlatform hyperv1
             then [\<lparr>VolumeMount_Name = ''token'',
                    VolumeMount_MountPath = ''/var/run/secrets/openshift/serviceaccount''\<rparr>]
             else [])"
    and "PodSpec_Volumes (Deployment_PodSpec d) =
            (if oidc_configured cfg h then
               [\<lparr>Volume_Name = ''oidc-storage-provider-s3-creds'',
                 Volume_VolumeSource =
                   \<lparr>VolumeSource_Secret = Some
                      \<lparr>SecretVolumeSource_SecretName =
                         ObjectMeta_Name (Secret_ObjectMeta
                           (the (load_Secret
                              (HyperShiftOperatorDeployment_OIDCStorageProviderS3Secret cfg) h)))\<rparr>,
                    VolumeSource_Projected = None\<rparr>\<rparr>]
             else []) @
            (if HyperShiftOperatorDeployment_PrivatePlatform cfg \<noteq> hyperv1_NonePlatform hyperv1
             then [\<lparr>Volume_Name = ''credentials'',
                    Volume_VolumeSource =
                      \<lparr>VolumeSource_Secret = Some
                         \<lparr>SecretVolumeSource_SecretName = ''hypershift-operator-aws-credentials''\<rparr>,
                       VolumeSource_Projected = None\<rparr>\<rparr>]
             else []) @
            (if HyperShiftOperatorDeployment_PrivatePlatform cfg \<noteq> hyperv1_NonePlatform hyperv1 \<and>
                HyperShiftOperatorDeployment_PrivatePlatform cfg = hyperv1_AWSPlatform hyperv1
             then [\<lparr>Volume_Name = ''token'',
                    Volume_VolumeSource =
                      \<lparr>VolumeSource_Secret = None,
                       VolumeSource_Projected = Some
                         \<lparr>ProjectedVolumeSource_Sources =
                            [\<lparr>VolumeProjection_ServiceAccountToken = Some
                                \<lparr>ServiceAccountTokenProjection_Audience = ''openshift'',
                                 ServiceAccountTokenProjection_Path = ''token''\<rparr>\<rparr>]\<rparr>\<rparr>\<rparr>]
             else [])"
  using HyperShiftOperatorDeployment_Build_result [OF assms] by blast

subsection \<open>The external-dns Deployment\<close>

lemma ExternalDNSDeployment_literal_PodSpec [simp]:
  "Deployment_PodSpec (ExternalDNSDeployment_literal hyperv1 cfg replicas ns sa cs) =
     \<lparr>PodSpec_ServiceAccountName = ObjectMeta_Name (ServiceAccount_ObjectMeta sa),
      PodSpec_Containers = [ExternalDNSDeployment_container cfg],
      PodSpec_Volumes =
        [\<lparr>Volume_Name = ''credentials'',
          Volume_VolumeSource =
            \<lparr>VolumeSource_Secret = Some
               \<lparr>SecretVolumeSource_SecretName = ObjectMeta_Name (Secret_ObjectMeta cs)\<rparr>,
             VolumeSource_Projected = None\<rparr>\<rparr>]\<rparr>"
  by (simp add: Deployment_PodSpec_def ExternalDNSDeployment_literal_def)

lemma ExternalDNSDeployment_container_simps [simp]:
  "Container_Name (ExternalDNSDeployment_container cfg) = ''external-dns''"
  "Container_Args (ExternalDNSDeployment_container cfg) =
     [''--source=service'',
      ''--source=openshift-route'',
      ''--domain-filter='' @ ExternalDNSDeployment_DomainFilter cfg,
      ''--provider='' @ ExternalDNSDeployment_Provider cfg,
      ''--registry=noop'',
      ''--txt-owner-id=hypershift'']"
  "Container_Env (ExternalDNSDeployment_container cfg) = []"
  "Container_VolumeMounts (ExternalDNSDeployment_container cfg) =
     [\<lparr>VolumeMount_Name = ''credentials'', VolumeMount_MountPath = ''/etc/provider''\<rparr>]"
  by (simp_all add: ExternalDNSDeployment_container_def)

lemma ExternalDNSDeployment_Build_None:
  "(ExternalDNSDeployment_Build hyperv1 cfg h = None) = ExternalDNSDeployment_panics cfg h"
  unfolding ExternalDNSDeployment_Build_def ExternalDNSDeployment_panics_def new_def Let_def
  by (auto simp: assign_defs split: Option.bind_splits)

lemma ExternalDNSDeployment_Build_result:
  assumes "ExternalDNSDeployment_Build hyperv1 cfg h = Some (p, h')"
  shows "\<exists>d c cs. load_Deployment (Some p) h' = Some d \<and>
          load_Secret (ExternalDNSDeployment_CredentialsSecret cfg) h = Some cs \<and>
          PodSpec_Containers (Deployment_PodSpec d) = [c] \<and>
          Container_Name c = ''external-dns'' \<and>
          Container_Args c =
            [''--source=service'',
             ''--source=openshift-route'',
             ''--domain-filter='' @ ExternalDNSDeployment_DomainFilter cfg,
             ''--provider='' @ ExternalDNSDeployment_Provider cfg,
             ''--registry=noop'',
             ''--txt-owner-id=hypershift''] @
            (if ExternalDNSDeployment_Provider cfg = ''aws''
             then [''--aws-zone-type=public''] else []) \<and>
          Container_Env c =
            (if ExternalDNSDeployment_Provider cfg = ''aws''
             then [\<lparr>EnvVar_Name = ''AWS_SHARED_CREDENTIALS_FILE'',
                    EnvVar_Value = ''/etc/provider/credentials'',
                    EnvVar_ValueFrom = None\<rparr>,
                   \<lparr>EnvVar_Name = ''AWS_REGION'',
                    EnvVar_Value = ''us-east-1'',
                    EnvVar_ValueFrom = None\<rparr>]
             else []) \<and>
          Container_VolumeMounts c =
            [\<lparr>VolumeMount_Name = ''credentials'', VolumeMount_MountPath = ''/etc/provider''\<rparr>] \<and>
          PodSpec_Volumes (Deployment_PodSpec d) =
            [\<lparr>Volume_Name = ''credentials'',
              Volume_VolumeSource =
                \<lparr>VolumeSource_Secret = Some
                   \<lparr>SecretVolumeSource_SecretName = ObjectMeta_Name (Secret_ObjectMeta cs)\<rparr>,
                 VolumeSource_Projected = None\<rparr>\<rparr>]"
proof (cases "ExternalDNSDeployment_Provider cfg = ''aws''")
  case True
  with assms show ?thesis
    unfolding ExternalDNSDeployment_Build_def new_def Let_def
    by (auto simp: assign_defs split: Option.bind_splits)
next
  case False
  with assms show ?thesis
    unfolding ExternalDNSDeployment_Build_def new_def Let_def
    by (auto simp: assign_defs split: Option.bind_splits)
qed

lemma ExternalDNSDeployment_Build_SomeE:
  assumes "ExternalDNSDeployment_Build hyperv1 cfg h = Some (p, h')"
  obtains (result) d c cs where
    "load_Deployment (Some p) h' = Some d"
    and "load_Secret (ExternalDNSDeployment_CredentialsSecret cfg) h = Some cs"
    and "PodSpec_Containers (Deployment_PodSpec d) = [c]"
    and "Container_Name c = ''external-dns''"
    and "Container_Args c =
            [''--source=service'',
             ''--source=openshift-route'',
             ''--domain-filter='' @ ExternalDNSDeployment_DomainFilter cfg,
             ''--provider='' @ ExternalDNSDeployment_Provider cfg,
             ''--registry=noop'',
             ''--txt-owner-id=hypershift''] @
            (if ExternalDNSDeployment_Provider cfg = ''aws''
             then [''--aws-zone-type=public''] else [])"
    and "Container_Env c =
            (if ExternalDNSDeployment_Provider cfg = ''aws''
             then [\<lparr>EnvVar_Name = ''AWS_SHARED_CREDENTIALS_FILE'',
                    EnvVar_Value = ''/etc/provider/credentials'',
                    EnvVar_ValueFrom = None\<rparr>,
                   \<lparr>EnvVar_Name = ''AWS_REGION'',
                    EnvVar_Value = ''us-east-1'',
                    EnvVar_ValueFrom = None\<rparr>]
             else [])"
    and "Container_VolumeMounts c =
            [\<lparr>VolumeMount_Name = ''credentials'', VolumeMount_MountPath = ''/etc/provider''\<rparr>]"
    and "PodSpec_Volumes (Deployment_PodSpec d) =
            [\<lparr>Volume_Name = ''credentials'',
              Volume_VolumeSource =
                \<lparr>VolumeSource_Secret = Some
                   \<lparr>SecretVolumeSource_SecretName = ObjectMeta_Name (Secret_ObjectMeta cs)\<rparr>,
                 VolumeSource_Projected = None\<rparr>\<rparr>]"
  using ExternalDNSDeployment_Build_result [OF assms] by blast

subsection \<open>The example inputs\<close>

lemma example_operator_returns:
  "\<not> HyperShiftOperatorDeployment_panics (example_operator platform oidc) example_heap"
  by (simp add: HyperShiftOperatorDeployment_panics_def example_operator_def example_heap_def
        load_Namespace_def load_ServiceAccount_def load_Secret_def deref_def)

lemma example_operator_oidc_configured:
  "oidc_configured (example_operator platform oidc) example_heap = oidc"
  by (simp add: oidc_configured_def example_operator_def example_heap_def load_Secret_def deref_def)

lemma example_externaldns_returns:
  "\<not> ExternalDNSDeployment_panics (example_externaldns provider 2) example_heap"
  by (simp add: ExternalDNSDeployment_panics_def example_externaldns_def example_heap_def
        load_Namespace_def load_ServiceAccount_def load_Secret_def deref_def)

subsection \<open>The operator Deployment\<close>

text \<open>
  C1. For every configuration whose \<^verbatim>\<open>PrivatePlatform\<close> is the AWS platform, the Deployment
  that \<^verbatim>\<open>HyperShiftOperatorDeployment.Build\<close> returns has one container, the operator
  container, and its environment has a variable named \<^verbatim>\<open>AWS_REGION\<close> whose value is the
  configured \<^verbatim>\<open>AWSPrivateRegion\<close>; no variable of that name has another value. The AWS
  platform is a platform type of its own, distinct from the \<^verbatim>\<open>None\<close> platform. \<^verbatim>\<open>Build\<close>
  returns unless it dereferences a \<^verbatim>\<open>nil\<close> pointer.
\<close>

theorem HyperShiftOperatorDeployment_AWS_REGION:
  assumes "HyperShiftOperatorDeployment_PrivatePlatform cfg = hyperv1_AWSPlatform hyperv1"
      and "hyperv1_AWSPlatform hyperv1 \<noteq> hyperv1_NonePlatform hyperv1"
  shows "(HyperShiftOperatorDeployment_Build hyperv1 cfg h = None \<longleftrightarrow>
            HyperShiftOperatorDeployment_panics cfg h) \<and>
         (\<forall>p h'. HyperShiftOperatorDeployment_Build hyperv1 cfg h = Some (p, h') \<longrightarrow>
            (\<exists>d c. load_Deployment (Some p) h' = Some d \<and>
               PodSpec_Containers (Deployment_PodSpec d) = [c] \<and>
               Container_Name c = ''operator'' \<and>
               (\<exists>e \<in> set (Container_Env c).
                  EnvVar_Name e = ''AWS_REGION'' \<and>
                  EnvVar_Value e = HyperShiftOperatorDeployment_AWSPrivateRegion cfg) \<and>
               (\<forall>e \<in> set (Container_Env c).
                  EnvVar_Name e = ''AWS_REGION'' \<longrightarrow>
                  EnvVar_Value e = HyperShiftOperatorDeployment_AWSPrivateRegion cfg)))"
proof (intro conjI allI impI)
  show "HyperShiftOperatorDeployment_Build hyperv1 cfg h = None \<longleftrightarrow>
          HyperShiftOperatorDeployment_panics cfg h"
    by (rule HyperShiftOperatorDeployment_Build_None)
next
  fix p h'
  assume "HyperShiftOperatorDeployment_Build hyperv1 cfg h = Some (p, h')"
  from HyperShiftOperatorDeployment_Build_result [OF this] assms
  show "\<exists>d c. load_Deployment (Some p) h' = Some d \<and>
          PodSpec_Containers (Deployment_PodSpec d) = [c] \<and>
          Container_Name c = ''operator'' \<and>
          (\<exists>e \<in> set (Container_Env c).
             EnvVar_Name e = ''AWS_REGION'' \<and>
             EnvVar_Value e = HyperShiftOperatorDeployment_AWSPrivateRegion cfg) \<and>
          (\<forall>e \<in> set (Container_Env c).
             EnvVar_Name e = ''AWS_REGION'' \<longrightarrow>
             EnvVar_Value e = HyperShiftOperatorDeployment_AWSPrivateRegion cfg)"
    by auto
qed

theorem HyperShiftOperatorDeployment_AWS_REGION_witness:
  "\<exists>p h' d c. HyperShiftOperatorDeployment_Build example_hyperv1
                  (example_operator ''AWS'' True) example_heap = Some (p, h') \<and>
     load_Deployment (Some p) h' = Some d \<and>
     PodSpec_Containers (Deployment_PodSpec d) = [c] \<and>
     (\<exists>e \<in> set (Container_Env c). EnvVar_Name e = ''AWS_REGION'' \<and> EnvVar_Value e = ''us-west-2'')"
proof -
  have platform: "HyperShiftOperatorDeployment_PrivatePlatform (example_operator ''AWS'' True) =
      hyperv1_AWSPlatform example_hyperv1"
    and distinct: "hyperv1_AWSPlatform example_hyperv1 \<noteq> hyperv1_NonePlatform example_hyperv1"
    and region: "HyperShiftOperatorDeployment_AWSPrivateRegion (example_operator ''AWS'' True) =
      ''us-west-2''"
    by (simp_all add: example_operator_def example_hyperv1_def)
  note claim = HyperShiftOperatorDeployment_AWS_REGION [OF platform distinct, of example_heap]
  from claim example_operator_returns [of "''AWS''" True]
  obtain p h' where build: "HyperShiftOperatorDeployment_Build example_hyperv1
      (example_operator ''AWS'' True) example_heap = Some (p, h')"
    by fastforce
  with claim region show ?thesis
    by fastforce
qed

text \<open>
  C3. When \<^verbatim>\<open>PrivatePlatform\<close> is the \<^verbatim>\<open>None\<close> platform, the returned Deployment has no
  volume named \<^verbatim>\<open>credentials\<close> and its container no volume mount of that name. For every
  other \<^verbatim>\<open>PrivatePlatform\<close> the pod has the volume \<^verbatim>\<open>credentials\<close> with the secret
  \<^verbatim>\<open>hypershift-operator-aws-credentials\<close> as its source, the operator container has the
  mount \<^verbatim>\<open>credentials\<close> at \<^verbatim>\<open>/etc/provider\<close>, and they are the only volume and the only
  mount of that name.
\<close>

theorem HyperShiftOperatorDeployment_provider_credentials:
  "(HyperShiftOperatorDeployment_Build hyperv1 cfg h = None \<longleftrightarrow>
      HyperShiftOperatorDeployment_panics cfg h) \<and>
   (\<forall>p h'. HyperShiftOperatorDeployment_Build hyperv1 cfg h = Some (p, h') \<longrightarrow>
      (\<exists>d c. load_Deployment (Some p) h' = Some d \<and>
         PodSpec_Containers (Deployment_PodSpec d) = [c] \<and>
         Container_Name c = ''operator'' \<and>
         (HyperShiftOperatorDeployment_PrivatePlatform cfg = hyperv1_NonePlatform hyperv1 \<longrightarrow>
            (\<forall>v \<in> set (PodSpec_Volumes (Deployment_PodSpec d)). Volume_Name v \<noteq> ''credentials'') \<and>
            (\<forall>m \<in> set (Container_VolumeMounts c). VolumeMount_Name m \<noteq> ''credentials'')) \<and>
         (HyperShiftOperatorDeployment_PrivatePlatform cfg \<noteq> hyperv1_NonePlatform hyperv1 \<longrightarrow>
            filter (\<lambda>v. Volume_Name v = ''credentials'') (PodSpec_Volumes (Deployment_PodSpec d)) =
              [\<lparr>Volume_Name = ''credentials'',
                Volume_VolumeSource =
                  \<lparr>VolumeSource_Secret = Some
                     \<lparr>SecretVolumeSource_SecretName = ''hypershift-operator-aws-credentials''\<rparr>,
                   VolumeSource_Projected = None\<rparr>\<rparr>] \<and>
            filter (\<lambda>m. VolumeMount_Name m = ''credentials'') (Container_VolumeMounts c) =
              [\<lparr>VolumeMount_Name = ''credentials'', VolumeMount_MountPath = ''/etc/provider''\<rparr>])))"
proof (intro conjI allI impI)
  show "HyperShiftOperatorDeployment_Build hyperv1 cfg h = None \<longleftrightarrow>
          HyperShiftOperatorDeployment_panics cfg h"
    by (rule HyperShiftOperatorDeployment_Build_None)
next
  fix p h'
  assume "HyperShiftOperatorDeployment_Build hyperv1 cfg h = Some (p, h')"
  then show "\<exists>d c. load_Deployment (Some p) h' = Some d \<and>
         PodSpec_Containers (Deployment_PodSpec d) = [c] \<and>
         Container_Name c = ''operator'' \<and>
         (HyperShiftOperatorDeployment_PrivatePlatform cfg = hyperv1_NonePlatform hyperv1 \<longrightarrow>
            (\<forall>v \<in> set (PodSpec_Volumes (Deployment_PodSpec d)). Volume_Name v \<noteq> ''credentials'') \<and>
            (\<forall>m \<in> set (Container_VolumeMounts c). VolumeMount_Name m \<noteq> ''credentials'')) \<and>
         (HyperShiftOperatorDeployment_PrivatePlatform cfg \<noteq> hyperv1_NonePlatform hyperv1 \<longrightarrow>
            filter (\<lambda>v. Volume_Name v = ''credentials'') (PodSpec_Volumes (Deployment_PodSpec d)) =
              [\<lparr>Volume_Name = ''credentials'',
                Volume_VolumeSource =
                  \<lparr>VolumeSource_Secret = Some
                     \<lparr>SecretVolumeSource_SecretName = ''hypershift-operator-aws-credentials''\<rparr>,
                   VolumeSource_Projected = None\<rparr>\<rparr>] \<and>
            filter (\<lambda>m. VolumeMount_Name m = ''credentials'') (Container_VolumeMounts c) =
              [\<lparr>VolumeMount_Name = ''credentials'', VolumeMount_MountPath = ''/etc/provider''\<rparr>])"
  proof (cases rule: HyperShiftOperatorDeployment_Build_SomeE)
    case (result d c)
    show ?thesis
      by (intro exI [of _ d] exI [of _ c] conjI impI ballI)
         (simp_all add: result(1-3,6,7) split: if_split_asm)
  qed
qed

theorem HyperShiftOperatorDeployment_provider_credentials_witness:
  "(\<exists>p h' d c. HyperShiftOperatorDeployment_Build example_hyperv1
        (example_operator ''None'' True) example_heap = Some (p, h') \<and>
      load_Deployment (Some p) h' = Some d \<and>
      PodSpec_Containers (Deployment_PodSpec d) = [c] \<and>
      (\<forall>v \<in> set (PodSpec_Volumes (Deployment_PodSpec d)). Volume_Name v \<noteq> ''credentials'') \<and>
      (\<forall>m \<in> set (Container_VolumeMounts c). VolumeMount_Name m \<noteq> ''credentials'')) \<and>
   (\<exists>p h' d c. HyperShiftOperatorDeployment_Build example_hyperv1
        (example_operator ''Azure'' True) example_heap = Some (p, h') \<and>
      load_Deployment (Some p) h' = Some d \<and>
      PodSpec_Containers (Deployment_PodSpec d) = [c] \<and>
      filter (\<lambda>v. Volume_Name v = ''credentials'') (PodSpec_Volumes (Deployment_PodSpec d)) =
        [\<lparr>Volume_Name = ''credentials'',
          Volume_VolumeSource =
            \<lparr>VolumeSource_Secret = Some
               \<lparr>SecretVolumeSource_SecretName = ''hypershift-operator-aws-credentials''\<rparr>,
             VolumeSource_Projected = None\<rparr>\<rparr>] \<and>
      filter (\<lambda>m. VolumeMount_Name m = ''credentials'') (Container_VolumeMounts c) =
        [\<lparr>VolumeMount_Name = ''credentials'', VolumeMount_MountPath = ''/etc/provider''\<rparr>])"
proof (rule conjI)
  have platform: "HyperShiftOperatorDeployment_PrivatePlatform (example_operator ''None'' True) =
      hyperv1_NonePlatform example_hyperv1"
    by (simp add: example_operator_def example_hyperv1_def)
  note claim = HyperShiftOperatorDeployment_provider_credentials
    [of example_hyperv1 "example_operator ''None'' True" example_heap]
  from claim example_operator_returns [of "''None''" True]
  obtain p h' where "HyperShiftOperatorDeployment_Build example_hyperv1
      (example_operator ''None'' True) example_heap = Some (p, h')"
    by fastforce
  with claim platform
  show "\<exists>p h' d c. HyperShiftOperatorDeployment_Build example_hyperv1
        (example_operator ''None'' True) example_heap = Some (p, h') \<and>
      load_Deployment (Some p) h' = Some d \<and>
      PodSpec_Containers (Deployment_PodSpec d) = [c] \<and>
      (\<forall>v \<in> set (PodSpec_Volumes (Deployment_PodSpec d)). Volume_Name v \<noteq> ''credentials'') \<and>
      (\<forall>m \<in> set (Container_VolumeMounts c). VolumeMount_Name m \<noteq> ''credentials'')"
    by fastforce
next
  have platform: "HyperShiftOperatorDeployment_PrivatePlatform (example_operator ''Azure'' True) \<noteq>
      hyperv1_NonePlatform example_hyperv1"
    by (simp add: example_operator_def example_hyperv1_def)
  note claim = HyperShiftOperatorDeployment_provider_credentials
    [of example_hyperv1 "example_operator ''Azure'' True" example_heap]
  from claim example_operator_returns [of "''Azure''" True]
  obtain p h' where "HyperShiftOperatorDeployment_Build example_hyperv1
      (example_operator ''Azure'' True) example_heap = Some (p, h')"
    by fastforce
  with claim platform
  show "\<exists>p h' d c. HyperShiftOperatorDeployment_Build example_hyperv1
        (example_operator ''Azure'' True) example_heap = Some (p, h') \<and>
      load_Deployment (Some p) h' = Some d \<and>
      PodSpec_Containers (Deployment_PodSpec d) = [c] \<and>
      filter (\<lambda>v. Volume_Name v = ''credentials'') (PodSpec_Volumes (Deployment_PodSpec d)) =
        [\<lparr>Volume_Name = ''credentials'',
          Volume_VolumeSource =
            \<lparr>VolumeSource_Secret = Some
               \<lparr>SecretVolumeSource_SecretName = ''hypershift-operator-aws-credentials''\<rparr>,
             VolumeSource_Projected = None\<rparr>\<rparr>] \<and>
      filter (\<lambda>m. VolumeMount_Name m = ''credentials'') (Container_VolumeMounts c) =
        [\<lparr>VolumeMount_Name = ''credentials'', VolumeMount_MountPath = ''/etc/provider''\<rparr>]"
    by fastforce
qed

text \<open>
  C4. The returned Deployment has the three \<^verbatim>\<open>--oidc-storage-provider-s3-*\<close> arguments,
  the volume \<^verbatim>\<open>oidc-storage-provider-s3-creds\<close> (whose source is the configured secret, by
  its name) and the mount of that volume exactly when the bucket name, the bucket region
  and the secret key are non-empty, the secret is not \<^verbatim>\<open>nil\<close> and its name is non-empty.
  Otherwise no argument starts with \<^verbatim>\<open>--oidc-storage-provider-s3-\<close>, and no volume and no
  mount has that name.
\<close>

theorem HyperShiftOperatorDeployment_oidc_wiring:
  "(HyperShiftOperatorDeployment_Build hyperv1 cfg h = None \<longleftrightarrow>
      HyperShiftOperatorDeployment_panics cfg h) \<and>
   (\<forall>p h'. HyperShiftOperatorDeployment_Build hyperv1 cfg h = Some (p, h') \<longrightarrow>
      (\<exists>d c. load_Deployment (Some p) h' = Some d \<and>
         PodSpec_Containers (Deployment_PodSpec d) = [c] \<and>
         (oidc_configured cfg h \<longrightarrow>
            ''--oidc-storage-provider-s3-bucket-name='' @
               HyperShiftOperatorDeployment_OIDCBucketName cfg \<in> set (Container_Args c) \<and>
            ''--oidc-storage-provider-s3-region='' @
               HyperShiftOperatorDeployment_OIDCBucketRegion cfg \<in> set (Container_Args c) \<and>
            ''--oidc-storage-provider-s3-credentials=/etc/oidc-storage-provider-s3-creds/'' @
               HyperShiftOperatorDeployment_OIDCStorageProviderS3SecretKey cfg
               \<in> set (Container_Args c) \<and>
            (\<exists>s3. load_Secret (HyperShiftOperatorDeployment_OIDCStorageProviderS3Secret cfg) h =
                    Some s3 \<and>
               filter (\<lambda>v. Volume_Name v = ''oidc-storage-provider-s3-creds'')
                   (PodSpec_Volumes (Deployment_PodSpec d)) =
                 [\<lparr>Volume_Name = ''oidc-storage-provider-s3-creds'',
                   Volume_VolumeSource =
                     \<lparr>VolumeSource_Secret = Some
                        \<lparr>SecretVolumeSource_SecretName = ObjectMeta_Name (Secret_ObjectMeta s3)\<rparr>,
                      VolumeSource_Projected = None\<rparr>\<rparr>]) \<and>
            filter (\<lambda>m. VolumeMount_Name m = ''oidc-storage-provider-s3-creds'')
                (Container_VolumeMounts c) =
              [\<lparr>VolumeMount_Name = ''oidc-storage-provider-s3-creds'',
                VolumeMount_MountPath = ''/etc/oidc-storage-provider-s3-creds''\<rparr>]) \<and>
         (\<not> oidc_configured cfg h \<longrightarrow>
            (\<forall>a \<in> set (Container_Args c). \<not> prefix ''--oidc-storage-provider-s3-'' a) \<and>
            (\<forall>v \<in> set (PodSpec_Volumes (Deployment_PodSpec d)).
               Volume_Name v \<noteq> ''oidc-storage-provider-s3-creds'') \<and>
            (\<forall>m \<in> set (Container_VolumeMounts c).
               VolumeMount_Name m \<noteq> ''oidc-storage-provider-s3-creds''))))"
proof (intro conjI allI impI)
  show "HyperShiftOperatorDeployment_Build hyperv1 cfg h = None \<longleftrightarrow>
          HyperShiftOperatorDeployment_panics cfg h"
    by (rule HyperShiftOperatorDeployment_Build_None)
next
  fix p h'
  assume "HyperShiftOperatorDeployment_Build hyperv1 cfg h = Some (p, h')"
  then show "\<exists>d c. load_Deployment (Some p) h' = Some d \<and>
         PodSpec_Containers (Deployment_PodSpec d) = [c] \<and>
         (oidc_configured cfg h \<longrightarrow>
            ''--oidc-storage-provider-s3-bucket-name='' @
               HyperShiftOperatorDeployment_OIDCBucketName cfg \<in> set (Container_Args c) \<and>
            ''--oidc-storage-provider-s3-region='' @
               HyperShiftOperatorDeployment_OIDCBucketRegion cfg \<in> set (Container_Args c) \<and>
            ''--oidc-storage-provider-s3-credentials=/etc/oidc-storage-provider-s3-creds/'' @
               HyperShiftOperatorDeployment_OIDCStorageProviderS3SecretKey cfg
               \<in> set (Container_Args c) \<and>
            (\<exists>s3. load_Secret (HyperShiftOperatorDeployment_OIDCStorageProviderS3Secret cfg) h =
                    Some s3 \<and>
               filter (\<lambda>v. Volume_Name v = ''oidc-storage-provider-s3-creds'')
                   (PodSpec_Volumes (Deployment_PodSpec d)) =
                 [\<lparr>Volume_Name = ''oidc-storage-provider-s3-creds'',
                   Volume_VolumeSource =
                     \<lparr>VolumeSource_Secret = Some
                        \<lparr>SecretVolumeSource_SecretName = ObjectMeta_Name (Secret_ObjectMeta s3)\<rparr>,
                      VolumeSource_Projected = None\<rparr>\<rparr>]) \<and>
            filter (\<lambda>m. VolumeMount_Name m = ''oidc-storage-provider-s3-creds'')
                (Container_VolumeMounts c) =
              [\<lparr>VolumeMount_Name = ''oidc-storage-provider-s3-creds'',
                VolumeMount_MountPath = ''/etc/oidc-storage-provider-s3-creds''\<rparr>]) \<and>
         (\<not> oidc_configured cfg h \<longrightarrow>
            (\<forall>a \<in> set (Container_Args c). \<not> prefix ''--oidc-storage-provider-s3-'' a) \<and>
            (\<forall>v \<in> set (PodSpec_Volumes (Deployment_PodSpec d)).
               Volume_Name v \<noteq> ''oidc-storage-provider-s3-creds'') \<and>
            (\<forall>m \<in> set (Container_VolumeMounts c).
               VolumeMount_Name m \<noteq> ''oidc-storage-provider-s3-creds''))"
  proof (cases rule: HyperShiftOperatorDeployment_Build_SomeE)
    case (result d c)
    have secret: "oidc_configured cfg h \<Longrightarrow>
        \<exists>s3. load_Secret (HyperShiftOperatorDeployment_OIDCStorageProviderS3Secret cfg) h = Some s3"
      by (auto simp: oidc_configured_def split: option.splits)
    show ?thesis
    proof (intro exI [of _ d] exI [of _ c] conjI impI ballI)
      assume "oidc_configured cfg h"
      with secret result(7)
      show "\<exists>s3. load_Secret (HyperShiftOperatorDeployment_OIDCStorageProviderS3Secret cfg) h =
                    Some s3 \<and>
               filter (\<lambda>v. Volume_Name v = ''oidc-storage-provider-s3-creds'')
                   (PodSpec_Volumes (Deployment_PodSpec d)) =
                 [\<lparr>Volume_Name = ''oidc-storage-provider-s3-creds'',
                   Volume_VolumeSource =
                     \<lparr>VolumeSource_Secret = Some
                        \<lparr>SecretVolumeSource_SecretName = ObjectMeta_Name (Secret_ObjectMeta s3)\<rparr>,
                      VolumeSource_Projected = None\<rparr>\<rparr>]"
        by auto
    qed (auto simp add: result(1-4,6,7) split: if_split_asm)
  qed
qed

theorem HyperShiftOperatorDeployment_oidc_wiring_witness:
  "(\<exists>p h' d c. HyperShiftOperatorDeployment_Build example_hyperv1
        (example_operator ''AWS'' True) example_heap = Some (p, h') \<and>
      load_Deployment (Some p) h' = Some d \<and>
      PodSpec_Containers (Deployment_PodSpec d) = [c] \<and>
      ''--oidc-storage-provider-s3-bucket-name=bucket'' \<in> set (Container_Args c) \<and>
      ''--oidc-storage-provider-s3-region=us-east-2'' \<in> set (Container_Args c) \<and>
      ''--oidc-storage-provider-s3-credentials=/etc/oidc-storage-provider-s3-creds/credentials''
         \<in> set (Container_Args c) \<and>
      filter (\<lambda>v. Volume_Name v = ''oidc-storage-provider-s3-creds'')
          (PodSpec_Volumes (Deployment_PodSpec d)) =
        [\<lparr>Volume_Name = ''oidc-storage-provider-s3-creds'',
          Volume_VolumeSource =
            \<lparr>VolumeSource_Secret = Some \<lparr>SecretVolumeSource_SecretName = ''s3-creds''\<rparr>,
             VolumeSource_Projected = None\<rparr>\<rparr>] \<and>
      filter (\<lambda>m. VolumeMount_Name m = ''oidc-storage-provider-s3-creds'')
          (Container_VolumeMounts c) =
        [\<lparr>VolumeMount_Name = ''oidc-storage-provider-s3-creds'',
          VolumeMount_MountPath = ''/etc/oidc-storage-provider-s3-creds''\<rparr>]) \<and>
   (\<exists>p h' d c. HyperShiftOperatorDeployment_Build example_hyperv1
        (example_operator ''AWS'' False) example_heap = Some (p, h') \<and>
      load_Deployment (Some p) h' = Some d \<and>
      PodSpec_Containers (Deployment_PodSpec d) = [c] \<and>
      (\<forall>a \<in> set (Container_Args c). \<not> prefix ''--oidc-storage-provider-s3-'' a) \<and>
      (\<forall>v \<in> set (PodSpec_Volumes (Deployment_PodSpec d)).
         Volume_Name v \<noteq> ''oidc-storage-provider-s3-creds'') \<and>
      (\<forall>m \<in> set (Container_VolumeMounts c).
         VolumeMount_Name m \<noteq> ''oidc-storage-provider-s3-creds''))"
proof (rule conjI)
  have fields:
    "HyperShiftOperatorDeployment_OIDCBucketName (example_operator ''AWS'' True) = ''bucket''"
    "HyperShiftOperatorDeployment_OIDCBucketRegion (example_operator ''AWS'' True) = ''us-east-2''"
    "HyperShiftOperatorDeployment_OIDCStorageProviderS3SecretKey (example_operator ''AWS'' True) =
       ''credentials''"
    by (simp_all add: example_operator_def)
  have secret: "\<And>s3.
    load_Secret (HyperShiftOperatorDeployment_OIDCStorageProviderS3Secret
      (example_operator ''AWS'' True)) example_heap = Some s3 \<Longrightarrow>
    ObjectMeta_Name (Secret_ObjectMeta s3) = ''s3-creds''"
    by (auto simp: example_operator_def example_heap_def load_Secret_def deref_def)
  note claim = HyperShiftOperatorDeployment_oidc_wiring
    [of example_hyperv1 "example_operator ''AWS'' True" example_heap]
  from claim example_operator_returns [of "''AWS''" True]
  obtain p h' where "HyperShiftOperatorDeployment_Build example_hyperv1
      (example_operator ''AWS'' True) example_heap = Some (p, h')"
    by fastforce
  with claim example_operator_oidc_configured [of "''AWS''" True]
  obtain d c s3 where
    "HyperShiftOperatorDeployment_Build example_hyperv1
        (example_operator ''AWS'' True) example_heap = Some (p, h')"
    "load_Deployment (Some p) h' = Some d"
    "PodSpec_Containers (Deployment_PodSpec d) = [c]"
    "''--oidc-storage-provider-s3-bucket-name='' @
       HyperShiftOperatorDeployment_OIDCBucketName (example_operator ''AWS'' True)
       \<in> set (Container_Args c)"
    "''--oidc-storage-provider-s3-region='' @
       HyperShiftOperatorDeployment_OIDCBucketRegion (example_operator ''AWS'' True)
       \<in> set (Container_Args c)"
    "''--oidc-storage-provider-s3-credentials=/etc/oidc-storage-provider-s3-creds/'' @
       HyperShiftOperatorDeployment_OIDCStorageProviderS3SecretKey (example_operator ''AWS'' True)
       \<in> set (Container_Args c)"
    "load_Secret (HyperShiftOperatorDeployment_OIDCStorageProviderS3Secret
       (example_operator ''AWS'' True)) example_heap = Some s3"
    "filter (\<lambda>v. Volume_Name v = ''oidc-storage-provider-s3-creds'')
          (PodSpec_Volumes (Deployment_PodSpec d)) =
        [\<lparr>Volume_Name = ''oidc-storage-provider-s3-creds'',
          Volume_VolumeSource =
            \<lparr>VolumeSource_Secret = Some
               \<lparr>SecretVolumeSource_SecretName = ObjectMeta_Name (Secret_ObjectMeta s3)\<rparr>,
             VolumeSource_Projected = None\<rparr>\<rparr>]"
    "filter (\<lambda>m. VolumeMount_Name m = ''oidc-storage-provider-s3-creds'')
          (Container_VolumeMounts c) =
        [\<lparr>VolumeMount_Name = ''oidc-storage-provider-s3-creds'',
          VolumeMount_MountPath = ''/etc/oidc-storage-provider-s3-creds''\<rparr>]"
    by blast
  then show "\<exists>p h' d c. HyperShiftOperatorDeployment_Build example_hyperv1
        (example_operator ''AWS'' True) example_heap = Some (p, h') \<and>
      load_Deployment (Some p) h' = Some d \<and>
      PodSpec_Containers (Deployment_PodSpec d) = [c] \<and>
      ''--oidc-storage-provider-s3-bucket-name=bucket'' \<in> set (Container_Args c) \<and>
      ''--oidc-storage-provider-s3-region=us-east-2'' \<in> set (Container_Args c) \<and>
      ''--oidc-storage-provider-s3-credentials=/etc/oidc-storage-provider-s3-creds/credentials''
         \<in> set (Container_Args c) \<and>
      filter (\<lambda>v. Volume_Name v = ''oidc-storage-provider-s3-creds'')
          (PodSpec_Volumes (Deployment_PodSpec d)) =
        [\<lparr>Volume_Name = ''oidc-storage-provider-s3-creds'',
          Volume_VolumeSource =
            \<lparr>VolumeSource_Secret = Some \<lparr>SecretVolumeSource_SecretName = ''s3-creds''\<rparr>,
             VolumeSource_Projected = None\<rparr>\<rparr>] \<and>
      filter (\<lambda>m. VolumeMount_Name m = ''oidc-storage-provider-s3-creds'')
          (Container_VolumeMounts c) =
        [\<lparr>VolumeMount_Name = ''oidc-storage-provider-s3-creds'',
          VolumeMount_MountPath = ''/etc/oidc-storage-provider-s3-creds''\<rparr>]"
    using fields secret by (intro exI [of _ p] exI [of _ h'] exI [of _ d] exI [of _ c]) simp
next
  note claim = HyperShiftOperatorDeployment_oidc_wiring
    [of example_hyperv1 "example_operator ''AWS'' False" example_heap]
  from claim example_operator_returns [of "''AWS''" False]
  obtain p h' where "HyperShiftOperatorDeployment_Build example_hyperv1
      (example_operator ''AWS'' False) example_heap = Some (p, h')"
    by fastforce
  with claim example_operator_oidc_configured [of "''AWS''" False]
  show "\<exists>p h' d c. HyperShiftOperatorDeployment_Build example_hyperv1
        (example_operator ''AWS'' False) example_heap = Some (p, h') \<and>
      load_Deployment (Some p) h' = Some d \<and>
      PodSpec_Containers (Deployment_PodSpec d) = [c] \<and>
      (\<forall>a \<in> set (Container_Args c). \<not> prefix ''--oidc-storage-provider-s3-'' a) \<and>
      (\<forall>v \<in> set (PodSpec_Volumes (Deployment_PodSpec d)).
         Volume_Name v \<noteq> ''oidc-storage-provider-s3-creds'') \<and>
      (\<forall>m \<in> set (Container_VolumeMounts c).
         VolumeMount_Name m \<noteq> ''oidc-storage-provider-s3-creds'')"
    by fastforce
qed

subsection \<open>The external-dns Deployment\<close>

text \<open>
  C2, as stated, fails. With the credentials secret that \<^verbatim>\<open>ExternalDNSCredsSecret.Build\<close>
  builds, whose name is \<^verbatim>\<open>external-dns-credentials\<close>, the one volume mount of the
  container is named \<^verbatim>\<open>credentials\<close>.
\<close>

theorem ExternalDNSDeployment_mount_name_counterexample:
  "Secret_Name_at 5 example_heap_with_creds = Some ''external-dns-credentials'' \<and>
   built_VolumeMount_Names
     (ExternalDNSDeployment_Build example_hyperv1 (example_externaldns ''aws'' 5)
        example_heap_with_creds) = Some [''credentials'']"
proof
  obtain s where heap: "example_heap_with_creds = example_heap @ [OSecret s]"
    and name: "ObjectMeta_Name (Secret_ObjectMeta s) = ''external-dns-credentials''"
    by (simp add: example_heap_with_creds_def ExternalDNSCredsSecret_Build_def
          example_externaldns_creds_def example_heap_def load_Namespace_def deref_def new_def
          externaDNSCredsSecretName_def)
  from name show "Secret_Name_at 5 example_heap_with_creds = Some ''external-dns-credentials''"
    by (simp add: Secret_Name_at_def load_Secret_def deref_def heap example_heap_def)
  have "\<not> ExternalDNSDeployment_panics (example_externaldns ''aws'' 5)
      example_heap_with_creds"
    by (simp add: ExternalDNSDeployment_panics_def example_externaldns_def heap example_heap_def
          load_Namespace_def load_ServiceAccount_def load_Secret_def deref_def)
  then obtain p h' where build: "ExternalDNSDeployment_Build example_hyperv1
      (example_externaldns ''aws'' 5) example_heap_with_creds = Some (p, h')"
    using ExternalDNSDeployment_Build_None
      [of example_hyperv1 "example_externaldns ''aws'' 5" example_heap_with_creds]
    by fastforce
  then show "built_VolumeMount_Names
     (ExternalDNSDeployment_Build example_hyperv1 (example_externaldns ''aws'' 5)
        example_heap_with_creds) = Some [''credentials'']"
  proof (cases rule: ExternalDNSDeployment_Build_SomeE)
    case (result d c cs)
    with build show ?thesis
      by (simp add: built_VolumeMount_Names_def)
  qed
qed

text \<open>
  C2, amended. The one volume mount of the container is named \<^verbatim>\<open>credentials\<close>, which is
  the name of the one volume of the pod; it is that volume's secret source whose
  \<^verbatim>\<open>SecretName\<close> is the \<^verbatim>\<open>Name\<close> of the credentials secret.
\<close>

theorem ExternalDNSDeployment_credentials_volume:
  "(ExternalDNSDeployment_Build hyperv1 cfg h = None \<longleftrightarrow> ExternalDNSDeployment_panics cfg h) \<and>
   (\<forall>p h'. ExternalDNSDeployment_Build hyperv1 cfg h = Some (p, h') \<longrightarrow>
      (\<exists>d c cs. load_Deployment (Some p) h' = Some d \<and>
         load_Secret (ExternalDNSDeployment_CredentialsSecret cfg) h = Some cs \<and>
         PodSpec_Containers (Deployment_PodSpec d) = [c] \<and>
         Container_VolumeMounts c =
           [\<lparr>VolumeMount_Name = ''credentials'', VolumeMount_MountPath = ''/etc/provider''\<rparr>] \<and>
         PodSpec_Volumes (Deployment_PodSpec d) =
           [\<lparr>Volume_Name = ''credentials'',
             Volume_VolumeSource =
               \<lparr>VolumeSource_Secret = Some
                  \<lparr>SecretVolumeSource_SecretName = ObjectMeta_Name (Secret_ObjectMeta cs)\<rparr>,
                VolumeSource_Projected = None\<rparr>\<rparr>]))"
proof (intro conjI allI impI)
  show "ExternalDNSDeployment_Build hyperv1 cfg h = None \<longleftrightarrow> ExternalDNSDeployment_panics cfg h"
    by (rule ExternalDNSDeployment_Build_None)
next
  fix p h'
  assume "ExternalDNSDeployment_Build hyperv1 cfg h = Some (p, h')"
  then show "\<exists>d c cs. load_Deployment (Some p) h' = Some d \<and>
         load_Secret (ExternalDNSDeployment_CredentialsSecret cfg) h = Some cs \<and>
         PodSpec_Containers (Deployment_PodSpec d) = [c] \<and>
         Container_VolumeMounts c =
           [\<lparr>VolumeMount_Name = ''credentials'', VolumeMount_MountPath = ''/etc/provider''\<rparr>] \<and>
         PodSpec_Volumes (Deployment_PodSpec d) =
           [\<lparr>Volume_Name = ''credentials'',
             Volume_VolumeSource =
               \<lparr>VolumeSource_Secret = Some
                  \<lparr>SecretVolumeSource_SecretName = ObjectMeta_Name (Secret_ObjectMeta cs)\<rparr>,
                VolumeSource_Projected = None\<rparr>\<rparr>]"
  proof (cases rule: ExternalDNSDeployment_Build_SomeE)
    case (result d c cs)
    then show ?thesis by blast
  qed
qed

theorem ExternalDNSDeployment_credentials_volume_witness:
  "\<exists>p h' d c. ExternalDNSDeployment_Build example_hyperv1 (example_externaldns ''aws'' 2)
       example_heap = Some (p, h') \<and>
     load_Deployment (Some p) h' = Some d \<and>
     PodSpec_Containers (Deployment_PodSpec d) = [c] \<and>
     Container_VolumeMounts c =
       [\<lparr>VolumeMount_Name = ''credentials'', VolumeMount_MountPath = ''/etc/provider''\<rparr>] \<and>
     PodSpec_Volumes (Deployment_PodSpec d) =
       [\<lparr>Volume_Name = ''credentials'',
         Volume_VolumeSource =
           \<lparr>VolumeSource_Secret = Some \<lparr>SecretVolumeSource_SecretName = ''s3-creds''\<rparr>,
            VolumeSource_Projected = None\<rparr>\<rparr>]"
proof -
  have secret: "\<And>cs.
    load_Secret (ExternalDNSDeployment_CredentialsSecret (example_externaldns ''aws'' 2))
      example_heap = Some cs \<Longrightarrow> ObjectMeta_Name (Secret_ObjectMeta cs) = ''s3-creds''"
    by (auto simp: example_externaldns_def example_heap_def load_Secret_def deref_def)
  note claim = ExternalDNSDeployment_credentials_volume
    [of example_hyperv1 "example_externaldns ''aws'' 2" example_heap]
  from claim example_externaldns_returns [of "''aws''"]
  obtain p h' where "ExternalDNSDeployment_Build example_hyperv1 (example_externaldns ''aws'' 2)
      example_heap = Some (p, h')"
    by fastforce
  with claim secret show ?thesis
    by fastforce
qed



subsection \<open>Both Deployments\<close>

text \<open>
  C10. In the Deployment either builder returns, under every configuration, the name of
  every volume mount of every container is the name of a volume of the same pod spec.
\<close>

theorem Deployment_mounts_name_volumes:
  "(ExternalDNSDeployment_Build hyperv1 cfgE h = None \<longleftrightarrow> ExternalDNSDeployment_panics cfgE h) \<and>
   (\<forall>p h'. ExternalDNSDeployment_Build hyperv1 cfgE h = Some (p, h') \<longrightarrow>
      (\<exists>d. load_Deployment (Some p) h' = Some d \<and>
         PodSpec_Containers (Deployment_PodSpec d) \<noteq> [] \<and>
         (\<forall>c \<in> set (PodSpec_Containers (Deployment_PodSpec d)).
            \<forall>m \<in> set (Container_VolumeMounts c).
              VolumeMount_Name m \<in> Volume_Name ` set (PodSpec_Volumes (Deployment_PodSpec d))))) \<and>
   (HyperShiftOperatorDeployment_Build hyperv1 cfgH h = None \<longleftrightarrow>
      HyperShiftOperatorDeployment_panics cfgH h) \<and>
   (\<forall>p h'. HyperShiftOperatorDeployment_Build hyperv1 cfgH h = Some (p, h') \<longrightarrow>
      (\<exists>d. load_Deployment (Some p) h' = Some d \<and>
         PodSpec_Containers (Deployment_PodSpec d) \<noteq> [] \<and>
         (\<forall>c \<in> set (PodSpec_Containers (Deployment_PodSpec d)).
            \<forall>m \<in> set (Container_VolumeMounts c).
              VolumeMount_Name m \<in> Volume_Name ` set (PodSpec_Volumes (Deployment_PodSpec d)))))"
proof (intro conjI allI impI)
  show "ExternalDNSDeployment_Build hyperv1 cfgE h = None \<longleftrightarrow> ExternalDNSDeployment_panics cfgE h"
    by (rule ExternalDNSDeployment_Build_None)
next
  show "HyperShiftOperatorDeployment_Build hyperv1 cfgH h = None \<longleftrightarrow>
          HyperShiftOperatorDeployment_panics cfgH h"
    by (rule HyperShiftOperatorDeployment_Build_None)
next
  fix p h'
  assume "ExternalDNSDeployment_Build hyperv1 cfgE h = Some (p, h')"
  then show "\<exists>d. load_Deployment (Some p) h' = Some d \<and>
         PodSpec_Containers (Deployment_PodSpec d) \<noteq> [] \<and>
         (\<forall>c \<in> set (PodSpec_Containers (Deployment_PodSpec d)).
            \<forall>m \<in> set (Container_VolumeMounts c).
              VolumeMount_Name m \<in> Volume_Name ` set (PodSpec_Volumes (Deployment_PodSpec d)))"
  proof (cases rule: ExternalDNSDeployment_Build_SomeE)
    case (result d c cs)
    show ?thesis
      by (intro exI [of _ d] conjI) (simp_all add: result(1,3,7,8))
  qed
next
  fix p h'
  assume "HyperShiftOperatorDeployment_Build hyperv1 cfgH h = Some (p, h')"
  then show "\<exists>d. load_Deployment (Some p) h' = Some d \<and>
         PodSpec_Containers (Deployment_PodSpec d) \<noteq> [] \<and>
         (\<forall>c \<in> set (PodSpec_Containers (Deployment_PodSpec d)).
            \<forall>m \<in> set (Container_VolumeMounts c).
              VolumeMount_Name m \<in> Volume_Name ` set (PodSpec_Volumes (Deployment_PodSpec d)))"
  proof (cases rule: HyperShiftOperatorDeployment_Build_SomeE)
    case (result d c)
    show ?thesis
      by (intro exI [of _ d] conjI) (auto simp add: result(1,2,6,7))
  qed
qed

theorem Deployment_mounts_name_volumes_witness:
  "(\<exists>p h' d. ExternalDNSDeployment_Build example_hyperv1 (example_externaldns ''aws'' 2)
        example_heap = Some (p, h') \<and>
      load_Deployment (Some p) h' = Some d \<and>
      PodSpec_Containers (Deployment_PodSpec d) \<noteq> [] \<and>
      (\<forall>c \<in> set (PodSpec_Containers (Deployment_PodSpec d)).
         \<forall>m \<in> set (Container_VolumeMounts c).
           VolumeMount_Name m \<in> Volume_Name ` set (PodSpec_Volumes (Deployment_PodSpec d)))) \<and>
   (\<exists>p h' d. HyperShiftOperatorDeployment_Build example_hyperv1 (example_operator ''AWS'' True)
        example_heap = Some (p, h') \<and>
      load_Deployment (Some p) h' = Some d \<and>
      PodSpec_Containers (Deployment_PodSpec d) \<noteq> [] \<and>
      (\<forall>c \<in> set (PodSpec_Containers (Deployment_PodSpec d)).
         \<forall>m \<in> set (Container_VolumeMounts c).
           VolumeMount_Name m \<in> Volume_Name ` set (PodSpec_Volumes (Deployment_PodSpec d))))"
proof -
  note claim = Deployment_mounts_name_volumes
    [of example_hyperv1 "example_externaldns ''aws'' 2" example_heap "example_operator ''AWS'' True"]
  from claim example_externaldns_returns [of "''aws''"]
  obtain pE hE where "ExternalDNSDeployment_Build example_hyperv1 (example_externaldns ''aws'' 2)
      example_heap = Some (pE, hE)"
    by fastforce
  moreover from claim example_operator_returns [of "''AWS''" True]
  obtain pH hH where "HyperShiftOperatorDeployment_Build example_hyperv1
      (example_operator ''AWS'' True) example_heap = Some (pH, hH)"
    by fastforce
  ultimately show ?thesis
    using claim by blast
qed

subsection \<open>The role bindings\<close>

lemma load_binding_new [simp]:
  "load_ClusterRoleBinding (Some (length h)) (h @ [OClusterRoleBinding x]) = Some x"
  "load_RoleBinding (Some (length h)) (h @ [ORoleBinding y]) = Some y"
  by (simp_all add: load_ClusterRoleBinding_def load_RoleBinding_def deref_def)

text \<open>
  C5. The RoleBinding that \<^verbatim>\<open>HyperShiftOperatorPrometheusRoleBinding.Build\<close> returns has
  exactly one subject, of kind \<^verbatim>\<open>ServiceAccount\<close>: \<^verbatim>\<open>prometheus-k8s\<close> in
  \<^verbatim>\<open>openshift-monitoring\<close> when \<^verbatim>\<open>EnableOCPClusterMonitoring\<close> is set, and
  \<^verbatim>\<open>prometheus-user-workload\<close> in \<^verbatim>\<open>openshift-user-workload-monitoring\<close> when it is not.
\<close>

theorem HyperShiftOperatorPrometheusRoleBinding_subject:
  "(HyperShiftOperatorPrometheusRoleBinding_Build cfg h = None \<longleftrightarrow>
      HyperShiftOperatorPrometheusRoleBinding_panics cfg h) \<and>
   (\<forall>p h'. HyperShiftOperatorPrometheusRoleBinding_Build cfg h = Some (p, h') \<longrightarrow>
      (\<exists>b. load_RoleBinding (Some p) h' = Some b \<and>
         (HyperShiftOperatorPrometheusRoleBinding_EnableOCPClusterMonitoring cfg \<longrightarrow>
            RoleBinding_Subjects b =
              [\<lparr>Subject_Kind = ''ServiceAccount'',
                Subject_APIGroup = [],
                Subject_Name = ''prometheus-k8s'',
                Subject_Namespace = ''openshift-monitoring''\<rparr>]) \<and>
         (\<not> HyperShiftOperatorPrometheusRoleBinding_EnableOCPClusterMonitoring cfg \<longrightarrow>
            RoleBinding_Subjects b =
              [\<lparr>Subject_Kind = ''ServiceAccount'',
                Subject_APIGroup = [],
                Subject_Name = ''prometheus-user-workload'',
                Subject_Namespace = ''openshift-user-workload-monitoring''\<rparr>])))"
  unfolding HyperShiftOperatorPrometheusRoleBinding_Build_def
    HyperShiftOperatorPrometheusRoleBinding_panics_def new_def Let_def
  by (auto split: Option.bind_splits)

lemma example_prometheus_binding_returns:
  "\<not> HyperShiftOperatorPrometheusRoleBinding_panics (example_prometheus_binding monitoring)
       example_heap"
  by (simp add: HyperShiftOperatorPrometheusRoleBinding_panics_def example_prometheus_binding_def
        example_heap_def load_Namespace_def load_Role_def deref_def)

theorem HyperShiftOperatorPrometheusRoleBinding_subject_witness:
  "(\<exists>p h' b. HyperShiftOperatorPrometheusRoleBinding_Build (example_prometheus_binding True)
        example_heap = Some (p, h') \<and>
      load_RoleBinding (Some p) h' = Some b \<and>
      RoleBinding_Subjects b =
        [\<lparr>Subject_Kind = ''ServiceAccount'',
          Subject_APIGroup = [],
          Subject_Name = ''prometheus-k8s'',
          Subject_Namespace = ''openshift-monitoring''\<rparr>]) \<and>
   (\<exists>p h' b. HyperShiftOperatorPrometheusRoleBinding_Build (example_prometheus_binding False)
        example_heap = Some (p, h') \<and>
      load_RoleBinding (Some p) h' = Some b \<and>
      RoleBinding_Subjects b =
        [\<lparr>Subject_Kind = ''ServiceAccount'',
          Subject_APIGroup = [],
          Subject_Name = ''prometheus-user-workload'',
          Subject_Namespace = ''openshift-user-workload-monitoring''\<rparr>])"
proof (rule conjI)
  have flag: "HyperShiftOperatorPrometheusRoleBinding_EnableOCPClusterMonitoring
      (example_prometheus_binding True)"
    by (simp add: example_prometheus_binding_def)
  note claim = HyperShiftOperatorPrometheusRoleBinding_subject
    [of "example_prometheus_binding True" example_heap]
  from claim example_prometheus_binding_returns [of True]
  obtain p h' where "HyperShiftOperatorPrometheusRoleBinding_Build
      (example_prometheus_binding True) example_heap = Some (p, h')"
    by fastforce
  with claim flag
  show "\<exists>p h' b. HyperShiftOperatorPrometheusRoleBinding_Build (example_prometheus_binding True)
        example_heap = Some (p, h') \<and>
      load_RoleBinding (Some p) h' = Some b \<and>
      RoleBinding_Subjects b =
        [\<lparr>Subject_Kind = ''ServiceAccount'',
          Subject_APIGroup = [],
          Subject_Name = ''prometheus-k8s'',
          Subject_Namespace = ''openshift-monitoring''\<rparr>]"
    by fastforce
next
  have flag: "\<not> HyperShiftOperatorPrometheusRoleBinding_EnableOCPClusterMonitoring
      (example_prometheus_binding False)"
    by (simp add: example_prometheus_binding_def)
  note claim = HyperShiftOperatorPrometheusRoleBinding_subject
    [of "example_prometheus_binding False" example_heap]
  from claim example_prometheus_binding_returns [of False]
  obtain p h' where "HyperShiftOperatorPrometheusRoleBinding_Build
      (example_prometheus_binding False) example_heap = Some (p, h')"
    by fastforce
  with claim flag
  show "\<exists>p h' b. HyperShiftOperatorPrometheusRoleBinding_Build (example_prometheus_binding False)
        example_heap = Some (p, h') \<and>
      load_RoleBinding (Some p) h' = Some b \<and>
      RoleBinding_Subjects b =
        [\<lparr>Subject_Kind = ''ServiceAccount'',
          Subject_APIGroup = [],
          Subject_Name = ''prometheus-user-workload'',
          Subject_Namespace = ''openshift-user-workload-monitoring''\<rparr>]"
    by fastforce
qed

text \<open>
  C6. Each of the four binding builders that take a service account
  (\<^verbatim>\<open>ExternalDNSClusterRoleBinding\<close>, \<^verbatim>\<open>HyperShiftOperatorClusterRoleBinding\<close>,
  \<^verbatim>\<open>HyperShiftOperatorRoleBinding\<close> and \<^verbatim>\<open>HyperShiftClientClusterRoleBinding\<close>) returns a
  binding with a subject of kind \<^verbatim>\<open>ServiceAccount\<close> that has the name and the namespace of
  the service account supplied, and a \<^verbatim>\<open>RoleRef\<close> named after the role supplied.
\<close>

theorem binding_subject_and_RoleRef:
  "(ExternalDNSClusterRoleBinding_Build cfgE h = None \<longleftrightarrow>
      ExternalDNSClusterRoleBinding_panics cfgE h) \<and>
   (\<forall>p h'. ExternalDNSClusterRoleBinding_Build cfgE h = Some (p, h') \<longrightarrow>
      (\<exists>b cr sa. load_ClusterRoleBinding (Some p) h' = Some b \<and>
         load_ClusterRole (ExternalDNSClusterRoleBinding_ClusterRole cfgE) h = Some cr \<and>
         load_ServiceAccount (ExternalDNSClusterRoleBinding_ServiceAccount cfgE) h = Some sa \<and>
         RoleRef_Name (ClusterRoleBinding_RoleRef b) = ObjectMeta_Name (ClusterRole_ObjectMeta cr) \<and>
         (\<exists>s \<in> set (ClusterRoleBinding_Subjects b).
            Subject_Kind s = ''ServiceAccount'' \<and>
            Subject_Name s = ObjectMeta_Name (ServiceAccount_ObjectMeta sa) \<and>
            Subject_Namespace s = ObjectMeta_Namespace (ServiceAccount_ObjectMeta sa)))) \<and>
   (HyperShiftOperatorClusterRoleBinding_Build cfgC h = None \<longleftrightarrow>
      HyperShiftOperatorClusterRoleBinding_panics cfgC h) \<and>
   (\<forall>p h'. HyperShiftOperatorClusterRoleBinding_Build cfgC h = Some (p, h') \<longrightarrow>
      (\<exists>b cr sa. load_ClusterRoleBinding (Some p) h' = Some b \<and>
         load_ClusterRole (HyperShiftOperatorClusterRoleBinding_ClusterRole cfgC) h = Some cr \<and>
         load_ServiceAccount (HyperShiftOperatorClusterRoleBinding_ServiceAccount cfgC) h = Some sa \<and>
         RoleRef_Name (ClusterRoleBinding_RoleRef b) = ObjectMeta_Name (ClusterRole_ObjectMeta cr) \<and>
         (\<exists>s \<in> set (ClusterRoleBinding_Subjects b).
            Subject_Kind s = ''ServiceAccount'' \<and>
            Subject_Name s = ObjectMeta_Name (ServiceAccount_ObjectMeta sa) \<and>
            Subject_Namespace s = ObjectMeta_Namespace (ServiceAccount_ObjectMeta sa)))) \<and>
   (HyperShiftOperatorRoleBinding_Build cfgR h = None \<longleftrightarrow>
      HyperShiftOperatorRoleBinding_panics cfgR h) \<and>
   (\<forall>p h'. HyperShiftOperatorRoleBinding_Build cfgR h = Some (p, h') \<longrightarrow>
      (\<exists>b r sa. load_RoleBinding (Some p) h' = Some b \<and>
         load_Role (HyperShiftOperatorRoleBinding_Role cfgR) h = Some r \<and>
         load_ServiceAccount (HyperShiftOperatorRoleBinding_ServiceAccount cfgR) h = Some sa \<and>
         RoleRef_Name (RoleBinding_RoleRef b) = ObjectMeta_Name (Role_ObjectMeta r) \<and>
         (\<exists>s \<in> set (RoleBinding_Subjects b).
            Subject_Kind s = ''ServiceAccount'' \<and>
            Subject_Name s = ObjectMeta_Name (ServiceAccount_ObjectMeta sa) \<and>
            Subject_Namespace s = ObjectMeta_Namespace (ServiceAccount_ObjectMeta sa)))) \<and>
   (HyperShiftClientClusterRoleBinding_Build cfgK h = None \<longleftrightarrow>
      HyperShiftClientClusterRoleBinding_panics cfgK h) \<and>
   (\<forall>p h'. HyperShiftClientClusterRoleBinding_Build cfgK h = Some (p, h') \<longrightarrow>
      (\<exists>b cr sa. load_ClusterRoleBinding (Some p) h' = Some b \<and>
         load_ClusterRole (HyperShiftClientClusterRoleBinding_ClusterRole cfgK) h = Some cr \<and>
         load_ServiceAccount (HyperShiftClientClusterRoleBinding_ServiceAccount cfgK) h = Some sa \<and>
         RoleRef_Name (ClusterRoleBinding_RoleRef b) = ObjectMeta_Name (ClusterRole_ObjectMeta cr) \<and>
         (\<exists>s \<in> set (ClusterRoleBinding_Subjects b).
            Subject_Kind s = ''ServiceAccount'' \<and>
            Subject_Name s = ObjectMeta_Name (ServiceAccount_ObjectMeta sa) \<and>
            Subject_Namespace s = ObjectMeta_Namespace (ServiceAccount_ObjectMeta sa))))"
proof (intro conjI)
  show "ExternalDNSClusterRoleBinding_Build cfgE h = None \<longleftrightarrow>
      ExternalDNSClusterRoleBinding_panics cfgE h"
    unfolding ExternalDNSClusterRoleBinding_Build_def ExternalDNSClusterRoleBinding_panics_def
      new_def Let_def
    by (auto split: Option.bind_splits)
  show "\<forall>p h'. ExternalDNSClusterRoleBinding_Build cfgE h = Some (p, h') \<longrightarrow>
      (\<exists>b cr sa. load_ClusterRoleBinding (Some p) h' = Some b \<and>
         load_ClusterRole (ExternalDNSClusterRoleBinding_ClusterRole cfgE) h = Some cr \<and>
         load_ServiceAccount (ExternalDNSClusterRoleBinding_ServiceAccount cfgE) h = Some sa \<and>
         RoleRef_Name (ClusterRoleBinding_RoleRef b) = ObjectMeta_Name (ClusterRole_ObjectMeta cr) \<and>
         (\<exists>s \<in> set (ClusterRoleBinding_Subjects b).
            Subject_Kind s = ''ServiceAccount'' \<and>
            Subject_Name s = ObjectMeta_Name (ServiceAccount_ObjectMeta sa) \<and>
            Subject_Namespace s = ObjectMeta_Namespace (ServiceAccount_ObjectMeta sa)))"
    unfolding ExternalDNSClusterRoleBinding_Build_def new_def Let_def
    by (auto split: Option.bind_splits)
  show "HyperShiftOperatorClusterRoleBinding_Build cfgC h = None \<longleftrightarrow>
      HyperShiftOperatorClusterRoleBinding_panics cfgC h"
    unfolding HyperShiftOperatorClusterRoleBinding_Build_def
      HyperShiftOperatorClusterRoleBinding_panics_def new_def Let_def
    by (auto split: Option.bind_splits)
  show "\<forall>p h'. HyperShiftOperatorClusterRoleBinding_Build cfgC h = Some (p, h') \<longrightarrow>
      (\<exists>b cr sa. load_ClusterRoleBinding (Some p) h' = Some b \<and>
         load_ClusterRole (HyperShiftOperatorClusterRoleBinding_ClusterRole cfgC) h = Some cr \<and>
         load_ServiceAccount (HyperShiftOperatorClusterRoleBinding_ServiceAccount cfgC) h = Some sa \<and>
         RoleRef_Name (ClusterRoleBinding_RoleRef b) = ObjectMeta_Name (ClusterRole_ObjectMeta cr) \<and>
         (\<exists>s \<in> set (ClusterRoleBinding_Subjects b).
            Subject_Kind s = ''ServiceAccount'' \<and>
            Subject_Name s = ObjectMeta_Name (ServiceAccount_ObjectMeta sa) \<and>
            Subject_Namespace s = ObjectMeta_Namespace (ServiceAccount_ObjectMeta sa)))"
    unfolding HyperShiftOperatorClusterRoleBinding_Build_def new_def Let_def
    by (auto split: Option.bind_splits)
  show "HyperShiftOperatorRoleBinding_Build cfgR h = None \<longleftrightarrow>
      HyperShiftOperatorRoleBinding_panics cfgR h"
    unfolding HyperShiftOperatorRoleBinding_Build_def HyperShiftOperatorRoleBinding_panics_def
      new_def Let_def
    by (auto split: Option.bind_splits)
  show "\<forall>p h'. HyperShiftOperatorRoleBinding_Build cfgR h = Some (p, h') \<longrightarrow>
      (\<exists>b r sa. load_RoleBinding (Some p) h' = Some b \<and>
         load_Role (HyperShiftOperatorRoleBinding_Role cfgR) h = Some r \<and>
         load_ServiceAccount (HyperShiftOperatorRoleBinding_ServiceAccount cfgR) h = Some sa \<and>
         RoleRef_Name (RoleBinding_RoleRef b) = ObjectMeta_Name (Role_ObjectMeta r) \<and>
         (\<exists>s \<in> set (RoleBinding_Subjects b).
            Subject_Kind s = ''ServiceAccount'' \<and>
            Subject_Name s = ObjectMeta_Name (ServiceAccount_ObjectMeta sa) \<and>
            Subject_Namespace s = ObjectMeta_Namespace (ServiceAccount_ObjectMeta sa)))"
    unfolding HyperShiftOperatorRoleBinding_Build_def new_def Let_def
    by (auto split: Option.bind_splits)
  show "HyperShiftClientClusterRoleBinding_Build cfgK h = None \<longleftrightarrow>
      HyperShiftClientClusterRoleBinding_panics cfgK h"
    unfolding HyperShiftClientClusterRoleBinding_Build_def
      HyperShiftClientClusterRoleBinding_panics_def new_def Let_def
    by (auto split: Option.bind_splits)
  show "\<forall>p h'. HyperShiftClientClusterRoleBinding_Build cfgK h = Some (p, h') \<longrightarrow>
      (\<exists>b cr sa. load_ClusterRoleBinding (Some p) h' = Some b \<and>
         load_ClusterRole (HyperShiftClientClusterRoleBinding_ClusterRole cfgK) h = Some cr \<and>
         load_ServiceAccount (HyperShiftClientClusterRoleBinding_ServiceAccount cfgK) h = Some sa \<and>
         RoleRef_Name (ClusterRoleBinding_RoleRef b) = ObjectMeta_Name (ClusterRole_ObjectMeta cr) \<and>
         (\<exists>s \<in> set (ClusterRoleBinding_Subjects b).
            Subject_Kind s = ''ServiceAccount'' \<and>
            Subject_Name s = ObjectMeta_Name (ServiceAccount_ObjectMeta sa) \<and>
            Subject_Namespace s = ObjectMeta_Namespace (ServiceAccount_ObjectMeta sa)))"
    unfolding HyperShiftClientClusterRoleBinding_Build_def new_def Let_def
    by (auto split: Option.bind_splits)
qed

lemma example_bindings_return:
  "\<not> ExternalDNSClusterRoleBinding_panics example_ExternalDNSClusterRoleBinding example_heap"
  "\<not> HyperShiftOperatorClusterRoleBinding_panics example_HyperShiftOperatorClusterRoleBinding
       example_heap"
  "\<not> HyperShiftOperatorRoleBinding_panics example_HyperShiftOperatorRoleBinding example_heap"
  "\<not> HyperShiftClientClusterRoleBinding_panics example_HyperShiftClientClusterRoleBinding
       example_heap"
  by (simp_all add: ExternalDNSClusterRoleBinding_panics_def
        HyperShiftOperatorClusterRoleBinding_panics_def HyperShiftOperatorRoleBinding_panics_def
        HyperShiftClientClusterRoleBinding_panics_def
        example_ExternalDNSClusterRoleBinding_def example_HyperShiftOperatorClusterRoleBinding_def
        example_HyperShiftOperatorRoleBinding_def example_HyperShiftClientClusterRoleBinding_def
        example_heap_def
        load_ClusterRole_def load_Role_def load_ServiceAccount_def deref_def)

lemma example_heap_loads:
  "load_ClusterRole (Some 3) example_heap = Some cr \<Longrightarrow>
     ObjectMeta_Name (ClusterRole_ObjectMeta cr) = ''hypershift-operator''"
  "load_Role (Some 4) example_heap = Some r \<Longrightarrow>
     ObjectMeta_Name (Role_ObjectMeta r) = ''prometheus''"
  "load_ServiceAccount (Some 1) example_heap = Some sa \<Longrightarrow>
     ObjectMeta_Name (ServiceAccount_ObjectMeta sa) = ''operator'' \<and>
     ObjectMeta_Namespace (ServiceAccount_ObjectMeta sa) = ''hypershift''"
  by (auto simp: example_heap_def load_ClusterRole_def load_Role_def load_ServiceAccount_def
        deref_def)

theorem binding_subject_and_RoleRef_witness:
  "(\<exists>p h' b. ExternalDNSClusterRoleBinding_Build example_ExternalDNSClusterRoleBinding
        example_heap = Some (p, h') \<and>
      load_ClusterRoleBinding (Some p) h' = Some b \<and>
      RoleRef_Name (ClusterRoleBinding_RoleRef b) = ''hypershift-operator'' \<and>
      (\<exists>s \<in> set (ClusterRoleBinding_Subjects b).
         Subject_Kind s = ''ServiceAccount'' \<and> Subject_Name s = ''operator'' \<and>
         Subject_Namespace s = ''hypershift'')) \<and>
   (\<exists>p h' b. HyperShiftOperatorClusterRoleBinding_Build
        example_HyperShiftOperatorClusterRoleBinding example_heap = Some (p, h') \<and>
      load_ClusterRoleBinding (Some p) h' = Some b \<and>
      RoleRef_Name (ClusterRoleBinding_RoleRef b) = ''hypershift-operator'' \<and>
      (\<exists>s \<in> set (ClusterRoleBinding_Subjects b).
         Subject_Kind s = ''ServiceAccount'' \<and> Subject_Name s = ''operator'' \<and>
         Subject_Namespace s = ''hypershift'')) \<and>
   (\<exists>p h' b. HyperShiftOperatorRoleBinding_Build example_HyperShiftOperatorRoleBinding
        example_heap = Some (p, h') \<and>
      load_RoleBinding (Some p) h' = Some b \<and>
      RoleRef_Name (RoleBinding_RoleRef b) = ''prometheus'' \<and>
      (\<exists>s \<in> set (RoleBinding_Subjects b).
         Subject_Kind s = ''ServiceAccount'' \<and> Subject_Name s = ''operator'' \<and>
         Subject_Namespace s = ''hypershift'')) \<and>
   (\<exists>p h' b. HyperShiftClientClusterRoleBinding_Build
        example_HyperShiftClientClusterRoleBinding example_heap = Some (p, h') \<and>
      load_ClusterRoleBinding (Some p) h' = Some b \<and>
      RoleRef_Name (ClusterRoleBinding_RoleRef b) = ''hypershift-operator'' \<and>
      (\<exists>s \<in> set (ClusterRoleBinding_Subjects b).
         Subject_Kind s = ''ServiceAccount'' \<and> Subject_Name s = ''operator'' \<and>
         Subject_Namespace s = ''hypershift''))"
proof -
  note claim = binding_subject_and_RoleRef
    [of example_ExternalDNSClusterRoleBinding example_heap
        example_HyperShiftOperatorClusterRoleBinding example_HyperShiftOperatorRoleBinding
        example_HyperShiftClientClusterRoleBinding]
  have fields:
    "ExternalDNSClusterRoleBinding_ClusterRole example_ExternalDNSClusterRoleBinding = Some 3"
    "ExternalDNSClusterRoleBinding_ServiceAccount example_ExternalDNSClusterRoleBinding = Some 1"
    "HyperShiftOperatorClusterRoleBinding_ClusterRole
       example_HyperShiftOperatorClusterRoleBinding = Some 3"
    "HyperShiftOperatorClusterRoleBinding_ServiceAccount
       example_HyperShiftOperatorClusterRoleBinding = Some 1"
    "HyperShiftOperatorRoleBinding_Role example_HyperShiftOperatorRoleBinding = Some 4"
    "HyperShiftOperatorRoleBinding_ServiceAccount example_HyperShiftOperatorRoleBinding = Some 1"
    "HyperShiftClientClusterRoleBinding_ClusterRole
       example_HyperShiftClientClusterRoleBinding = Some 3"
    "HyperShiftClientClusterRoleBinding_ServiceAccount
       example_HyperShiftClientClusterRoleBinding = Some 1"
    by (simp_all add: example_ExternalDNSClusterRoleBinding_def
          example_HyperShiftOperatorClusterRoleBinding_def
          example_HyperShiftOperatorRoleBinding_def
          example_HyperShiftClientClusterRoleBinding_def)
  note partE = claim [THEN conjunct2, THEN conjunct1, rule_format]
  note partC = claim [THEN conjunct2, THEN conjunct2, THEN conjunct2, THEN conjunct1, rule_format]
  note partR = claim [THEN conjunct2, THEN conjunct2, THEN conjunct2, THEN conjunct2,
    THEN conjunct2, THEN conjunct1, rule_format]
  note partK = claim [THEN conjunct2, THEN conjunct2, THEN conjunct2, THEN conjunct2,
    THEN conjunct2, THEN conjunct2, THEN conjunct2, rule_format]
  from claim example_bindings_return(1)
  obtain pE hE where buildE: "ExternalDNSClusterRoleBinding_Build
      example_ExternalDNSClusterRoleBinding example_heap = Some (pE, hE)"
    by fastforce
  from claim example_bindings_return(2)
  obtain pC hC where buildC: "HyperShiftOperatorClusterRoleBinding_Build
      example_HyperShiftOperatorClusterRoleBinding example_heap = Some (pC, hC)"
    by fastforce
  from claim example_bindings_return(3)
  obtain pR hR where buildR: "HyperShiftOperatorRoleBinding_Build
      example_HyperShiftOperatorRoleBinding example_heap = Some (pR, hR)"
    by fastforce
  from claim example_bindings_return(4)
  obtain pK hK where buildK: "HyperShiftClientClusterRoleBinding_Build
      example_HyperShiftClientClusterRoleBinding example_heap = Some (pK, hK)"
    by fastforce
  show ?thesis
  proof (intro conjI)
    from partE [OF buildE] obtain b cr sa where
      "load_ClusterRoleBinding (Some pE) hE = Some b"
      "load_ClusterRole (Some 3) example_heap = Some cr"
      "load_ServiceAccount (Some 1) example_heap = Some sa"
      "RoleRef_Name (ClusterRoleBinding_RoleRef b) = ObjectMeta_Name (ClusterRole_ObjectMeta cr)"
      "\<exists>s \<in> set (ClusterRoleBinding_Subjects b).
          Subject_Kind s = ''ServiceAccount'' \<and>
          Subject_Name s = ObjectMeta_Name (ServiceAccount_ObjectMeta sa) \<and>
          Subject_Namespace s = ObjectMeta_Namespace (ServiceAccount_ObjectMeta sa)"
      unfolding fields by blast
    with buildE example_heap_loads(1) [of cr] example_heap_loads(3) [of sa]
    show "\<exists>p h' b. ExternalDNSClusterRoleBinding_Build example_ExternalDNSClusterRoleBinding
        example_heap = Some (p, h') \<and>
      load_ClusterRoleBinding (Some p) h' = Some b \<and>
      RoleRef_Name (ClusterRoleBinding_RoleRef b) = ''hypershift-operator'' \<and>
      (\<exists>s \<in> set (ClusterRoleBinding_Subjects b).
         Subject_Kind s = ''ServiceAccount'' \<and> Subject_Name s = ''operator'' \<and>
         Subject_Namespace s = ''hypershift'')"
      by (intro exI [of _ pE] exI [of _ hE] exI [of _ b]) simp
    from partC [OF buildC] obtain b cr sa where
      "load_ClusterRoleBinding (Some pC) hC = Some b"
      "load_ClusterRole (Some 3) example_heap = Some cr"
      "load_ServiceAccount (Some 1) example_heap = Some sa"
      "RoleRef_Name (ClusterRoleBinding_RoleRef b) = ObjectMeta_Name (ClusterRole_ObjectMeta cr)"
      "\<exists>s \<in> set (ClusterRoleBinding_Subjects b).
          Subject_Kind s = ''ServiceAccount'' \<and>
          Subject_Name s = ObjectMeta_Name (ServiceAccount_ObjectMeta sa) \<and>
          Subject_Namespace s = ObjectMeta_Namespace (ServiceAccount_ObjectMeta sa)"
      unfolding fields by blast
    with buildC example_heap_loads(1) [of cr] example_heap_loads(3) [of sa]
    show "\<exists>p h' b. HyperShiftOperatorClusterRoleBinding_Build
        example_HyperShiftOperatorClusterRoleBinding example_heap = Some (p, h') \<and>
      load_ClusterRoleBinding (Some p) h' = Some b \<and>
      RoleRef_Name (ClusterRoleBinding_RoleRef b) = ''hypershift-operator'' \<and>
      (\<exists>s \<in> set (ClusterRoleBinding_Subjects b).
         Subject_Kind s = ''ServiceAccount'' \<and> Subject_Name s = ''operator'' \<and>
         Subject_Namespace s = ''hypershift'')"
      by (intro exI [of _ pC] exI [of _ hC] exI [of _ b]) simp
    from partR [OF buildR] obtain b r sa where
      "load_RoleBinding (Some pR) hR = Some b"
      "load_Role (Some 4) example_heap = Some r"
      "load_ServiceAccount (Some 1) example_heap = Some sa"
      "RoleRef_Name (RoleBinding_RoleRef b) = ObjectMeta_Name (Role_ObjectMeta r)"
      "\<exists>s \<in> set (RoleBinding_Subjects b).
          Subject_Kind s = ''ServiceAccount'' \<and>
          Subject_Name s = ObjectMeta_Name (ServiceAccount_ObjectMeta sa) \<and>
          Subject_Namespace s = ObjectMeta_Namespace (ServiceAccount_ObjectMeta sa)"
      unfolding fields by blast
    with buildR example_heap_loads(2) [of r] example_heap_loads(3) [of sa]
    show "\<exists>p h' b. HyperShiftOperatorRoleBinding_Build example_HyperShiftOperatorRoleBinding
        example_heap = Some (p, h') \<and>
      load_RoleBinding (Some p) h' = Some b \<and>
      RoleRef_Name (RoleBinding_RoleRef b) = ''prometheus'' \<and>
      (\<exists>s \<in> set (RoleBinding_Subjects b).
         Subject_Kind s = ''ServiceAccount'' \<and> Subject_Name s = ''operator'' \<and>
         Subject_Namespace s = ''hypershift'')"
      by (intro exI [of _ pR] exI [of _ hR] exI [of _ b]) simp
    from partK [OF buildK] obtain b cr sa where
      "load_ClusterRoleBinding (Some pK) hK = Some b"
      "load_ClusterRole (Some 3) example_heap = Some cr"
      "load_ServiceAccount (Some 1) example_heap = Some sa"
      "RoleRef_Name (ClusterRoleBinding_RoleRef b) = ObjectMeta_Name (ClusterRole_ObjectMeta cr)"
      "\<exists>s \<in> set (ClusterRoleBinding_Subjects b).
          Subject_Kind s = ''ServiceAccount'' \<and>
          Subject_Name s = ObjectMeta_Name (ServiceAccount_ObjectMeta sa) \<and>
          Subject_Namespace s = ObjectMeta_Namespace (ServiceAccount_ObjectMeta sa)"
      unfolding fields by blast
    with buildK example_heap_loads(1) [of cr] example_heap_loads(3) [of sa]
    show "\<exists>p h' b. HyperShiftClientClusterRoleBinding_Build
        example_HyperShiftClientClusterRoleBinding example_heap = Some (p, h') \<and>
      load_ClusterRoleBinding (Some p) h' = Some b \<and>
      RoleRef_Name (ClusterRoleBinding_RoleRef b) = ''hypershift-operator'' \<and>
      (\<exists>s \<in> set (ClusterRoleBinding_Subjects b).
         Subject_Kind s = ''ServiceAccount'' \<and> Subject_Name s = ''operator'' \<and>
         Subject_Namespace s = ''hypershift'')"
      by (intro exI [of _ pK] exI [of _ hK] exI [of _ b]) simp
  qed
qed

subsection \<open>The destroy command\<close>

text \<open>
  C8. The command that \<^verbatim>\<open>NewDestroyCommand\<close> returns is named \<^verbatim>\<open>infra\<close>, has no flags of
  its own, and has exactly two children: the commands that \<^verbatim>\<open>aws.NewDestroyCommand\<close> and
  \<^verbatim>\<open>azure.NewDestroyCommand\<close> returned, in that order.
\<close>

theorem NewDestroyCommand_infra:
  "\<exists>cmd. NewDestroyCommand (Some aws) (Some azure) = Some cmd \<and>
     Command_Use cmd = ''infra'' \<and>
     Command_flags cmd = [] \<and>
     Command_commands cmd = [aws, azure] \<and>
     length (Command_commands cmd) = 2"
  by (simp add: NewDestroyCommand_def AddCommand_def)

subsection \<open>Every builder: what it allocates and what it depends on\<close>

lemma pointee_eq_loads:
  assumes "pointee load p1 h1 = pointee load p2 h2" and "\<And>h. load None h = None"
  shows "load p1 h1 = load p2 h2" and "(p1 = None) = (p2 = None)"
  using assms by (cases p1; cases p2; simp add: pointee_def)+

lemma load_None [simp]:
  "load_Namespace None h = None"
  "load_ServiceAccount None h = None"
  "load_Secret None h = None"
  "load_ClusterRole None h = None"
  "load_Role None h = None"
  by (simp_all add: load_Namespace_def load_ServiceAccount_def load_Secret_def
        load_ClusterRole_def load_Role_def deref_def)

lemmas pointee_eqD =
  pointee_eq_loads [where load = load_Namespace, OF _ load_None(1)]
  pointee_eq_loads [where load = load_ServiceAccount, OF _ load_None(2)]
  pointee_eq_loads [where load = load_Secret, OF _ load_None(3)]
  pointee_eq_loads [where load = load_ClusterRole, OF _ load_None(4)]
  pointee_eq_loads [where load = load_Role, OF _ load_None(5)]

lemma update_Namespace_new [simp]:
  "update_Namespace (length h) f (h @ [ONamespace x]) =
     (case f x of None \<Rightarrow> None | Some y \<Rightarrow> Some (h @ [ONamespace y]))"
  by (simp add: update_Namespace_def load_Namespace_def deref_def split: option.splits)

lemma update_PrometheusRule_new [simp]:
  "update_PrometheusRule (length h) f (h @ [OPrometheusRule x]) =
     (case f x of None \<Rightarrow> None | Some y \<Rightarrow> Some (h @ [OPrometheusRule y]))"
  by (simp add: update_PrometheusRule_def load_PrometheusRule_def deref_def split: option.splits)

lemma built_new [simp]:
  "built (Some (length h, h @ [x])) = Some x"
  "built None = None"
  by (simp_all add: built_def deref_def)

lemma built_bind_cong:
  assumes "m1 = m2" and "\<And>x. m2 = Some x \<Longrightarrow> built (f1 x) = built (f2 x)"
  shows "built (m1 \<bind> f1) = built (m2 \<bind> f2)"
  using assms by (cases m2) simp_all

text \<open>
  A builder is \<^emph>\<open>allocating\<close> when a call that returns leaves the heap it found as it
  was and adds one object, the one it returns.
\<close>

lemma HyperShiftNamespace_Build_allocates:
  "HyperShiftNamespace_Build cfg h = Some (p, h') \<Longrightarrow> p = length h \<and> (\<exists>x. h' = h @ [x])"
  unfolding HyperShiftNamespace_Build_def new_def Let_def
  by (auto split: Option.bind_splits if_split_asm)

lemma HyperShiftNamespace_Build_deterministic:
  assumes "config_value (B_HyperShiftNamespace cfg1) h1 = config_value (B_HyperShiftNamespace cfg2) h2"
  shows "built (HyperShiftNamespace_Build cfg1 h1) = built (HyperShiftNamespace_Build cfg2 h2)"
    and "(HyperShiftNamespace_Build cfg1 h1 = None) = (HyperShiftNamespace_Build cfg2 h2 = None)"
  using assms
  unfolding HyperShiftNamespace_Build_def new_def Let_def
  by (clarsimp dest!: pointee_eqD(1,3,5,7,9) split: Option.bind_split)+

lemma HyperShiftOperatorCredentialsSecret_Build_allocates:
  "HyperShiftOperatorCredentialsSecret_Build cfg h = Some (p, h') \<Longrightarrow> p = length h \<and> (\<exists>x. h' = h @ [x])"
  unfolding HyperShiftOperatorCredentialsSecret_Build_def new_def Let_def
  by (auto split: Option.bind_splits if_split_asm)

lemma HyperShiftOperatorCredentialsSecret_Build_deterministic:
  assumes "config_value (B_HyperShiftOperatorCredentialsSecret cfg1) h1 = config_value (B_HyperShiftOperatorCredentialsSecret cfg2) h2"
  shows "built (HyperShiftOperatorCredentialsSecret_Build cfg1 h1) = built (HyperShiftOperatorCredentialsSecret_Build cfg2 h2)"
    and "(HyperShiftOperatorCredentialsSecret_Build cfg1 h1 = None) = (HyperShiftOperatorCredentialsSecret_Build cfg2 h2 = None)"
  using assms
  unfolding HyperShiftOperatorCredentialsSecret_Build_def new_def Let_def
  by (clarsimp dest!: pointee_eqD(1,3,5,7,9) split: Option.bind_split)+

lemma HyperShiftOperatorOIDCProviderS3Secret_Build_allocates:
  "HyperShiftOperatorOIDCProviderS3Secret_Build cfg h = Some (p, h') \<Longrightarrow> p = length h \<and> (\<exists>x. h' = h @ [x])"
  unfolding HyperShiftOperatorOIDCProviderS3Secret_Build_def new_def Let_def
  by (auto split: Option.bind_splits if_split_asm)

lemma HyperShiftOperatorOIDCProviderS3Secret_Build_deterministic:
  assumes "config_value (B_HyperShiftOperatorOIDCProviderS3Secret cfg1) h1 = config_value (B_HyperShiftOperatorOIDCProviderS3Secret cfg2) h2"
  shows "built (HyperShiftOperatorOIDCProviderS3Secret_Build cfg1 h1) = built (HyperShiftOperatorOIDCProviderS3Secret_Build cfg2 h2)"
    and "(HyperShiftOperatorOIDCProviderS3Secret_Build cfg1 h1 = None) = (HyperShiftOperatorOIDCProviderS3Secret_Build cfg2 h2 = None)"
  using assms
  unfolding HyperShiftOperatorOIDCProviderS3Secret_Build_def new_def Let_def
  by (clarsimp dest!: pointee_eqD(1,3,5,7,9) split: Option.bind_split)+

lemma ExternalDNSCredsSecret_Build_allocates:
  "ExternalDNSCredsSecret_Build cfg h = Some (p, h') \<Longrightarrow> p = length h \<and> (\<exists>x. h' = h @ [x])"
  unfolding ExternalDNSCredsSecret_Build_def new_def Let_def
  by (auto split: Option.bind_splits if_split_asm)

lemma ExternalDNSCredsSecret_Build_deterministic:
  assumes "config_value (B_ExternalDNSCredsSecret cfg1) h1 = config_value (B_ExternalDNSCredsSecret cfg2) h2"
  shows "built (ExternalDNSCredsSecret_Build cfg1 h1) = built (ExternalDNSCredsSecret_Build cfg2 h2)"
    and "(ExternalDNSCredsSecret_Build cfg1 h1 = None) = (ExternalDNSCredsSecret_Build cfg2 h2 = None)"
  using assms
  unfolding ExternalDNSCredsSecret_Build_def new_def Let_def
  by (clarsimp dest!: pointee_eqD(1,3,5,7,9) split: Option.bind_split)+

lemma ExternalDNSDeployment_Build_allocates:
  "ExternalDNSDeployment_Build hyperv1 cfg h = Some (p, h') \<Longrightarrow> p = length h \<and> (\<exists>x. h' = h @ [x])"
  unfolding ExternalDNSDeployment_Build_def new_def Let_def
  by (auto simp: assign_defs split: Option.bind_splits if_split_asm)

lemma HyperShiftOperatorService_Build_allocates:
  "HyperShiftOperatorService_Build cfg h = Some (p, h') \<Longrightarrow> p = length h \<and> (\<exists>x. h' = h @ [x])"
  unfolding HyperShiftOperatorService_Build_def new_def Let_def
  by (auto split: Option.bind_splits if_split_asm)

lemma HyperShiftOperatorService_Build_deterministic:
  assumes "config_value (B_HyperShiftOperatorService cfg1) h1 = config_value (B_HyperShiftOperatorService cfg2) h2"
  shows "built (HyperShiftOperatorService_Build cfg1 h1) = built (HyperShiftOperatorService_Build cfg2 h2)"
    and "(HyperShiftOperatorService_Build cfg1 h1 = None) = (HyperShiftOperatorService_Build cfg2 h2 = None)"
  using assms
  unfolding HyperShiftOperatorService_Build_def new_def Let_def
  by (clarsimp dest!: pointee_eqD(1,3,5,7,9) split: Option.bind_split)+

lemma ExternalDNSServiceAccount_Build_allocates:
  "ExternalDNSServiceAccount_Build cfg h = Some (p, h') \<Longrightarrow> p = length h \<and> (\<exists>x. h' = h @ [x])"
  unfolding ExternalDNSServiceAccount_Build_def new_def Let_def
  by (auto split: Option.bind_splits if_split_asm)

lemma ExternalDNSServiceAccount_Build_deterministic:
  assumes "config_value (B_ExternalDNSServiceAccount cfg1) h1 = config_value (B_ExternalDNSServiceAccount cfg2) h2"
  shows "built (ExternalDNSServiceAccount_Build cfg1 h1) = built (ExternalDNSServiceAccount_Build cfg2 h2)"
    and "(ExternalDNSServiceAccount_Build cfg1 h1 = None) = (ExternalDNSServiceAccount_Build cfg2 h2 = None)"
  using assms
  unfolding ExternalDNSServiceAccount_Build_def new_def Let_def
  by (clarsimp dest!: pointee_eqD(1,3,5,7,9) split: Option.bind_split)+

lemma ExternalDNSClusterRole_Build_allocates:
  "ExternalDNSClusterRole_Build h = Some (p, h') \<Longrightarrow> p = length h \<and> (\<exists>x. h' = h @ [x])"
  unfolding ExternalDNSClusterRole_Build_def new_def Let_def
  by (auto split: Option.bind_splits if_split_asm)

lemma ExternalDNSClusterRole_Build_deterministic:
  "built (ExternalDNSClusterRole_Build h1) = built (ExternalDNSClusterRole_Build h2)"
  "(ExternalDNSClusterRole_Build h1 = None) = (ExternalDNSClusterRole_Build h2 = None)"
  unfolding ExternalDNSClusterRole_Build_def new_def Let_def
  by simp_all

lemma ExternalDNSClusterRoleBinding_Build_allocates:
  "ExternalDNSClusterRoleBinding_Build cfg h = Some (p, h') \<Longrightarrow> p = length h \<and> (\<exists>x. h' = h @ [x])"
  unfolding ExternalDNSClusterRoleBinding_Build_def new_def Let_def
  by (auto split: Option.bind_splits if_split_asm)

lemma ExternalDNSClusterRoleBinding_Build_deterministic:
  assumes "config_value (B_ExternalDNSClusterRoleBinding cfg1) h1 = config_value (B_ExternalDNSClusterRoleBinding cfg2) h2"
  shows "built (ExternalDNSClusterRoleBinding_Build cfg1 h1) = built (ExternalDNSClusterRoleBinding_Build cfg2 h2)"
    and "(ExternalDNSClusterRoleBinding_Build cfg1 h1 = None) = (ExternalDNSClusterRoleBinding_Build cfg2 h2 = None)"
  using assms
  unfolding ExternalDNSClusterRoleBinding_Build_def new_def Let_def
  by (clarsimp dest!: pointee_eqD(1,3,5,7,9) split: Option.bind_split)+

lemma HyperShiftOperatorServiceAccount_Build_allocates:
  "HyperShiftOperatorServiceAccount_Build cfg h = Some (p, h') \<Longrightarrow> p = length h \<and> (\<exists>x. h' = h @ [x])"
  unfolding HyperShiftOperatorServiceAccount_Build_def new_def Let_def
  by (auto split: Option.bind_splits if_split_asm)

lemma HyperShiftOperatorServiceAccount_Build_deterministic:
  assumes "config_value (B_HyperShiftOperatorServiceAccount cfg1) h1 = config_value (B_HyperShiftOperatorServiceAccount cfg2) h2"
  shows "built (HyperShiftOperatorServiceAccount_Build cfg1 h1) = built (HyperShiftOperatorServiceAccount_Build cfg2 h2)"
    and "(HyperShiftOperatorServiceAccount_Build cfg1 h1 = None) = (HyperShiftOperatorServiceAccount_Build cfg2 h2 = None)"
  using assms
  unfolding HyperShiftOperatorServiceAccount_Build_def new_def Let_def
  by (clarsimp dest!: pointee_eqD(1,3,5,7,9) split: Option.bind_split)+

lemma HyperShiftOperatorClusterRole_Build_allocates:
  "HyperShiftOperatorClusterRole_Build h = Some (p, h') \<Longrightarrow> p = length h \<and> (\<exists>x. h' = h @ [x])"
  unfolding HyperShiftOperatorClusterRole_Build_def new_def Let_def
  by (auto split: Option.bind_splits if_split_asm)

lemma HyperShiftOperatorClusterRole_Build_deterministic:
  "built (HyperShiftOperatorClusterRole_Build h1) = built (HyperShiftOperatorClusterRole_Build h2)"
  "(HyperShiftOperatorClusterRole_Build h1 = None) = (HyperShiftOperatorClusterRole_Build h2 = None)"
  unfolding HyperShiftOperatorClusterRole_Build_def new_def Let_def
  by simp_all

lemma HyperShiftOperatorClusterRoleBinding_Build_allocates:
  "HyperShiftOperatorClusterRoleBinding_Build cfg h = Some (p, h') \<Longrightarrow> p = length h \<and> (\<exists>x. h' = h @ [x])"
  unfolding HyperShiftOperatorClusterRoleBinding_Build_def new_def Let_def
  by (auto split: Option.bind_splits if_split_asm)

lemma HyperShiftOperatorClusterRoleBinding_Build_deterministic:
  assumes "config_value (B_HyperShiftOperatorClusterRoleBinding cfg1) h1 = config_value (B_HyperShiftOperatorClusterRoleBinding cfg2) h2"
  shows "built (HyperShiftOperatorClusterRoleBinding_Build cfg1 h1) = built (HyperShiftOperatorClusterRoleBinding_Build cfg2 h2)"
    and "(HyperShiftOperatorClusterRoleBinding_Build cfg1 h1 = None) = (HyperShiftOperatorClusterRoleBinding_Build cfg2 h2 = None)"
  using assms
  unfolding HyperShiftOperatorClusterRoleBinding_Build_def new_def Let_def
  by (clarsimp dest!: pointee_eqD(1,3,5,7,9) split: Option.bind_split)+

lemma HyperShiftOperatorRole_Build_allocates:
  "HyperShiftOperatorRole_Build cfg h = Some (p, h') \<Longrightarrow> p = length h \<and> (\<exists>x. h' = h @ [x])"
  unfolding HyperShiftOperatorRole_Build_def new_def Let_def
  by (auto split: Option.bind_splits if_split_asm)

lemma HyperShiftOperatorRole_Build_deterministic:
  assumes "config_value (B_HyperShiftOperatorRole cfg1) h1 = config_value (B_HyperShiftOperatorRole cfg2) h2"
  shows "built (HyperShiftOperatorRole_Build cfg1 h1) = built (HyperShiftOperatorRole_Build cfg2 h2)"
    and "(HyperShiftOperatorRole_Build cfg1 h1 = None) = (HyperShiftOperatorRole_Build cfg2 h2 = None)"
  using assms
  unfolding HyperShiftOperatorRole_Build_def new_def Let_def
  by (clarsimp dest!: pointee_eqD(1,3,5,7,9) split: Option.bind_split)+

lemma HyperShiftOperatorRoleBinding_Build_allocates:
  "HyperShiftOperatorRoleBinding_Build cfg h = Some (p, h') \<Longrightarrow> p = length h \<and> (\<exists>x. h' = h @ [x])"
  unfolding HyperShiftOperatorRoleBinding_Build_def new_def Let_def
  by (auto split: Option.bind_splits if_split_asm)

lemma HyperShiftOperatorRoleBinding_Build_deterministic:
  assumes "config_value (B_HyperShiftOperatorRoleBinding cfg1) h1 = config_value (B_HyperShiftOperatorRoleBinding cfg2) h2"
  shows "built (HyperShiftOperatorRoleBinding_Build cfg1 h1) = built (HyperShiftOperatorRoleBinding_Build cfg2 h2)"
    and "(HyperShiftOperatorRoleBinding_Build cfg1 h1 = None) = (HyperShiftOperatorRoleBinding_Build cfg2 h2 = None)"
  using assms
  unfolding HyperShiftOperatorRoleBinding_Build_def new_def Let_def
  by (clarsimp dest!: pointee_eqD(1,3,5,7,9) split: Option.bind_split)+

lemma HyperShiftControlPlanePriorityClass_Build_allocates:
  "HyperShiftControlPlanePriorityClass_Build h = Some (p, h') \<Longrightarrow> p = length h \<and> (\<exists>x. h' = h @ [x])"
  unfolding HyperShiftControlPlanePriorityClass_Build_def new_def Let_def
  by (auto split: Option.bind_splits if_split_asm)

lemma HyperShiftControlPlanePriorityClass_Build_deterministic:
  "built (HyperShiftControlPlanePriorityClass_Build h1) = built (HyperShiftControlPlanePriorityClass_Build h2)"
  "(HyperShiftControlPlanePriorityClass_Build h1 = None) = (HyperShiftControlPlanePriorityClass_Build h2 = None)"
  unfolding HyperShiftControlPlanePriorityClass_Build_def new_def Let_def
  by simp_all

lemma HyperShiftAPICriticalPriorityClass_Build_allocates:
  "HyperShiftAPICriticalPriorityClass_Build h = Some (p, h') \<Longrightarrow> p = length h \<and> (\<exists>x. h' = h @ [x])"
  unfolding HyperShiftAPICriticalPriorityClass_Build_def new_def Let_def
  by (auto split: Option.bind_splits if_split_asm)

lemma HyperShiftAPICriticalPriorityClass_Build_deterministic:
  "built (HyperShiftAPICriticalPriorityClass_Build h1) = built (HyperShiftAPICriticalPriorityClass_Build h2)"
  "(HyperShiftAPICriticalPriorityClass_Build h1 = None) = (HyperShiftAPICriticalPriorityClass_Build h2 = None)"
  unfolding HyperShiftAPICriticalPriorityClass_Build_def new_def Let_def
  by simp_all

lemma HyperShiftEtcdPriorityClass_Build_allocates:
  "HyperShiftEtcdPriorityClass_Build h = Some (p, h') \<Longrightarrow> p = length h \<and> (\<exists>x. h' = h @ [x])"
  unfolding HyperShiftEtcdPriorityClass_Build_def new_def Let_def
  by (auto split: Option.bind_splits if_split_asm)

lemma HyperShiftEtcdPriorityClass_Build_deterministic:
  "built (HyperShiftEtcdPriorityClass_Build h1) = built (HyperShiftEtcdPriorityClass_Build h2)"
  "(HyperShiftEtcdPriorityClass_Build h1 = None) = (HyperShiftEtcdPriorityClass_Build h2 = None)"
  unfolding HyperShiftEtcdPriorityClass_Build_def new_def Let_def
  by simp_all

lemma HyperShiftPrometheusRole_Build_allocates:
  "HyperShiftPrometheusRole_Build cfg h = Some (p, h') \<Longrightarrow> p = length h \<and> (\<exists>x. h' = h @ [x])"
  unfolding HyperShiftPrometheusRole_Build_def new_def Let_def
  by (auto split: Option.bind_splits if_split_asm)

lemma HyperShiftPrometheusRole_Build_deterministic:
  assumes "config_value (B_HyperShiftPrometheusRole cfg1) h1 = config_value (B_HyperShiftPrometheusRole cfg2) h2"
  shows "built (HyperShiftPrometheusRole_Build cfg1 h1) = built (HyperShiftPrometheusRole_Build cfg2 h2)"
    and "(HyperShiftPrometheusRole_Build cfg1 h1 = None) = (HyperShiftPrometheusRole_Build cfg2 h2 = None)"
  using assms
  unfolding HyperShiftPrometheusRole_Build_def new_def Let_def
  by (clarsimp dest!: pointee_eqD(1,3,5,7,9) split: Option.bind_split)+

lemma HyperShiftOperatorPrometheusRoleBinding_Build_allocates:
  "HyperShiftOperatorPrometheusRoleBinding_Build cfg h = Some (p, h') \<Longrightarrow> p = length h \<and> (\<exists>x. h' = h @ [x])"
  unfolding HyperShiftOperatorPrometheusRoleBinding_Build_def new_def Let_def
  by (auto split: Option.bind_splits if_split_asm)

lemma HyperShiftOperatorPrometheusRoleBinding_Build_deterministic:
  assumes "config_value (B_HyperShiftOperatorPrometheusRoleBinding cfg1) h1 = config_value (B_HyperShiftOperatorPrometheusRoleBinding cfg2) h2"
  shows "built (HyperShiftOperatorPrometheusRoleBinding_Build cfg1 h1) = built (HyperShiftOperatorPrometheusRoleBinding_Build cfg2 h2)"
    and "(HyperShiftOperatorPrometheusRoleBinding_Build cfg1 h1 = None) = (HyperShiftOperatorPrometheusRoleBinding_Build cfg2 h2 = None)"
  using assms
  unfolding HyperShiftOperatorPrometheusRoleBinding_Build_def new_def Let_def
  by (clarsimp dest!: pointee_eqD(1,3,5,7,9) split: Option.bind_split)+

lemma HyperShiftServiceMonitor_Build_allocates:
  "HyperShiftServiceMonitor_Build cfg h = Some (p, h') \<Longrightarrow> p = length h \<and> (\<exists>x. h' = h @ [x])"
  unfolding HyperShiftServiceMonitor_Build_def new_def Let_def
  by (auto split: Option.bind_splits if_split_asm)

lemma HyperShiftServiceMonitor_Build_deterministic:
  assumes "config_value (B_HyperShiftServiceMonitor cfg1) h1 = config_value (B_HyperShiftServiceMonitor cfg2) h2"
  shows "built (HyperShiftServiceMonitor_Build cfg1 h1) = built (HyperShiftServiceMonitor_Build cfg2 h2)"
    and "(HyperShiftServiceMonitor_Build cfg1 h1 = None) = (HyperShiftServiceMonitor_Build cfg2 h2 = None)"
  using assms
  unfolding HyperShiftServiceMonitor_Build_def new_def Let_def
  by (clarsimp dest!: pointee_eqD(1,3,5,7,9) split: Option.bind_split)+

lemma HypershiftRecordingRule_Build_allocates:
  "HypershiftRecordingRule_Build recordingRuleSpec cfg h = Some (p, h') \<Longrightarrow> p = length h \<and> (\<exists>x. h' = h @ [x])"
  unfolding HypershiftRecordingRule_Build_def new_def Let_def
  by (auto split: Option.bind_splits if_split_asm)

lemma HypershiftRecordingRule_Build_deterministic:
  assumes "config_value (B_HypershiftRecordingRule cfg1) h1 = config_value (B_HypershiftRecordingRule cfg2) h2"
  shows "built (HypershiftRecordingRule_Build recordingRuleSpec cfg1 h1) = built (HypershiftRecordingRule_Build recordingRuleSpec cfg2 h2)"
    and "(HypershiftRecordingRule_Build recordingRuleSpec cfg1 h1 = None) = (HypershiftRecordingRule_Build recordingRuleSpec cfg2 h2 = None)"
  using assms
  unfolding HypershiftRecordingRule_Build_def new_def Let_def
  by (clarsimp dest!: pointee_eqD(1,3,5,7,9) split: Option.bind_split)+

lemma HyperShiftClientClusterRole_Build_allocates:
  "HyperShiftClientClusterRole_Build h = Some (p, h') \<Longrightarrow> p = length h \<and> (\<exists>x. h' = h @ [x])"
  unfolding HyperShiftClientClusterRole_Build_def new_def Let_def
  by (auto split: Option.bind_splits if_split_asm)

lemma HyperShiftClientClusterRole_Build_deterministic:
  "built (HyperShiftClientClusterRole_Build h1) = built (HyperShiftClientClusterRole_Build h2)"
  "(HyperShiftClientClusterRole_Build h1 = None) = (HyperShiftClientClusterRole_Build h2 = None)"
  unfolding HyperShiftClientClusterRole_Build_def new_def Let_def
  by simp_all

lemma HyperShiftClientServiceAccount_Build_allocates:
  "HyperShiftClientServiceAccount_Build cfg h = Some (p, h') \<Longrightarrow> p = length h \<and> (\<exists>x. h' = h @ [x])"
  unfolding HyperShiftClientServiceAccount_Build_def new_def Let_def
  by (auto split: Option.bind_splits if_split_asm)

lemma HyperShiftClientServiceAccount_Build_deterministic:
  assumes "config_value (B_HyperShiftClientServiceAccount cfg1) h1 = config_value (B_HyperShiftClientServiceAccount cfg2) h2"
  shows "built (HyperShiftClientServiceAccount_Build cfg1 h1) = built (HyperShiftClientServiceAccount_Build cfg2 h2)"
    and "(HyperShiftClientServiceAccount_Build cfg1 h1 = None) = (HyperShiftClientServiceAccount_Build cfg2 h2 = None)"
  using assms
  unfolding HyperShiftClientServiceAccount_Build_def new_def Let_def
  by (clarsimp dest!: pointee_eqD(1,3,5,7,9) split: Option.bind_split)+

lemma HyperShiftClientClusterRoleBinding_Build_allocates:
  "HyperShiftClientClusterRoleBinding_Build cfg h = Some (p, h') \<Longrightarrow> p = length h \<and> (\<exists>x. h' = h @ [x])"
  unfolding HyperShiftClientClusterRoleBinding_Build_def new_def Let_def
  by (auto split: Option.bind_splits if_split_asm)

lemma HyperShiftClientClusterRoleBinding_Build_deterministic:
  assumes "config_value (B_HyperShiftClientClusterRoleBinding cfg1) h1 = config_value (B_HyperShiftClientClusterRoleBinding cfg2) h2"
  shows "built (HyperShiftClientClusterRoleBinding_Build cfg1 h1) = built (HyperShiftClientClusterRoleBinding_Build cfg2 h2)"
    and "(HyperShiftClientClusterRoleBinding_Build cfg1 h1 = None) = (HyperShiftClientClusterRoleBinding_Build cfg2 h2 = None)"
  using assms
  unfolding HyperShiftClientClusterRoleBinding_Build_def new_def Let_def
  by (clarsimp dest!: pointee_eqD(1,3,5,7,9) split: Option.bind_split)+

lemma HyperShiftReaderClusterRole_Build_allocates:
  "HyperShiftReaderClusterRole_Build h = Some (p, h') \<Longrightarrow> p = length h \<and> (\<exists>x. h' = h @ [x])"
  unfolding HyperShiftReaderClusterRole_Build_def new_def Let_def
  by (auto split: Option.bind_splits if_split_asm)

lemma HyperShiftReaderClusterRole_Build_deterministic:
  "built (HyperShiftReaderClusterRole_Build h1) = built (HyperShiftReaderClusterRole_Build h2)"
  "(HyperShiftReaderClusterRole_Build h1 = None) = (HyperShiftReaderClusterRole_Build h2 = None)"
  unfolding HyperShiftReaderClusterRole_Build_def new_def Let_def
  by simp_all

lemma HyperShiftReaderClusterRoleBinding_Build_allocates:
  "HyperShiftReaderClusterRoleBinding_Build cfg h = Some (p, h') \<Longrightarrow> p = length h \<and> (\<exists>x. h' = h @ [x])"
  unfolding HyperShiftReaderClusterRoleBinding_Build_def new_def Let_def
  by (auto split: Option.bind_splits if_split_asm)

lemma HyperShiftReaderClusterRoleBinding_Build_deterministic:
  assumes "config_value (B_HyperShiftReaderClusterRoleBinding cfg1) h1 = config_value (B_HyperShiftReaderClusterRoleBinding cfg2) h2"
  shows "built (HyperShiftReaderClusterRoleBinding_Build cfg1 h1) = built (HyperShiftReaderClusterRoleBinding_Build cfg2 h2)"
    and "(HyperShiftReaderClusterRoleBinding_Build cfg1 h1 = None) = (HyperShiftReaderClusterRoleBinding_Build cfg2 h2 = None)"
  using assms
  unfolding HyperShiftReaderClusterRoleBinding_Build_def new_def Let_def
  by (clarsimp dest!: pointee_eqD(1,3,5,7,9) split: Option.bind_split)+

lemma ExternalDNSDeployment_literal_cong:
  assumes "ExternalDNSDeployment_Image cfg1 = ExternalDNSDeployment_Image cfg2"
      and "ExternalDNSDeployment_Provider cfg1 = ExternalDNSDeployment_Provider cfg2"
      and "ExternalDNSDeployment_DomainFilter cfg1 = ExternalDNSDeployment_DomainFilter cfg2"
  shows "ExternalDNSDeployment_literal hyperv1 cfg1 replicas ns sa cs =
         ExternalDNSDeployment_literal hyperv1 cfg2 replicas ns sa cs"
  using assms
  by (simp add: ExternalDNSDeployment_literal_def ExternalDNSDeployment_container_def)

lemma ExternalDNSDeployment_Build_deterministic:
  assumes "config_value (B_ExternalDNSDeployment cfg1) h1 =
           config_value (B_ExternalDNSDeployment cfg2) h2"
  shows "built (ExternalDNSDeployment_Build hyperv1 cfg1 h1) =
         built (ExternalDNSDeployment_Build hyperv1 cfg2 h2)"
    and "(ExternalDNSDeployment_Build hyperv1 cfg1 h1 = None) =
         (ExternalDNSDeployment_Build hyperv1 cfg2 h2 = None)"
proof -
  from assms have scalars:
    "ExternalDNSDeployment_Image cfg1 = ExternalDNSDeployment_Image cfg2"
    "ExternalDNSDeployment_Provider cfg1 = ExternalDNSDeployment_Provider cfg2"
    "ExternalDNSDeployment_DomainFilter cfg1 = ExternalDNSDeployment_DomainFilter cfg2"
    and pointees:
    "pointee load_Namespace (ExternalDNSDeployment_Namespace cfg1) h1 =
     pointee load_Namespace (ExternalDNSDeployment_Namespace cfg2) h2"
    "pointee load_ServiceAccount (ExternalDNSDeployment_ServiceAccount cfg1) h1 =
     pointee load_ServiceAccount (ExternalDNSDeployment_ServiceAccount cfg2) h2"
    "pointee load_Secret (ExternalDNSDeployment_CredentialsSecret cfg1) h1 =
     pointee load_Secret (ExternalDNSDeployment_CredentialsSecret cfg2) h2"
    by simp_all
  note loads = pointee_eqD(1) [OF pointees(1)] pointee_eqD(3) [OF pointees(2)]
    pointee_eqD(5) [OF pointees(3)]
  note literal = ExternalDNSDeployment_literal_cong [OF scalars, of hyperv1]
  show "(ExternalDNSDeployment_Build hyperv1 cfg1 h1 = None) =
        (ExternalDNSDeployment_Build hyperv1 cfg2 h2 = None)"
    by (simp add: ExternalDNSDeployment_Build_None ExternalDNSDeployment_panics_def loads)
  show "built (ExternalDNSDeployment_Build hyperv1 cfg1 h1) =
        built (ExternalDNSDeployment_Build hyperv1 cfg2 h2)"
    unfolding ExternalDNSDeployment_Build_def new_def Let_def loads literal scalars
    by (rule built_bind_cong [OF refl])+ (simp add: assign_defs)
qed

lemma HyperShiftOperatorDeployment_Build_allocates:
  assumes "HyperShiftOperatorDeployment_Build hyperv1 cfg h = Some (p, h')"
  shows "p = length h \<and> (\<exists>x. h' = h @ [x])"
proof -
  from HyperShiftOperatorDeployment_Build_Some [OF assms]
  obtain ns sa args m v where "HyperShiftOperatorDeployment_platform hyperv1 cfg (length h)
       (h @ [ODeployment (HyperShiftOperatorDeployment_literal hyperv1 cfg ns sa args
          [\<lparr>EnvVar_Name = ''MY_NAMESPACE'',
            EnvVar_Value = [],
            EnvVar_ValueFrom = Some
              \<lparr>EnvVarSource_FieldRef = Some
                 \<lparr>ObjectFieldSelector_FieldPath = ''metadata.namespace''\<rparr>\<rparr>\<rparr>] m v)]) =
       Some (p, h')"
    by blast
  then show ?thesis
    by (auto simp add: HyperShiftOperatorDeployment_platform_new
          [where c = "HyperShiftOperatorDeployment_container cfg args
             [\<lparr>EnvVar_Name = ''MY_NAMESPACE'',
               EnvVar_Value = [],
               EnvVar_ValueFrom = Some
                 \<lparr>EnvVarSource_FieldRef = Some
                    \<lparr>ObjectFieldSelector_FieldPath = ''metadata.namespace''\<rparr>\<rparr>\<rparr>] m"])
qed

lemma HyperShiftOperatorDeployment_literal_cong:
  assumes "HyperShiftOperatorDeployment_OperatorImage cfg1 =
           HyperShiftOperatorDeployment_OperatorImage cfg2"
      and "HyperShiftOperatorDeployment_Replicas cfg1 = HyperShiftOperatorDeployment_Replicas cfg2"
  shows "HyperShiftOperatorDeployment_literal hyperv1 cfg1 ns sa args envVars m v =
         HyperShiftOperatorDeployment_literal hyperv1 cfg2 ns sa args envVars m v"
  using assms
  by (simp add: HyperShiftOperatorDeployment_literal_def HyperShiftOperatorDeployment_container_def)

lemma HyperShiftOperatorDeployment_oidc_cong:
  assumes "HyperShiftOperatorDeployment_OIDCBucketName cfg1 =
           HyperShiftOperatorDeployment_OIDCBucketName cfg2"
      and "HyperShiftOperatorDeployment_OIDCBucketRegion cfg1 =
           HyperShiftOperatorDeployment_OIDCBucketRegion cfg2"
      and "HyperShiftOperatorDeployment_OIDCStorageProviderS3SecretKey cfg1 =
           HyperShiftOperatorDeployment_OIDCStorageProviderS3SecretKey cfg2"
      and "pointee load_Secret (HyperShiftOperatorDeployment_OIDCStorageProviderS3Secret cfg1) h1 =
           pointee load_Secret (HyperShiftOperatorDeployment_OIDCStorageProviderS3Secret cfg2) h2"
  shows "HyperShiftOperatorDeployment_oidc cfg1 h1 args m v =
         HyperShiftOperatorDeployment_oidc cfg2 h2 args m v"
  unfolding HyperShiftOperatorDeployment_oidc_def assms(1-3) pointee_eqD(5,6) [OF assms(4)]
  by (rule refl)

lemma HyperShiftOperatorDeployment_platform_cong:
  assumes "HyperShiftOperatorDeployment_PrivatePlatform cfg1 =
           HyperShiftOperatorDeployment_PrivatePlatform cfg2"
      and "HyperShiftOperatorDeployment_AWSPrivateRegion cfg1 =
           HyperShiftOperatorDeployment_AWSPrivateRegion cfg2"
      and "PodSpec_Containers (Deployment_PodSpec d) = [c]"
  shows "built (HyperShiftOperatorDeployment_platform hyperv1 cfg1 (length h1)
                  (h1 @ [ODeployment d])) =
         built (HyperShiftOperatorDeployment_platform hyperv1 cfg2 (length h2)
                  (h2 @ [ODeployment d]))"
  by (simp add: HyperShiftOperatorDeployment_platform_new [OF assms(3)] assms(1,2))

lemma HyperShiftOperatorDeployment_Build_deterministic:
  assumes "config_value (B_HyperShiftOperatorDeployment cfg1) h1 =
           config_value (B_HyperShiftOperatorDeployment cfg2) h2"
  shows "built (HyperShiftOperatorDeployment_Build hyperv1 cfg1 h1) =
         built (HyperShiftOperatorDeployment_Build hyperv1 cfg2 h2)"
    and "(HyperShiftOperatorDeployment_Build hyperv1 cfg1 h1 = None) =
         (HyperShiftOperatorDeployment_Build hyperv1 cfg2 h2 = None)"
proof -
  from assms have scalars:
    "HyperShiftOperatorDeployment_OperatorImage cfg1 =
     HyperShiftOperatorDeployment_OperatorImage cfg2"
    "HyperShiftOperatorDeployment_Replicas cfg1 = HyperShiftOperatorDeployment_Replicas cfg2"
    "HyperShiftOperatorDeployment_EnableOCPClusterMonitoring cfg1 =
     HyperShiftOperatorDeployment_EnableOCPClusterMonitoring cfg2"
    "HyperShiftOperatorDeployment_EnableCIDebugOutput cfg1 =
     HyperShiftOperatorDeployment_EnableCIDebugOutput cfg2"
    "HyperShiftOperatorDeployment_PrivatePlatform cfg1 =
     HyperShiftOperatorDeployment_PrivatePlatform cfg2"
    "HyperShiftOperatorDeployment_AWSPrivateRegion cfg1 =
     HyperShiftOperatorDeployment_AWSPrivateRegion cfg2"
    "HyperShiftOperatorDeployment_OIDCBucketName cfg1 =
     HyperShiftOperatorDeployment_OIDCBucketName cfg2"
    "HyperShiftOperatorDeployment_OIDCBucketRegion cfg1 =
     HyperShiftOperatorDeployment_OIDCBucketRegion cfg2"
    "HyperShiftOperatorDeployment_OIDCStorageProviderS3SecretKey cfg1 =
     HyperShiftOperatorDeployment_OIDCStorageProviderS3SecretKey cfg2"
    and secret:
    "pointee load_Secret (HyperShiftOperatorDeployment_OIDCStorageProviderS3Secret cfg1) h1 =
     pointee load_Secret (HyperShiftOperatorDeployment_OIDCStorageProviderS3Secret cfg2) h2"
    and pointees:
    "pointee load_Namespace (HyperShiftOperatorDeployment_Namespace cfg1) h1 =
     pointee load_Namespace (HyperShiftOperatorDeployment_Namespace cfg2) h2"
    "pointee load_ServiceAccount (HyperShiftOperatorDeployment_ServiceAccount cfg1) h1 =
     pointee load_ServiceAccount (HyperShiftOperatorDeployment_ServiceAccount cfg2) h2"
    by simp_all
  note loads = pointee_eqD(1) [OF pointees(1)] pointee_eqD(3) [OF pointees(2)]
  note literal = HyperShiftOperatorDeployment_literal_cong [OF scalars(1,2), of hyperv1]
  note oidc = HyperShiftOperatorDeployment_oidc_cong [OF scalars(7-9) secret]
  note platform = HyperShiftOperatorDeployment_platform_cong [OF scalars(5,6)]
  show "built (HyperShiftOperatorDeployment_Build hyperv1 cfg1 h1) =
        built (HyperShiftOperatorDeployment_Build hyperv1 cfg2 h2)"
    unfolding HyperShiftOperatorDeployment_Build_def new_def Let_def loads literal oidc scalars(3-5)
    apply (rule built_bind_cong [OF refl])
    apply (simp only: split_paired_all prod.case)
    apply (rule built_bind_cong [OF refl])+
    apply (rule platform)
    apply simp
    done
  have "HyperShiftOperatorDeployment_panics cfg1 h1 = HyperShiftOperatorDeployment_panics cfg2 h2"
    using pointee_eqD(5,6) [OF secret]
    by (simp add: HyperShiftOperatorDeployment_panics_def loads scalars)
  then show "(HyperShiftOperatorDeployment_Build hyperv1 cfg1 h1 = None) =
        (HyperShiftOperatorDeployment_Build hyperv1 cfg2 h2 = None)"
    by (simp add: HyperShiftOperatorDeployment_Build_None)
qed

lemmas Build_allocates_each =
  HyperShiftNamespace_Build_allocates
  HyperShiftOperatorCredentialsSecret_Build_allocates
  HyperShiftOperatorOIDCProviderS3Secret_Build_allocates
  ExternalDNSCredsSecret_Build_allocates
  ExternalDNSDeployment_Build_allocates
  HyperShiftOperatorDeployment_Build_allocates
  HyperShiftOperatorService_Build_allocates
  ExternalDNSServiceAccount_Build_allocates
  ExternalDNSClusterRole_Build_allocates
  ExternalDNSClusterRoleBinding_Build_allocates
  HyperShiftOperatorServiceAccount_Build_allocates
  HyperShiftOperatorClusterRole_Build_allocates
  HyperShiftOperatorClusterRoleBinding_Build_allocates
  HyperShiftOperatorRole_Build_allocates
  HyperShiftOperatorRoleBinding_Build_allocates
  HyperShiftControlPlanePriorityClass_Build_allocates
  HyperShiftAPICriticalPriorityClass_Build_allocates
  HyperShiftEtcdPriorityClass_Build_allocates
  HyperShiftPrometheusRole_Build_allocates
  HyperShiftOperatorPrometheusRoleBinding_Build_allocates
  HyperShiftServiceMonitor_Build_allocates
  HypershiftRecordingRule_Build_allocates
  HyperShiftClientClusterRole_Build_allocates
  HyperShiftClientServiceAccount_Build_allocates
  HyperShiftClientClusterRoleBinding_Build_allocates
  HyperShiftReaderClusterRole_Build_allocates
  HyperShiftReaderClusterRoleBinding_Build_allocates

lemma Build_allocates:
  "Build hyperv1 recordingRuleSpec b h = Some (p, h') \<Longrightarrow> p = length h \<and> (\<exists>x. h' = h @ [x])"
  by (cases b) (simp_all add: Build_allocates_each)

lemma Build_deterministic:
  assumes "config_value b1 h1 = config_value b2 h2"
  shows "built (Build hyperv1 recordingRuleSpec b1 h1) = built (Build hyperv1 recordingRuleSpec b2 h2) \<and>
         (Build hyperv1 recordingRuleSpec b1 h1 = None) = (Build hyperv1 recordingRuleSpec b2 h2 = None)"
proof (cases b1)
  case (B_HyperShiftNamespace cfg1)
  with assms obtain cfg2 where b2: "b2 = B_HyperShiftNamespace cfg2"
    by (cases b2) simp_all
  from assms show ?thesis
    unfolding B_HyperShiftNamespace b2 Build.simps
    by (intro conjI HyperShiftNamespace_Build_deterministic)
next
  case (B_HyperShiftOperatorCredentialsSecret cfg1)
  with assms obtain cfg2 where b2: "b2 = B_HyperShiftOperatorCredentialsSecret cfg2"
    by (cases b2) simp_all
  from assms show ?thesis
    unfolding B_HyperShiftOperatorCredentialsSecret b2 Build.simps
    by (intro conjI HyperShiftOperatorCredentialsSecret_Build_deterministic)
next
  case (B_HyperShiftOperatorOIDCProviderS3Secret cfg1)
  with assms obtain cfg2 where b2: "b2 = B_HyperShiftOperatorOIDCProviderS3Secret cfg2"
    by (cases b2) simp_all
  from assms show ?thesis
    unfolding B_HyperShiftOperatorOIDCProviderS3Secret b2 Build.simps
    by (intro conjI HyperShiftOperatorOIDCProviderS3Secret_Build_deterministic)
next
  case (B_ExternalDNSCredsSecret cfg1)
  with assms obtain cfg2 where b2: "b2 = B_ExternalDNSCredsSecret cfg2"
    by (cases b2) simp_all
  from assms show ?thesis
    unfolding B_ExternalDNSCredsSecret b2 Build.simps
    by (intro conjI ExternalDNSCredsSecret_Build_deterministic)
next
  case (B_ExternalDNSDeployment cfg1)
  with assms obtain cfg2 where b2: "b2 = B_ExternalDNSDeployment cfg2"
    by (cases b2) simp_all
  from assms show ?thesis
    unfolding B_ExternalDNSDeployment b2 Build.simps
    by (intro conjI ExternalDNSDeployment_Build_deterministic)
next
  case (B_HyperShiftOperatorDeployment cfg1)
  with assms obtain cfg2 where b2: "b2 = B_HyperShiftOperatorDeployment cfg2"
    by (cases b2) simp_all
  from assms show ?thesis
    unfolding B_HyperShiftOperatorDeployment b2 Build.simps
    by (intro conjI HyperShiftOperatorDeployment_Build_deterministic)
next
  case (B_HyperShiftOperatorService cfg1)
  with assms obtain cfg2 where b2: "b2 = B_HyperShiftOperatorService cfg2"
    by (cases b2) simp_all
  from assms show ?thesis
    unfolding B_HyperShiftOperatorService b2 Build.simps
    by (intro conjI HyperShiftOperatorService_Build_deterministic)
next
  case (B_ExternalDNSServiceAccount cfg1)
  with assms obtain cfg2 where b2: "b2 = B_ExternalDNSServiceAccount cfg2"
    by (cases b2) simp_all
  from assms show ?thesis
    unfolding B_ExternalDNSServiceAccount b2 Build.simps
    by (intro conjI ExternalDNSServiceAccount_Build_deterministic)
next
  case B_ExternalDNSClusterRole
  with assms have b2: "b2 = B_ExternalDNSClusterRole"
    by (cases b2) simp_all
  show ?thesis
    unfolding B_ExternalDNSClusterRole b2 Build.simps
    by (intro conjI ExternalDNSClusterRole_Build_deterministic)
next
  case (B_ExternalDNSClusterRoleBinding cfg1)
  with assms obtain cfg2 where b2: "b2 = B_ExternalDNSClusterRoleBinding cfg2"
    by (cases b2) simp_all
  from assms show ?thesis
    unfolding B_ExternalDNSClusterRoleBinding b2 Build.simps
    by (intro conjI ExternalDNSClusterRoleBinding_Build_deterministic)
next
  case (B_HyperShiftOperatorServiceAccount cfg1)
  with assms obtain cfg2 where b2: "b2 = B_HyperShiftOperatorServiceAccount cfg2"
    by (cases b2) simp_all
  from assms show ?thesis
    unfolding B_HyperShiftOperatorServiceAccount b2 Build.simps
    by (intro conjI HyperShiftOperatorServiceAccount_Build_deterministic)
next
  case B_HyperShiftOperatorClusterRole
  with assms have b2: "b2 = B_HyperShiftOperatorClusterRole"
    by (cases b2) simp_all
  show ?thesis
    unfolding B_HyperShiftOperatorClusterRole b2 Build.simps
    by (intro conjI HyperShiftOperatorClusterRole_Build_deterministic)
next
  case (B_HyperShiftOperatorClusterRoleBinding cfg1)
  with assms obtain cfg2 where b2: "b2 = B_HyperShiftOperatorClusterRoleBinding cfg2"
    by (cases b2) simp_all
  from assms show ?thesis
    unfolding B_HyperShiftOperatorClusterRoleBinding b2 Build.simps
    by (intro conjI HyperShiftOperatorClusterRoleBinding_Build_deterministic)
next
  case (B_HyperShiftOperatorRole cfg1)
  with assms obtain cfg2 where b2: "b2 = B_HyperShiftOperatorRole cfg2"
    by (cases b2) simp_all
  from assms show ?thesis
    unfolding B_HyperShiftOperatorRole b2 Build.simps
    by (intro conjI HyperShiftOperatorRole_Build_deterministic)
next
  case (B_HyperShiftOperatorRoleBinding cfg1)
  with assms obtain cfg2 where b2: "b2 = B_HyperShiftOperatorRoleBinding cfg2"
    by (cases b2) simp_all
  from assms show ?thesis
    unfolding B_HyperShiftOperatorRoleBinding b2 Build.simps
    by (intro conjI HyperShiftOperatorRoleBinding_Build_deterministic)
next
  case B_HyperShiftControlPlanePriorityClass
  with assms have b2: "b2 = B_HyperShiftControlPlanePriorityClass"
    by (cases b2) simp_all
  show ?thesis
    unfolding B_HyperShiftControlPlanePriorityClass b2 Build.simps
    by (intro conjI HyperShiftControlPlanePriorityClass_Build_deterministic)
next
  case B_HyperShiftAPICriticalPriorityClass
  with assms have b2: "b2 = B_HyperShiftAPICriticalPriorityClass"
    by (cases b2) simp_all
  show ?thesis
    unfolding B_HyperShiftAPICriticalPriorityClass b2 Build.simps
    by (intro conjI HyperShiftAPICriticalPriorityClass_Build_deterministic)
next
  case B_HyperShiftEtcdPriorityClass
  with assms have b2: "b2 = B_HyperShiftEtcdPriorityClass"
    by (cases b2) simp_all
  show ?thesis
    unfolding B_HyperShiftEtcdPriorityClass b2 Build.simps
    by (intro conjI HyperShiftEtcdPriorityClass_Build_deterministic)
next
  case (B_HyperShiftPrometheusRole cfg1)
  with assms obtain cfg2 where b2: "b2 = B_HyperShiftPrometheusRole cfg2"
    by (cases b2) simp_all
  from assms show ?thesis
    unfolding B_HyperShiftPrometheusRole b2 Build.simps
    by (intro conjI HyperShiftPrometheusRole_Build_deterministic)
next
  case (B_HyperShiftOperatorPrometheusRoleBinding cfg1)
  with assms obtain cfg2 where b2: "b2 = B_HyperShiftOperatorPrometheusRoleBinding cfg2"
    by (cases b2) simp_all
  from assms show ?thesis
    unfolding B_HyperShiftOperatorPrometheusRoleBinding b2 Build.simps
    by (intro conjI HyperShiftOperatorPrometheusRoleBinding_Build_deterministic)
next
  case (B_HyperShiftServiceMonitor cfg1)
  with assms obtain cfg2 where b2: "b2 = B_HyperShiftServiceMonitor cfg2"
    by (cases b2) simp_all
  from assms show ?thesis
    unfolding B_HyperShiftServiceMonitor b2 Build.simps
    by (intro conjI HyperShiftServiceMonitor_Build_deterministic)
next
  case (B_HypershiftRecordingRule cfg1)
  with assms obtain cfg2 where b2: "b2 = B_HypershiftRecordingRule cfg2"
    by (cases b2) simp_all
  from assms show ?thesis
    unfolding B_HypershiftRecordingRule b2 Build.simps
    by (intro conjI HypershiftRecordingRule_Build_deterministic)
next
  case B_HyperShiftClientClusterRole
  with assms have b2: "b2 = B_HyperShiftClientClusterRole"
    by (cases b2) simp_all
  show ?thesis
    unfolding B_HyperShiftClientClusterRole b2 Build.simps
    by (intro conjI HyperShiftClientClusterRole_Build_deterministic)
next
  case (B_HyperShiftClientServiceAccount cfg1)
  with assms obtain cfg2 where b2: "b2 = B_HyperShiftClientServiceAccount cfg2"
    by (cases b2) simp_all
  from assms show ?thesis
    unfolding B_HyperShiftClientServiceAccount b2 Build.simps
    by (intro conjI HyperShiftClientServiceAccount_Build_deterministic)
next
  case (B_HyperShiftClientClusterRoleBinding cfg1)
  with assms obtain cfg2 where b2: "b2 = B_HyperShiftClientClusterRoleBinding cfg2"
    by (cases b2) simp_all
  from assms show ?thesis
    unfolding B_HyperShiftClientClusterRoleBinding b2 Build.simps
    by (intro conjI HyperShiftClientClusterRoleBinding_Build_deterministic)
next
  case B_HyperShiftReaderClusterRole
  with assms have b2: "b2 = B_HyperShiftReaderClusterRole"
    by (cases b2) simp_all
  show ?thesis
    unfolding B_HyperShiftReaderClusterRole b2 Build.simps
    by (intro conjI HyperShiftReaderClusterRole_Build_deterministic)
next
  case (B_HyperShiftReaderClusterRoleBinding cfg1)
  with assms obtain cfg2 where b2: "b2 = B_HyperShiftReaderClusterRoleBinding cfg2"
    by (cases b2) simp_all
  from assms show ?thesis
    unfolding B_HyperShiftReaderClusterRoleBinding b2 Build.simps
    by (intro conjI HyperShiftReaderClusterRoleBinding_Build_deterministic)
qed

text \<open>
  C7. Every \<^verbatim>\<open>Build\<close> is side-effect-free: a call that returns has allocated the object
  it returns at a fresh address and has left every object that was in the heap before,
  among them the objects the configuration points to, as it was (the configuration
  struct itself is the method's own copy). And it is deterministic: the outcome of a
  call, a panic or the object returned, is determined by the value of the configuration,
  that is by its fields and the objects they point to, not by the addresses or the rest
  of the heap.
\<close>

theorem Build_deterministic_and_side_effect_free:
  "(\<forall>p h'. Build hyperv1 recordingRuleSpec b h = Some (p, h') \<longrightarrow>
      p = length h \<and> length h' = Suc (length h) \<and> (\<forall>a < length h. h' ! a = h ! a)) \<and>
   (config_value b1 h1 = config_value b2 h2 \<longrightarrow>
      (Build hyperv1 recordingRuleSpec b1 h1 = None \<longleftrightarrow>
       Build hyperv1 recordingRuleSpec b2 h2 = None) \<and>
      built (Build hyperv1 recordingRuleSpec b1 h1) =
      built (Build hyperv1 recordingRuleSpec b2 h2))"
proof (intro conjI allI impI)
  fix p h'
  assume "Build hyperv1 recordingRuleSpec b h = Some (p, h')"
  from Build_allocates [OF this] obtain x where p: "p = length h" and h': "h' = h @ [x]"
    by blast
  from p show "p = length h" .
  from h' show "length h' = Suc (length h)" by simp
  fix a
  assume "a < length h"
  with h' show "h' ! a = h ! a" by (simp add: nth_append)
next
  assume "config_value b1 h1 = config_value b2 h2"
  from Build_deterministic [OF this, of hyperv1 recordingRuleSpec]
  show "Build hyperv1 recordingRuleSpec b1 h1 = None \<longleftrightarrow>
        Build hyperv1 recordingRuleSpec b2 h2 = None"
    and "built (Build hyperv1 recordingRuleSpec b1 h1) =
         built (Build hyperv1 recordingRuleSpec b2 h2)"
    by simp_all
qed

theorem Build_deterministic_and_side_effect_free_witness:
  "config_value (B_HyperShiftOperatorDeployment (example_operator ''AWS'' True)) example_heap =
   config_value (B_HyperShiftOperatorDeployment example_operator_moved) (rev example_heap) \<and>
   built (Build example_hyperv1 example_recordingRuleSpec
            (B_HyperShiftOperatorDeployment (example_operator ''AWS'' True)) example_heap) =
   built (Build example_hyperv1 example_recordingRuleSpec
            (B_HyperShiftOperatorDeployment example_operator_moved) (rev example_heap)) \<and>
   (\<exists>h'. Build example_hyperv1 example_recordingRuleSpec
            (B_HyperShiftOperatorDeployment (example_operator ''AWS'' True)) example_heap =
          Some (5, h') \<and>
      length h' = 6 \<and> take 5 h' = example_heap)"
proof -
  have same_value:
    "config_value (B_HyperShiftOperatorDeployment (example_operator ''AWS'' True)) example_heap =
     config_value (B_HyperShiftOperatorDeployment example_operator_moved) (rev example_heap)"
    by (simp add: example_operator_def example_operator_moved_def example_heap_def pointee_def
          load_Namespace_def load_ServiceAccount_def load_Secret_def deref_def)
  note claim = Build_deterministic_and_side_effect_free
    [of example_hyperv1 example_recordingRuleSpec
        "B_HyperShiftOperatorDeployment (example_operator ''AWS'' True)" example_heap
        "B_HyperShiftOperatorDeployment (example_operator ''AWS'' True)" example_heap
        "B_HyperShiftOperatorDeployment example_operator_moved" "rev example_heap"]
  have len: "length example_heap = 5"
    by (simp add: example_heap_def)
  have "Build example_hyperv1 example_recordingRuleSpec
      (B_HyperShiftOperatorDeployment (example_operator ''AWS'' True)) example_heap \<noteq> None"
    using example_operator_returns [of "''AWS''" True]
    by (simp add: HyperShiftOperatorDeployment_Build_None)
  then obtain p h' where build: "Build example_hyperv1 example_recordingRuleSpec
      (B_HyperShiftOperatorDeployment (example_operator ''AWS'' True)) example_heap = Some (p, h')"
    by auto
  with claim len have p: "p = 5" and h': "length h' = 6" "\<forall>a<5. h' ! a = example_heap ! a"
    by simp_all
  from h' len have "take 5 h' = example_heap"
    by (intro nth_equalityI) simp_all
  with claim same_value build p h' show ?thesis
    by simp
qed

end
